theory Spec2Isabelle
  imports Complex_Main "HOL-Library.Monad_Syntax"
begin

section \<open>JavaScript numbers and arithmetic helpers\<close>

text \<open>
  The animation code computes with JavaScript numbers. They are modelled as real numbers:
  rounding and overflow of IEEE doubles are abstracted away. What remains of the non-finite
  values is division: on finite operands a JavaScript division yields \<open>Infinity\<close> or
  \<open>NaN\<close> exactly when the divisor is zero. Every division whose divisor is not a constant of
  the source (2, 8, 90, 1000) is therefore written with \<open>js_div\<close>, which returns \<open>None\<close> for a
  zero divisor, and the functions containing one run in the option monad. \<open>None\<close> also
  stands for a thrown \<open>TypeError\<close> (reading a field of \<open>undefined\<close>).
\<close>

definition js_div :: "real \<Rightarrow> real \<Rightarrow> real option" where
  "js_div a b = (if b = 0 then None else Some (a / b))"

definition js_trunc :: "real \<Rightarrow> int" where
  "js_trunc v = (if 0 \<le> v then \<lfloor>v\<rfloor> else \<lceil>v\<rceil>)"

text \<open>The remainder operator \<open>a % b\<close>: the result takes the sign of the dividend.\<close>

definition js_rem :: "real \<Rightarrow> real \<Rightarrow> real option" where
  "js_rem a b = (if b = 0 then None else Some (a - b * of_int (js_trunc (a / b))))"

text \<open>\<open>Math.round\<close> rounds half up.\<close>

definition js_round :: "real \<Rightarrow> int" where
  "js_round v = \<lfloor>v + 1 / 2\<rfloor>"

definition hypot :: "real \<Rightarrow> real \<Rightarrow> real" where
  "hypot a b = sqrt (a * a + b * b)"

record Point =
  pt_x :: real
  pt_y :: real

section \<open>TyphoonCanvas\<close>

record TyphoonProps =
  spin :: real
  travel :: real
  wind :: real
  pathAmp :: real
  bands :: real

record TyphoonState =
  startTime :: real
  centers :: "Point list"
  lastTrailSample :: real

text \<open>The canvas size (\<open>clientWidth\<close>, \<open>clientHeight\<close>) is a non-negative integer.\<close>

definition sampleCenter :: "TyphoonProps \<Rightarrow> nat \<Rightarrow> nat \<Rightarrow> real \<Rightarrow> Point option" where
  "sampleCenter pr w h tSec = do {
     let speed = travel pr;
     totalX \<leftarrow> js_rem (tSec * speed) (real w + 240);
     let x = - 120 + totalX;
     let amp = pathAmp pr;
     k \<leftarrow> js_div (2 * pi) (max 360 (real w));
     let y = real h * 0.5 + amp * sin ((x + 160) * k);
     Some \<lparr>pt_x = x, pt_y = y\<rparr>
   }"

definition windK_of :: "real \<Rightarrow> real" where
  "windK_of wnd = max 0 (min 1.6 wnd)"

definition bandCount_of :: "real \<Rightarrow> int" where
  "bandCount_of bnd = max 1 (min 10 (js_round bnd))"

definition thetaMax :: real where
  "thetaMax = 5 * pi * 2"

definition seg :: real where
  "seg = 0.18"

text \<open>The inner loop \<open>for (th = 0; th <= thetaMax; th += seg)\<close> of one spiral band.\<close>

function spiral_points :: "real \<Rightarrow> real \<Rightarrow> real \<Rightarrow> real \<Rightarrow> real \<Rightarrow> real \<Rightarrow> Point list" where
  "spiral_points cx cy a rot offset th =
     (if th \<le> thetaMax then
        (let r = a * exp (0.18 * th);
             ang = th + rot + offset
         in \<lparr>pt_x = cx + r * cos ang, pt_y = cy + r * sin ang\<rparr>
              # spiral_points cx cy a rot offset (th + seg))
      else [])"
  by pat_completeness auto
termination
proof (relation "measure (\<lambda>(cx, cy, a, rot, offset, th). nat (\<lfloor>(thetaMax - th) / seg\<rfloor> + 1))")
  show "wf (measure (\<lambda>(cx, cy, a, rot, offset, th). nat (\<lfloor>(thetaMax - th) / seg\<rfloor> + 1)))"
    by simp
next
  fix cx cy a rot offset th :: real
  assume le: "th \<le> thetaMax"
  have "(thetaMax - (th + seg)) / seg = (thetaMax - th) / seg - 1"
    by (simp add: seg_def field_simps)
  then have fl: "\<lfloor>(thetaMax - (th + seg)) / seg\<rfloor> = \<lfloor>(thetaMax - th) / seg\<rfloor> - 1"
    by simp
  have "0 \<le> (thetaMax - th) / seg"
    using le by (simp add: seg_def)
  then have "0 \<le> \<lfloor>(thetaMax - th) / seg\<rfloor>"
    by simp
  with fl show "((cx, cy, a, rot, offset, th + seg), (cx, cy, a, rot, offset, th))
      \<in> measure (\<lambda>(cx, cy, a, rot, offset, th). nat (\<lfloor>(thetaMax - th) / seg\<rfloor> + 1))"
    by simp
qed

record Band =
  band_points :: "Point list"
  band_alpha :: real
  band_lightness :: nat
  band_lineWidth :: real

record CycloneDrawing =
  cyc_bands :: "Band list"
  eye_radius :: real
  eyewall_radius :: real
  eyewall_alpha :: real

text \<open>The outer loop \<open>for (k = 0; k < bandCount; k++)\<close>, counting \<open>k\<close> upwards.\<close>

function band_loop :: "real \<Rightarrow> real \<Rightarrow> real \<Rightarrow> int \<Rightarrow> real \<Rightarrow> int \<Rightarrow> Band list option" where
  "band_loop cx cy windK bandCount rot k =
     (if k < bandCount then do {
        let a = 3 + 3 * windK;
        let baseAlpha = 0.08 + 0.18 * windK;
        let lineBase = max 0.6 (1.0 * windK);
        offset \<leftarrow> js_div (real_of_int k * 2 * pi) (real_of_int bandCount);
        let pts = spiral_points cx cy a rot offset 0;
        q \<leftarrow> js_div (real_of_int k) (real_of_int bandCount + 1);
        let alpha = max 0.02 (baseAlpha * (1 - q));
        let b = \<lparr>band_points = pts, band_alpha = alpha,
                 band_lightness = (if windK > 1 then 60 else 65),
                 band_lineWidth = lineBase + real_of_int (bandCount - k) * 0.25\<rparr>;
        bs \<leftarrow> band_loop cx cy windK bandCount rot (k + 1);
        Some (b # bs)
      } else Some [])"
  by pat_completeness auto
termination
  by (relation "measure (\<lambda>(cx, cy, windK, bandCount, rot, k). nat (bandCount - k))") auto

definition drawCyclone :: "TyphoonProps \<Rightarrow> real \<Rightarrow> real \<Rightarrow> real \<Rightarrow> CycloneDrawing option" where
  "drawCyclone pr cx cy timeSec = do {
     let windK = windK_of (wind pr);
     let bandCount = bandCount_of (bands pr);
     let rot = timeSec * spin pr;
     bs \<leftarrow> band_loop cx cy windK bandCount rot 0;
     let eyeR = 8 + 3 * windK;
     Some \<lparr>cyc_bands = bs, eye_radius = eyeR * 2.2, eyewall_radius = eyeR,
           eyewall_alpha = 0.35 + windK * 0.15\<rparr>
   }"

text \<open>
  The trail sampling of \<open>loop\<close>: at most one sample per 40 ms, only when the centre moved by
  more than 2 px from the last stored point, and at most 400 stored points.
\<close>

definition record_trail :: "real \<Rightarrow> Point \<Rightarrow> TyphoonState \<Rightarrow> TyphoonState" where
  "record_trail now c st =
     (if now - lastTrailSample st > 40 then
        (let pts = centers st;
             pts' = (if pts = [] \<or> hypot (pt_x (last pts) - pt_x c) (pt_y (last pts) - pt_y c) > 2
                     then (let pushed = pts @ [c]
                           in if length pushed > 400 then drop (length pushed - 400) pushed
                              else pushed)
                     else pts)
         in st\<lparr>centers := pts', lastTrailSample := now\<rparr>)
      else st)"

record TyphoonFrame =
  frame_center :: Point
  frame_trail :: "Point list"
  frame_cyclone :: CycloneDrawing

definition loop :: "TyphoonProps \<Rightarrow> nat \<Rightarrow> nat \<Rightarrow> real \<Rightarrow> TyphoonState
    \<Rightarrow> (TyphoonState \<times> TyphoonFrame) option" where
  "loop pr w h now st = do {
     let tSec = (now - startTime st) / 1000;
     c \<leftarrow> sampleCenter pr w h tSec;
     let st' = record_trail now c st;
     cyc \<leftarrow> drawCyclone pr (pt_x c) (pt_y c) tSec;
     Some (st', \<lparr>frame_center = c, frame_trail = centers st', frame_cyclone = cyc\<rparr>)
   }"


text \<open>A run of the animation: one call of \<open>loop\<close> per display frame.\<close>

record TyphoonTick =
  tick_width :: nat
  tick_height :: nat
  tick_now :: real

fun typhoon_run :: "TyphoonProps \<Rightarrow> TyphoonTick list \<Rightarrow> TyphoonState \<Rightarrow> TyphoonState option" where
  "typhoon_run pr [] st = Some st"
| "typhoon_run pr (f # fs) st = do {
     (st', fr) \<leftarrow> loop pr (tick_width f) (tick_height f) (tick_now f) st;
     typhoon_run pr fs st'
   }"

text \<open>The effect body resets the trail and the start time on mount.\<close>

definition typhoon_mount :: "real \<Rightarrow> TyphoonState" where
  "typhoon_mount now = \<lparr>startTime = now, centers = [], lastTrailSample = 0\<rparr>"

section \<open>State shared by WaveCanvas and ShoalingCanvas\<close>

record Pointer =
  ptr_x :: real
  ptr_y :: real
  inside :: bool

record Ripple =
  r_x :: real
  strength :: real
  radius :: real
  decay :: real

record Particle =
  p_x :: real
  p_y :: real
  p_vx :: real
  p_vy :: real
  life :: real
  maxLife :: real
  p_size :: real
  p_alpha :: real

text \<open>
  The refs and closure variables both canvases hold. \<open>Math.random()\<close> is an input of each
  frame: \<open>f_rnd fr n\<close> is the value of the \<open>n\<close>-th call made during that frame.
\<close>

record CanvasRefs =
  mounted :: bool
  ampRef :: real
  speedRef :: real
  pointerRef :: Pointer
  ripplesRef :: "Ripple list"
  particlesRef :: "Particle list"
  lastY :: real

record Frame =
  f_now :: real
  f_width :: nat
  f_height :: nat
  f_rnd :: "nat \<Rightarrow> real"

text \<open>
  The crest sampler both canvases hand to their particle system:
  \<open>pts[Math.max(0, Math.min(pts.length - 1, Math.round(x / 2)))].y\<close>. On an empty array the
  index is 0, the element is \<open>undefined\<close> and reading \<open>.y\<close> throws.
\<close>

definition crestSampler :: "Point list \<Rightarrow> real \<Rightarrow> real option" where
  "crestSampler pts x =
     (let idx = max 0 (min (int (length pts) - 1) (js_round (x / 2)))
      in if nat idx < length pts then Some (pt_y (pts ! nat idx)) else None)"

definition onTouchStart :: "real \<Rightarrow> 'a CanvasRefs_scheme \<Rightarrow> 'a CanvasRefs_scheme" where
  "onTouchStart y st = st\<lparr>lastY := y\<rparr>"

definition onMouseMove :: "real \<Rightarrow> real \<Rightarrow> 'a CanvasRefs_scheme \<Rightarrow> 'a CanvasRefs_scheme" where
  "onMouseMove x y st = st\<lparr>pointerRef := \<lparr>ptr_x = x, ptr_y = y, inside = True\<rparr>\<rparr>"

definition onMouseLeave :: "'a CanvasRefs_scheme \<Rightarrow> 'a CanvasRefs_scheme" where
  "onMouseLeave st = st\<lparr>pointerRef := (pointerRef st)\<lparr>inside := False\<rparr>\<rparr>"

section \<open>WaveCanvas\<close>

record WaveState = CanvasRefs +
  phaseRef :: real
  wlRef :: real

text \<open>The prop-syncing effect copies the props into the refs as they are.\<close>

definition wave_syncProps :: "real \<Rightarrow> real \<Rightarrow> real \<Rightarrow> WaveState \<Rightarrow> WaveState" where
  "wave_syncProps amplitude speed wavelength st =
     st\<lparr>ampRef := amplitude, speedRef := speed, wlRef := wavelength\<rparr>"

definition wave_onTouchMove :: "real \<Rightarrow> WaveState \<Rightarrow> WaveState" where
  "wave_onTouchMove y st =
     (let dy = lastY st - y
      in st\<lparr>lastY := y, ampRef := max 5 (min 120 (ampRef st + dy * 0.2))\<rparr>)"

definition wave_spawnRippleAt :: "real \<Rightarrow> WaveState \<Rightarrow> WaveState" where
  "wave_spawnRippleAt px st =
     st\<lparr>ripplesRef := ripplesRef st @ [\<lparr>r_x = px, strength = 18, radius = 120, decay = 0.985\<rparr>]\<rparr>"

text \<open>
  \<open>rippleOffset\<close> walks the array from its last index down to 0; the recursive call on the
  tail is that part of the walk that comes before the head. Every call decays every ripple.
\<close>

fun wave_rippleOffset :: "real \<Rightarrow> real \<Rightarrow> real \<Rightarrow> Ripple list \<Rightarrow> (real \<times> Ripple list) option" where
  "wave_rippleOffset spd x t [] = Some (0, [])"
| "wave_rippleOffset spd x t (r # rs) = do {
     (dy, rs') \<leftarrow> wave_rippleOffset spd x t rs;
     let sigma = radius r * 0.6;
     let dx = x - r_x r;
     let w = max 0.12 (0.18 * spd);
     e \<leftarrow> js_div (- (dx * dx)) (2 * sigma * sigma);
     let envelope = exp e;
     q \<leftarrow> js_div dx sigma;
     let dy' = dy + strength r * envelope * cos (q * 2.2 - w * t);
     let r' = r\<lparr>strength := strength r * decay r\<rparr>;
     Some (dy', if strength r' < 0.3 then rs' else r' # rs')
   }"

definition pointerHint :: "Pointer \<Rightarrow> real \<Rightarrow> real" where
  "pointerHint pointer x =
     (if \<not> inside pointer then 0
      else (let dx = \<bar>x - ptr_x pointer\<bar>; r = 90
            in if dx > r then 0 else (let k = 1 - dx / r in k * 2.5)))"

text \<open>The sampling loop \<open>for (x = 0; x <= w; x += 2)\<close> of \<open>drawWaveLayer\<close>.\<close>

function wave_points :: "WaveState \<Rightarrow> nat \<Rightarrow> real \<Rightarrow> real \<Rightarrow> real \<Rightarrow> real \<Rightarrow> nat \<Rightarrow> nat
    \<Rightarrow> Ripple list \<Rightarrow> (Point list \<times> Ripple list) option" where
  "wave_points st layerIndex t amp wl yBase w x rs =
     (if x \<le> w then do {
        s \<leftarrow> js_div (real x + phaseRef st * 60 * (real layerIndex + 1)) wl;
        (ro, rs') \<leftarrow> wave_rippleOffset (speedRef st) (real x) t rs;
        let crest = sin s * amp + ro + pointerHint (pointerRef st) (real x);
        (pts, rs'') \<leftarrow> wave_points st layerIndex t amp wl yBase w (x + 2) rs';
        Some (\<lparr>pt_x = real x, pt_y = yBase + crest\<rparr> # pts, rs'')
      } else Some ([], rs))"
  by pat_completeness auto
termination
  by (relation "measure (\<lambda>(st, layerIndex, t, amp, wl, yBase, w, x, rs). Suc w - x)") auto

definition drawWaveLayer :: "nat \<Rightarrow> real \<Rightarrow> nat \<Rightarrow> nat \<Rightarrow> WaveState \<Rightarrow> Ripple list
    \<Rightarrow> (Point list \<times> Ripple list) option" where
  "drawWaveLayer layerIndex t w h st rs =
     (let baseAmp = ampRef st;
          baseWl = wlRef st;
          amp = baseAmp * (1 - real layerIndex * 0.22);
          wl = max 80 (baseWl - real layerIndex * 44);
          yBase = real h * 0.5 + real layerIndex * 6
      in wave_points st layerIndex t amp wl yBase w 0 rs)"

text \<open>
  The layer loop \<open>for (i = layerCount - 1; i >= 0; i--)\<close>; the points of layer 0 are the
  crest that the particles sample.
\<close>

fun wave_layers :: "nat \<Rightarrow> real \<Rightarrow> nat \<Rightarrow> nat \<Rightarrow> WaveState \<Rightarrow> Ripple list
    \<Rightarrow> (Point list \<times> Ripple list) option" where
  "wave_layers 0 t w h st rs = drawWaveLayer 0 t w h st rs"
| "wave_layers (Suc i) t w h st rs = do {
     (pts, rs') \<leftarrow> drawWaveLayer (Suc i) t w h st rs;
     wave_layers i t w h st rs'
   }"

definition wave_maxParticles :: "nat \<Rightarrow> int" where
  "wave_maxParticles w = max 40 (min 110 \<lfloor>real w / 8\<rfloor>)"

fun wave_spawn :: "nat \<Rightarrow> int \<Rightarrow> nat \<Rightarrow> real \<Rightarrow> Point list \<Rightarrow> (nat \<Rightarrow> real) \<Rightarrow> nat
    \<Rightarrow> Particle list \<Rightarrow> Particle list option" where
  "wave_spawn 0 maxParticles w spd pts rn n ps = Some ps"
| "wave_spawn (Suc k) maxParticles w spd pts rn n ps =
     (if int (length ps) \<ge> maxParticles then Some ps
      else do {
        let x = rn n * real w;
        c \<leftarrow> crestSampler pts x;
        let y = c - 4 + (rn (n + 1) - 0.5) * 6;
        let p = \<lparr>p_x = x, p_y = y,
                 p_vx = 0.6 + rn (n + 2) * 0.6 + spd * 0.2,
                 p_vy = - 0.15 + (rn (n + 3) - 0.5) * 0.3,
                 life = 0,
                 maxLife = 60 + rn (n + 4) * 60,
                 p_size = 1.2 + rn (n + 5) * 1.6,
                 p_alpha = 0.8\<rparr>;
        wave_spawn k maxParticles w spd pts rn (n + 6) (ps @ [p])
      })"

text \<open>One particle's update, up to the removal test.\<close>

definition wave_advance :: "Pointer \<Rightarrow> Particle \<Rightarrow> Particle option" where
  "wave_advance pr p = do {
     let p1 = p\<lparr>life := life p + 1, p_x := p_x p + p_vx p, p_y := p_y p + p_vy p\<rparr>;
     let p2 = p1\<lparr>p_vy := p_vy p1 + 0.003\<rparr>;
     p3 \<leftarrow> (if inside pr then
              (let dx = p_x p2 - ptr_x pr;
                   dy = p_y p2 - ptr_y pr;
                   d2 = dx * dx + dy * dy
               in if d2 < 38 * 38 then do {
                    let d = (if sqrt d2 = 0 then 1 else sqrt d2);
                    ux \<leftarrow> js_div dx d;
                    uy \<leftarrow> js_div dy d;
                    Some (p2\<lparr>p_vx := p_vx p2 + ux * 0.08, p_vy := p_vy p2 + uy * 0.08\<rparr>)
                  } else Some p2)
            else Some p2);
     lifeRatio \<leftarrow> js_div (life p3) (maxLife p3);
     Some (p3\<lparr>p_alpha := 0.8 * (1 - lifeRatio)\<rparr>)
   }"

definition wave_removed :: "nat \<Rightarrow> nat \<Rightarrow> Particle \<Rightarrow> bool" where
  "wave_removed w h p \<longleftrightarrow> life p \<ge> maxLife p \<or> p_x p > real w + 5 \<or> p_y p > real h + 5"

text \<open>
  The update loop runs from the last index down to 0 and splices removed particles out;
  the particles kept are drawn.
\<close>

fun wave_update :: "nat \<Rightarrow> nat \<Rightarrow> Pointer \<Rightarrow> Particle list \<Rightarrow> Particle list option" where
  "wave_update w h pr [] = Some []"
| "wave_update w h pr (p # ps) = do {
     ps' \<leftarrow> wave_update w h pr ps;
     p' \<leftarrow> wave_advance pr p;
     Some (if wave_removed w h p' then ps' else p' # ps')
   }"

definition updateAndDrawParticles :: "nat \<Rightarrow> nat \<Rightarrow> WaveState \<Rightarrow> Point list \<Rightarrow> (nat \<Rightarrow> real)
    \<Rightarrow> Particle list option" where
  "updateAndDrawParticles w h st pts rn = do {
     let particles = particlesRef st;
     let maxParticles = wave_maxParticles w;
     let spawnCount = (if int (length particles) < maxParticles then 4 else 1);
     spawned \<leftarrow> wave_spawn spawnCount maxParticles w (speedRef st) pts rn 0 particles;
     wave_update w h (pointerRef st) spawned
   }"

text \<open>
  One frame of WaveCanvas. The painting calls have no effect on the state and are left out;
  the crest polyline of the front layer is returned with the new state.
\<close>

definition wave_draw :: "Frame \<Rightarrow> WaveState \<Rightarrow> (WaveState \<times> Point list) option" where
  "wave_draw fr st =
     (if \<not> mounted st then Some (st, [])
      else do {
        let w = f_width fr;
        let h = f_height fr;
        let st1 = st\<lparr>phaseRef := phaseRef st + 0.02 * speedRef st\<rparr>;
        let t = f_now fr * 0.001;
        (pts, rs) \<leftarrow> wave_layers 4 t w h st1 (ripplesRef st1);
        let st2 = st1\<lparr>ripplesRef := rs\<rparr>;
        ps \<leftarrow> updateAndDrawParticles w h st2 pts (f_rnd fr);
        Some (st2\<lparr>particlesRef := ps\<rparr>, pts)
      })"

text \<open>The refs as the component creates them from its props.\<close>

definition wave_initial :: "real \<Rightarrow> real \<Rightarrow> real \<Rightarrow> WaveState" where
  "wave_initial amplitude speed wavelength =
     \<lparr>mounted = True, ampRef = amplitude, speedRef = speed,
      pointerRef = \<lparr>ptr_x = 0, ptr_y = 0, inside = False\<rparr>,
      ripplesRef = [], particlesRef = [], lastY = 0,
      phaseRef = 0, wlRef = wavelength\<rparr>"

text \<open>
  Everything that happens to a mounted WaveCanvas: a change of props, the touch and mouse
  handlers, and the frames. All of it runs on one thread, one event after the other.
\<close>

datatype WaveEvent =
    WaveProps real real real
  | WaveTouchStart real
  | WaveTouchMove real
  | WaveRipple real
  | WaveMouseMove real real
  | WaveMouseLeave
  | WaveFrame Frame

fun wave_event :: "WaveEvent \<Rightarrow> WaveState \<Rightarrow> WaveState option" where
  "wave_event (WaveProps amplitude speed wavelength) st = Some (wave_syncProps amplitude speed wavelength st)"
| "wave_event (WaveTouchStart y) st = Some (onTouchStart y st)"
| "wave_event (WaveTouchMove y) st = Some (wave_onTouchMove y st)"
| "wave_event (WaveRipple px) st = Some (wave_spawnRippleAt px st)"
| "wave_event (WaveMouseMove x y) st = Some (onMouseMove x y st)"
| "wave_event WaveMouseLeave st = Some (onMouseLeave st)"
| "wave_event (WaveFrame fr) st = map_option fst (wave_draw fr st)"

fun wave_events :: "WaveEvent list \<Rightarrow> WaveState \<Rightarrow> WaveState option" where
  "wave_events [] st = Some st"
| "wave_events (e # es) st = do {
     st' \<leftarrow> wave_event e st;
     wave_events es st'
   }"

section \<open>ShoalingCanvas\<close>

record ShoalState = CanvasRefs +
  timeRef :: real

definition shoal_syncAmplitude :: "real \<Rightarrow> ShoalState \<Rightarrow> ShoalState" where
  "shoal_syncAmplitude amplitude st = st\<lparr>ampRef := amplitude\<rparr>"

definition shoal_syncSpeed :: "real \<Rightarrow> ShoalState \<Rightarrow> ShoalState" where
  "shoal_syncSpeed speed st = st\<lparr>speedRef := speed\<rparr>"

definition shoal_onTouchMove :: "real \<Rightarrow> ShoalState \<Rightarrow> ShoalState" where
  "shoal_onTouchMove y st =
     (let dy = lastY st - y
      in st\<lparr>lastY := y, ampRef := max 6 (min 120 (ampRef st + dy * 0.22))\<rparr>)"

definition shoal_spawnRipple :: "real \<Rightarrow> ShoalState \<Rightarrow> ShoalState" where
  "shoal_spawnRipple x st =
     st\<lparr>ripplesRef := ripplesRef st @ [\<lparr>r_x = x, strength = 10, radius = 120, decay = 0.985\<rparr>]\<rparr>"

definition seabedY :: "real \<Rightarrow> real \<Rightarrow> real \<Rightarrow> real option" where
  "seabedY x w h =
     (let base = h - max 8 (h * 0.03);
          slopeStart = w * 0.18;
          slopeEnd = w * 0.72;
          topY = h * 0.46
      in if x \<le> slopeStart then Some base
         else if x \<le> slopeEnd then do {
           t \<leftarrow> js_div (x - slopeStart) (slopeEnd - slopeStart);
           Some (base + (topY - base) * t)
         }
         else Some topY)"

definition shoalProgress :: "real \<Rightarrow> real \<Rightarrow> real option" where
  "shoalProgress x w =
     (let slopeStart = w * 0.18;
          slopeEnd = w * 0.72
      in if x \<le> slopeStart then Some 0
         else if x \<ge> slopeEnd then Some 1
         else do {
           t \<leftarrow> js_div (x - slopeStart) (slopeEnd - slopeStart);
           Some (t * t * (3 - 2 * t))
         })"

text \<open>The local amplitude \<open>A\<close>; \<open>amp0\<close> is the current value of \<open>ampRef\<close>.\<close>

definition A :: "real \<Rightarrow> real \<Rightarrow> real \<Rightarrow> real option" where
  "A amp0 x w = do {
     p \<leftarrow> shoalProgress x w;
     Some (amp0 * (1 + 1.4 * p))
   }"

definition lambda :: "real \<Rightarrow> real \<Rightarrow> real option" where
  "lambda x w = do {
     let deep = 260;
     let shallow = 70;
     p \<leftarrow> shoalProgress x w;
     Some (deep + (shallow - deep) * p)
   }"

fun shoal_rippleOffset :: "real \<Rightarrow> Ripple list \<Rightarrow> (real \<times> Ripple list) option" where
  "shoal_rippleOffset x [] = Some (0, [])"
| "shoal_rippleOffset x (r # rs) = do {
     (dy, rs') \<leftarrow> shoal_rippleOffset x rs;
     let dx = x - r_x r;
     let sigma = radius r * 0.6;
     e \<leftarrow> js_div (- (dx * dx)) (2 * sigma * sigma);
     let env = exp e;
     let dy' = dy + strength r * env;
     let r' = r\<lparr>strength := strength r * decay r\<rparr>;
     Some (dy', if strength r' < 0.25 then rs' else r' # rs')
   }"

text \<open>The seabed polygon: \<open>for (x = 0; x <= w; x += 3) ctx.lineTo(x, seabedY(x, w, h))\<close>.\<close>

function seabed_points :: "nat \<Rightarrow> nat \<Rightarrow> nat \<Rightarrow> Point list option" where
  "seabed_points w h x =
     (if x \<le> w then do {
        y \<leftarrow> seabedY (real x) (real w) (real h);
        pts \<leftarrow> seabed_points w h (x + 3);
        Some (\<lparr>pt_x = real x, pt_y = y\<rparr> # pts)
      } else Some [])"
  by pat_completeness auto
termination
  by (relation "measure (\<lambda>(w, h, x). Suc w - x)") auto

text \<open>The way back along the seabed: \<open>for (x = w; x >= 0; x -= 3)\<close>.\<close>

function seabed_points_back :: "nat \<Rightarrow> nat \<Rightarrow> int \<Rightarrow> Point list option" where
  "seabed_points_back w h x =
     (if x \<ge> 0 then do {
        y \<leftarrow> seabedY (real_of_int x) (real w) (real h);
        pts \<leftarrow> seabed_points_back w h (x - 3);
        Some (\<lparr>pt_x = real_of_int x, pt_y = y\<rparr> # pts)
      } else Some [])"
  by pat_completeness auto
termination
  by (relation "measure (\<lambda>(w, h, x). nat (x + 1))") auto

text \<open>
  The local variables of the surface loop's body at one \<open>x\<close>; the loop pushes \<open>{x, y}\<close>.
\<close>

record SurfaceSample =
  smp_x :: real
  smp_lam :: real
  smp_theta :: real
  smp_yWave :: real
  smp_bed :: real
  smp_y :: real

definition sample_point :: "SurfaceSample \<Rightarrow> Point" where
  "sample_point s = \<lparr>pt_x = smp_x s, pt_y = smp_y s\<rparr>"

text \<open>The hover lift of the surface near the pointer.\<close>

definition shoal_lift :: "Pointer \<Rightarrow> real \<Rightarrow> real" where
  "shoal_lift pr x =
     (if inside pr then
        (let d = \<bar>x - ptr_x pr\<bar>; r = 90
         in if d < r then (1 - d / r) * 2.2 else 0)
      else 0)"

text \<open>
  The body of the surface loop: the phase \<open>theta\<close> is advanced by \<open>k * dx\<close> with \<open>dx = 2\<close>,
  and the surface is held 2 px off the seabed.
\<close>

definition surface_sample :: "ShoalState \<Rightarrow> real \<Rightarrow> real \<Rightarrow> real \<Rightarrow> real \<Rightarrow> real \<Rightarrow> Ripple list
    \<Rightarrow> (SurfaceSample \<times> Ripple list) option" where
  "surface_sample st w h baseY theta0 x rs = do {
     lam \<leftarrow> lambda x w;
     k \<leftarrow> js_div (2 * pi) lam;
     let theta = theta0 + k * 2;
     let lift = shoal_lift (pointerRef st) x;
     Ay \<leftarrow> A (ampRef st) x w;
     (ro, rs') \<leftarrow> shoal_rippleOffset x rs;
     let yWave = baseY + Ay * sin theta + ro + lift;
     bed \<leftarrow> seabedY x w h;
     let y = min yWave (bed - 2);
     Some (\<lparr>smp_x = x, smp_lam = lam, smp_theta = theta, smp_yWave = yWave,
            smp_bed = bed, smp_y = y\<rparr>, rs')
   }"

text \<open>The surface loop \<open>for (x = 0; x <= w; x += dx)\<close>.\<close>

function surface_points :: "ShoalState \<Rightarrow> nat \<Rightarrow> nat \<Rightarrow> real \<Rightarrow> real \<Rightarrow> nat \<Rightarrow> Ripple list
    \<Rightarrow> (SurfaceSample list \<times> Ripple list) option" where
  "surface_points st w h baseY theta x rs =
     (if x \<le> w then do {
        (smp, rs') \<leftarrow> surface_sample st (real w) (real h) baseY theta (real x) rs;
        (smps, rs'') \<leftarrow> surface_points st w h baseY (smp_theta smp) (x + 2) rs';
        Some (smp # smps, rs'')
      } else Some ([], rs))"
  by pat_completeness auto
termination
  by (relation "measure (\<lambda>(st, w, h, baseY, theta, x, rs). Suc w - x)") auto

definition shoal_max :: "nat \<Rightarrow> int" where
  "shoal_max w = max 36 (min 120 \<lfloor>real w / 8\<rfloor>)"

fun shoal_spawn :: "nat \<Rightarrow> nat \<Rightarrow> real \<Rightarrow> Point list \<Rightarrow> (nat \<Rightarrow> real) \<Rightarrow> nat
    \<Rightarrow> Particle list \<Rightarrow> Particle list option" where
  "shoal_spawn 0 w spd pts rn n ps = Some ps"
| "shoal_spawn (Suc k) w spd pts rn n ps = do {
     let x = real w * (0.45 + rn n * 0.5);
     c \<leftarrow> crestSampler pts x;
     let y = c - 3 + (rn (n + 1) - 0.5) * 4;
     let p = \<lparr>p_x = x, p_y = y,
              p_vx = 0.8 + rn (n + 2) * 0.8 + spd * 0.4,
              p_vy = - 0.12 + (rn (n + 3) - 0.5) * 0.24,
              life = 0,
              maxLife = 60 + rn (n + 4) * 70,
              p_size = 1 + rn (n + 5) * 1.8,
              p_alpha = 0.85\<rparr>;
     shoal_spawn k w spd pts rn (n + 6) (ps @ [p])
   }"

definition shoal_advance :: "Pointer \<Rightarrow> Particle \<Rightarrow> Particle option" where
  "shoal_advance pr p = do {
     let p1 = p\<lparr>life := life p + 1, p_x := p_x p + p_vx p, p_y := p_y p + p_vy p\<rparr>;
     let p2 = p1\<lparr>p_vy := p_vy p1 + 0.004\<rparr>;
     p3 \<leftarrow> (if inside pr then
              (let dx = p_x p2 - ptr_x pr;
                   dy = p_y p2 - ptr_y pr;
                   d2 = dx * dx + dy * dy
               in if d2 < 40 * 40 then do {
                    let d = (if sqrt d2 = 0 then 1 else sqrt d2);
                    ux \<leftarrow> js_div dx d;
                    uy \<leftarrow> js_div dy d;
                    Some (p2\<lparr>p_vx := p_vx p2 + ux * 0.08, p_vy := p_vy p2 + uy * 0.08\<rparr>)
                  } else Some p2)
            else Some p2);
     r \<leftarrow> js_div (life p3) (maxLife p3);
     Some (p3\<lparr>p_alpha := 0.9 * (1 - r)\<rparr>)
   }"

definition shoal_removed :: "nat \<Rightarrow> nat \<Rightarrow> Particle \<Rightarrow> bool" where
  "shoal_removed w h p \<longleftrightarrow> life p \<ge> maxLife p \<or> p_x p > real w + 6 \<or> p_y p > real h + 6"

fun shoal_update :: "nat \<Rightarrow> nat \<Rightarrow> Pointer \<Rightarrow> Particle list \<Rightarrow> Particle list option" where
  "shoal_update w h pr [] = Some []"
| "shoal_update w h pr (p # ps) = do {
     ps' \<leftarrow> shoal_update w h pr ps;
     p' \<leftarrow> shoal_advance pr p;
     Some (if shoal_removed w h p' then ps' else p' # ps')
   }"

definition updateParticles :: "nat \<Rightarrow> nat \<Rightarrow> ShoalState \<Rightarrow> Point list \<Rightarrow> (nat \<Rightarrow> real)
    \<Rightarrow> Particle list option" where
  "updateParticles w h st pts rn = do {
     let ps = particlesRef st;
     let mx = shoal_max w;
     let spawnN = (if int (length ps) < mx then 3 else 1);
     spawned \<leftarrow> shoal_spawn spawnN w (speedRef st) pts rn 0 ps;
     shoal_update w h (pointerRef st) spawned
   }"

record ShoalPicture =
  pic_seabed :: "Point list"
  pic_surface :: "Point list"
  pic_seabed_back :: "Point list"

text \<open>
  One frame of ShoalingCanvas. Gradients, fills and strokes are left out; the seabed and
  surface polylines are returned with the new state.
\<close>

definition shoal_draw :: "Frame \<Rightarrow> ShoalState \<Rightarrow> (ShoalState \<times> ShoalPicture) option" where
  "shoal_draw fr st =
     (if \<not> mounted st then Some (st, \<lparr>pic_seabed = [], pic_surface = [], pic_seabed_back = []\<rparr>)
      else do {
        let w = f_width fr;
        let h = f_height fr;
        let t = timeRef st + 0.016 * (0.9 + speedRef st * 0.4);
        let st1 = st\<lparr>timeRef := t\<rparr>;
        let baseY = real h * 0.38;
        bedPts \<leftarrow> seabed_points w h 0;
        let theta = - 2.2 * t;
        (smps, rs) \<leftarrow> surface_points st1 w h baseY theta 0 (ripplesRef st1);
        let pts = map sample_point smps;
        let st2 = st1\<lparr>ripplesRef := rs\<rparr>;
        edge \<leftarrow> seabedY (real w) (real w) (real h);
        bk \<leftarrow> seabed_points_back w h (int w);
        ps \<leftarrow> updateParticles w h st2 pts (f_rnd fr);
        Some (st2\<lparr>particlesRef := ps\<rparr>,
              \<lparr>pic_seabed = bedPts, pic_surface = pts,
               pic_seabed_back = \<lparr>pt_x = real w, pt_y = edge\<rparr> # bk\<rparr>)
      })"

definition shoal_initial :: "real \<Rightarrow> real \<Rightarrow> ShoalState" where
  "shoal_initial amplitude speed =
     \<lparr>mounted = True, ampRef = amplitude, speedRef = speed,
      pointerRef = \<lparr>ptr_x = 0, ptr_y = 0, inside = False\<rparr>,
      ripplesRef = [], particlesRef = [], lastY = 0,
      timeRef = 0\<rparr>"

datatype ShoalEvent =
    ShoalAmplitude real
  | ShoalSpeed real
  | ShoalTouchStart real
  | ShoalTouchMove real
  | ShoalRipple real
  | ShoalMouseMove real real
  | ShoalMouseLeave
  | ShoalFrame Frame

fun shoal_event :: "ShoalEvent \<Rightarrow> ShoalState \<Rightarrow> ShoalState option" where
  "shoal_event (ShoalAmplitude amplitude) st = Some (shoal_syncAmplitude amplitude st)"
| "shoal_event (ShoalSpeed speed) st = Some (shoal_syncSpeed speed st)"
| "shoal_event (ShoalTouchStart y) st = Some (onTouchStart y st)"
| "shoal_event (ShoalTouchMove y) st = Some (shoal_onTouchMove y st)"
| "shoal_event (ShoalRipple x) st = Some (shoal_spawnRipple x st)"
| "shoal_event (ShoalMouseMove x y) st = Some (onMouseMove x y st)"
| "shoal_event ShoalMouseLeave st = Some (onMouseLeave st)"
| "shoal_event (ShoalFrame fr) st = map_option fst (shoal_draw fr st)"

fun shoal_events :: "ShoalEvent list \<Rightarrow> ShoalState \<Rightarrow> ShoalState option" where
  "shoal_events [] st = Some st"
| "shoal_events (e # es) st = do {
     st' \<leftarrow> shoal_event e st;
     shoal_events es st'
   }"

section \<open>Predicates used in the statements\<close>

definition wave_amp_ok :: "WaveState \<Rightarrow> bool" where
  "wave_amp_ok st \<longleftrightarrow> 5 \<le> ampRef st \<and> ampRef st \<le> 120"

definition shoal_amp_ok :: "ShoalState \<Rightarrow> bool" where
  "shoal_amp_ok st \<longleftrightarrow> 6 \<le> ampRef st \<and> ampRef st \<le> 120"

fun is_WaveProps :: "WaveEvent \<Rightarrow> bool" where
  "is_WaveProps (WaveProps a s l) = True"
| "is_WaveProps e = False"

fun is_WaveTouchMove :: "WaveEvent \<Rightarrow> bool" where
  "is_WaveTouchMove (WaveTouchMove y) = True"
| "is_WaveTouchMove e = False"

fun is_ShoalAmplitude :: "ShoalEvent \<Rightarrow> bool" where
  "is_ShoalAmplitude (ShoalAmplitude a) = True"
| "is_ShoalAmplitude e = False"

fun is_ShoalTouchMove :: "ShoalEvent \<Rightarrow> bool" where
  "is_ShoalTouchMove (ShoalTouchMove y) = True"
| "is_ShoalTouchMove e = False"

text \<open>
  A run of a prop-syncing effect whose amplitude prop lies in the range the touch handler
  clamps to. Every other event counts as in range.
\<close>

fun wave_props_in_range :: "WaveEvent \<Rightarrow> bool" where
  "wave_props_in_range (WaveProps amplitude speed wavelength) \<longleftrightarrow> 5 \<le> amplitude \<and> amplitude \<le> 120"
| "wave_props_in_range e = True"

fun shoal_props_in_range :: "ShoalEvent \<Rightarrow> bool" where
  "shoal_props_in_range (ShoalAmplitude amplitude) \<longleftrightarrow> 6 \<le> amplitude \<and> amplitude \<le> 120"
| "shoal_props_in_range e = True"

text \<open>What one call of \<open>rippleOffset\<close> does to the ripple array: every strength is decayed
  once, and the ripples that fell under the threshold are spliced out.\<close>

definition decayed :: "Ripple \<Rightarrow> Ripple" where
  "decayed r = r\<lparr>strength := strength r * decay r\<rparr>"

definition wave_prune :: "Ripple list \<Rightarrow> Ripple list" where
  "wave_prune rs = filter (\<lambda>r. \<not> strength r < 0.3) (map decayed rs)"

definition shoal_prune :: "Ripple list \<Rightarrow> Ripple list" where
  "shoal_prune rs = filter (\<lambda>r. \<not> strength r < 0.25) (map decayed rs)"

text \<open>The number of samples \<open>x, x + 2, ...\<close> up to \<open>w\<close>.\<close>

definition samples_from :: "nat \<Rightarrow> nat \<Rightarrow> nat" where
  "samples_from x w = (if x \<le> w then (w - x) div 2 + 1 else 0)"

text \<open>
  What the handlers and the spawning code establish: every ripple has the radius 120 it was
  created with, and every particle a lifetime of at least 60 frames, provided
  \<open>Math.random()\<close> returns values in \<open>[0, 1)\<close>.
\<close>

definition ripples_ok :: "Ripple list \<Rightarrow> bool" where
  "ripples_ok rs \<longleftrightarrow> list_all (\<lambda>r. radius r \<noteq> 0) rs"

definition particles_ok :: "Particle list \<Rightarrow> bool" where
  "particles_ok ps \<longleftrightarrow> list_all (\<lambda>p. maxLife p \<noteq> 0) ps"

definition random_ok :: "(nat \<Rightarrow> real) \<Rightarrow> bool" where
  "random_ok rn \<longleftrightarrow> (\<forall>n. 0 \<le> rn n \<and> rn n < 1)"

definition canvas_ok :: "'a CanvasRefs_scheme \<Rightarrow> bool" where
  "canvas_ok st \<longleftrightarrow> mounted st \<and> ripples_ok (ripplesRef st) \<and> particles_ok (particlesRef st)"

section \<open>TyphoonCanvas: clamping of the band count and the wind strength\<close>

lemma js_round_of_int: "js_round (of_int n) = n"
  by (simp add: js_round_def)

lemma band_loop_Some:
  "0 \<le> k \<Longrightarrow> 0 < n \<Longrightarrow> \<exists>bs. band_loop cx cy wk n rot k = Some bs \<and> int (length bs) = max 0 (n - k)"
proof (induction cx cy wk n rot k rule: band_loop.induct)
  case (1 cx cy windK bandCount rot k)
  show ?case
  proof (cases "k < bandCount")
    case True
    have d1: "real_of_int bandCount \<noteq> 0" and d2: "real_of_int bandCount + 1 \<noteq> 0"
      using "1.prems" by auto
    from "1.IH" [OF True refl refl refl _ refl _ refl refl] "1.prems" d1 d2
    obtain bs where bs: "band_loop cx cy windK bandCount rot (k + 1) = Some bs"
      and len: "int (length bs) = max 0 (bandCount - (k + 1))"
      by (auto simp: js_div_def)
    show ?thesis
      using True bs len d1 d2
      by (subst band_loop.simps) (simp add: js_div_def Let_def)
  next
    case False
    then show ?thesis by (subst band_loop.simps) simp
  qed
qed

lemma bandCount_range: "1 \<le> bandCount_of b \<and> bandCount_of b \<le> 10"
  by (simp add: bandCount_of_def)

lemma windK_range: "0 \<le> windK_of w \<and> windK_of w \<le> 1.6"
  by (simp add: windK_of_def)

lemma drawCyclone_Some:
  "\<exists>d. drawCyclone pr cx cy t = Some d \<and> int (length (cyc_bands d)) = bandCount_of (bands pr)"
proof -
  have pos: "0 < bandCount_of (bands pr)"
    using bandCount_range [of "bands pr"] by linarith
  from band_loop_Some [of 0 "bandCount_of (bands pr)" cx cy "windK_of (wind pr)" "t * spin pr"] pos
  obtain bs where "band_loop cx cy (windK_of (wind pr)) (bandCount_of (bands pr)) (t * spin pr) 0 = Some bs"
    and "int (length bs) = bandCount_of (bands pr)"
    by auto
  then show ?thesis
    by (simp add: drawCyclone_def Let_def)
qed

lemma drawCyclone_clamped_props:
  "drawCyclone (pr\<lparr>wind := windK_of (wind pr), bands := of_int (bandCount_of (bands pr))\<rparr>) cx cy t
     = drawCyclone pr cx cy t"
  by (simp add: drawCyclone_def windK_of_def bandCount_of_def js_round_of_int)

lemma bandCount_clamp:
  "bandCount_of b = (if js_round b < 1 then 1 else if 10 < js_round b then 10 else js_round b)"
  by (simp add: bandCount_of_def)

lemma windK_clamp:
  "windK_of wnd = (if wnd < 0 then 0 else if 1.6 < wnd then 1.6 else wnd)"
  by (simp add: windK_of_def)

text \<open>
  Claim C9. \<open>drawCyclone\<close> never uses the props \<open>bands\<close> and \<open>wind\<close> directly: the band count
  is \<open>Math.round(bands)\<close> clamped to 1..10 and the wind strength is clamped to 0..1.6, and
  replacing both props by their clamped values changes nothing in what is drawn. The number of
  spiral bands drawn is the clamped band count. A rounded band count within 1..10 and a wind
  strength within 0..1.6 pass unchanged; below the range the values are 1 and 0, above it 10
  and 1.6: a request for 15 bands gives 10, one for 0 bands gives 1, a wind of 2 gives 1.6 and
  a wind of -1 gives 0. \<open>Math.round\<close> rounds halves up: 2.4 bands are 2 and 2.5 bands are 3.
\<close>

theorem bandCount_and_wind_clamped_before_use:
  "1 \<le> bandCount_of b \<and> bandCount_of b \<le> 10 \<and> bandCount_of 15 = 10
   \<and> 0 \<le> windK_of wnd \<and> windK_of wnd \<le> 1.6
   \<and> drawCyclone pr cx cy t
       = drawCyclone (pr\<lparr>wind := windK_of (wind pr), bands := of_int (bandCount_of (bands pr))\<rparr>) cx cy t
   \<and> (\<exists>d. drawCyclone pr cx cy t = Some d
          \<and> int (length (cyc_bands d)) = bandCount_of (bands pr))
   \<and> bandCount_of b = (if js_round b < 1 then 1 else if 10 < js_round b then 10 else js_round b)
   \<and> js_round b = \<lfloor>b + 1 / 2\<rfloor>
   \<and> windK_of wnd = (if wnd < 0 then 0 else if 1.6 < wnd then 1.6 else wnd)
   \<and> bandCount_of 0 = 1 \<and> bandCount_of 1 = 1 \<and> bandCount_of 5 = 5 \<and> bandCount_of 10 = 10
   \<and> bandCount_of 2.4 = 2 \<and> bandCount_of 2.5 = 3
   \<and> windK_of (- 1) = 0 \<and> windK_of 0 = 0 \<and> windK_of 0.9 = 0.9 \<and> windK_of 1.6 = 1.6
   \<and> windK_of 2 = 1.6"
proof -
  have inst: "bandCount_of 15 = 10" "bandCount_of 0 = 1" "bandCount_of 1 = 1" "bandCount_of 5 = 5"
    "bandCount_of 10 = 10" "bandCount_of 2.4 = 2" "bandCount_of 2.5 = 3"
    by (simp_all add: bandCount_of_def js_round_def)
  have winst: "windK_of (- 1) = 0" "windK_of 0 = 0" "windK_of 0.9 = 0.9" "windK_of 1.6 = 1.6"
    "windK_of 2 = 1.6"
    by (simp_all add: windK_of_def)
  have r: "js_round b = \<lfloor>b + 1 / 2\<rfloor>"
    by (simp add: js_round_def)
  show ?thesis
    using bandCount_range [of b] windK_range [of wnd] drawCyclone_Some [of pr cx cy t]
      drawCyclone_clamped_props [of pr cx cy t] bandCount_clamp [of b] windK_clamp [of wnd]
      inst winst r
    by (simp only: simp_thms) 
qed

section \<open>TyphoonCanvas: the trail buffer\<close>

lemma sampleCenter_Some: "\<exists>c. sampleCenter pr w h tSec = Some c"
proof -
  have "real w + 240 \<noteq> 0" "max 360 (real w) \<noteq> 0" by linarith+
  then show ?thesis
    by (simp add: sampleCenter_def js_rem_def js_div_def Let_def)
qed

lemma loop_Some: "\<exists>st' fr. loop pr w h now st = Some (st', fr)"
proof -
  obtain c where c: "sampleCenter pr w h ((now - startTime st) / 1000) = Some c"
    using sampleCenter_Some by blast
  obtain d where "drawCyclone pr (pt_x c) (pt_y c) ((now - startTime st) / 1000) = Some d"
    using drawCyclone_Some by blast
  with c show ?thesis
    by (simp add: loop_def Let_def)
qed

lemma loop_state:
  "loop pr w h now st = Some (st', fr) \<Longrightarrow> st' = record_trail now (frame_center fr) st"
  by (auto simp: loop_def Let_def split: Option.bind_splits)

lemma record_trail_length:
  "length (centers st) \<le> 400 \<Longrightarrow> length (centers (record_trail now c st)) \<le> 400"
  by (simp add: record_trail_def Let_def)

lemma typhoon_run_trail:
  "length (centers st) \<le> 400 \<Longrightarrow>
   \<exists>st'. typhoon_run pr fs st = Some st' \<and> length (centers st') \<le> 400"
proof (induction fs arbitrary: st)
  case Nil
  then show ?case by simp
next
  case (Cons f fs)
  obtain st1 fr where l: "loop pr (tick_width f) (tick_height f) (tick_now f) st = Some (st1, fr)"
    using loop_Some by blast
  from loop_state [OF l] have "length (centers st1) \<le> 400"
    using Cons.prems record_trail_length by simp
  from Cons.IH [OF this] l show ?case by simp
qed

lemma record_trail_centers:
  "centers (record_trail now c st)
     = (if now - lastTrailSample st > 40
           \<and> (centers st = []
              \<or> hypot (pt_x (last (centers st)) - pt_x c) (pt_y (last (centers st)) - pt_y c) > 2)
        then drop (length (centers st) + 1 - 400) (centers st @ [c])
        else centers st)"
  by (simp add: record_trail_def Let_def)

lemma record_trail_clock:
  "lastTrailSample (record_trail now c st)
     = (if now - lastTrailSample st > 40 then now else lastTrailSample st)"
  by (simp add: record_trail_def Let_def)

lemma record_trail_startTime: "startTime (record_trail now c st) = startTime st"
  by (simp add: record_trail_def Let_def)

lemma loop_center:
  "loop pr w h now st = Some (st', fr) \<Longrightarrow>
     sampleCenter pr w h ((now - startTime st) / 1000) = Some (frame_center fr)
     \<and> frame_trail fr = centers st'"
  by (auto simp: loop_def Let_def split: Option.bind_splits)

lemma hypot_far: "hypot (0 - (- 112)) (0 - 200) > 2"
proof -
  have "(2::real)\<^sup>2 < 112 * 112 + 200 * 200" by simp
  then have "2 < sqrt (112 * 112 + 200 * 200)" by (rule real_less_rsqrt)
  then show ?thesis by (simp add: hypot_def)
qed

text \<open>
  Claim C7. A frame of \<open>loop\<close> computes the centre at the elapsed time and hands it to the
  trail. A trail of at most 400 points stays within 400 points. The centre is appended exactly
  when more than 40 ms have passed since the last sampling and the trail is empty or the
  centre is more than 2 px away from the newest stored point; the new trail is then the old
  one with the centre appended, cut at the front to its last 400 points, so the oldest points
  go first and the order is kept. In every other case the trail is left as it was. The time of
  the last sampling is set to the time of the frame whenever more than 40 ms have passed,
  whether or not the centre was stored, and is left alone otherwise. Every run that starts at
  mount completes and ends with at most 400 points.
\<close>

theorem trail_buffer_capped_fifo_throttled:
  assumes "loop pr w h now st = Some (st', fr)"
  shows "(length (centers st) \<le> 400 \<longrightarrow> length (centers st') \<le> 400)
   \<and> centers st'
       = (if now - lastTrailSample st > 40
             \<and> (centers st = []
                \<or> hypot (pt_x (last (centers st)) - pt_x (frame_center fr))
                     (pt_y (last (centers st)) - pt_y (frame_center fr)) > 2)
          then drop (length (centers st) + 1 - 400) (centers st @ [frame_center fr])
          else centers st)
   \<and> lastTrailSample st' = (if now - lastTrailSample st > 40 then now else lastTrailSample st)
   \<and> startTime st' = startTime st
   \<and> sampleCenter pr w h ((now - startTime st) / 1000) = Some (frame_center fr)
   \<and> frame_trail fr = centers st'
   \<and> (\<exists>st''. typhoon_run pr fs (typhoon_mount t0) = Some st'' \<and> length (centers st'') \<le> 400)"
proof -
  have st': "st' = record_trail now (frame_center fr) st"
    using assms by (rule loop_state)
  have len: "length (centers st) \<le> 400 \<longrightarrow> length (centers st') \<le> 400"
    unfolding st' using record_trail_length [of st now "frame_center fr"] by blast
  have run: "\<exists>st''. typhoon_run pr fs (typhoon_mount t0) = Some st'' \<and> length (centers st'') \<le> 400"
    using typhoon_run_trail [of "typhoon_mount t0" pr fs] by (simp add: typhoon_mount_def)
  from len record_trail_centers [of now "frame_center fr" st, folded st']
    record_trail_clock [of now "frame_center fr" st, folded st']
    record_trail_startTime [of now "frame_center fr" st, folded st']
    loop_center [OF assms, THEN conjunct1] loop_center [OF assms, THEN conjunct2] run
  show ?thesis by (iprover intro: conjI)
qed

theorem trail_buffer_capped_fifo_throttled_witness:
  "(\<exists>st' fr. loop \<lparr>spin = 1, travel = 80, wind = 0.9, pathAmp = 0, bands = 5\<rparr> 800 400 100
                (typhoon_mount 0) = Some (st', fr)
       \<and> length (centers (typhoon_mount 0)) \<le> 400
       \<and> frame_center fr = \<lparr>pt_x = - 112, pt_y = 200\<rparr>
       \<and> centers st' = [\<lparr>pt_x = - 112, pt_y = 200\<rparr>]
       \<and> lastTrailSample st' = 100)
   \<and> (\<exists>st' fr. loop \<lparr>spin = 1, travel = 80, wind = 0.9, pathAmp = 0, bands = 5\<rparr> 800 400 100
                \<lparr>startTime = 0, centers = replicate 400 \<lparr>pt_x = 0, pt_y = 0\<rparr>, lastTrailSample = 0\<rparr>
              = Some (st', fr)
       \<and> centers st' = replicate 399 \<lparr>pt_x = 0, pt_y = 0\<rparr> @ [\<lparr>pt_x = - 112, pt_y = 200\<rparr>]
       \<and> length (centers st') = 400
       \<and> lastTrailSample st' = 100)
   \<and> (\<exists>st' fr. loop \<lparr>spin = 1, travel = 80, wind = 0.9, pathAmp = 0, bands = 5\<rparr> 800 400 100
                \<lparr>startTime = 0, centers = [\<lparr>pt_x = 0, pt_y = 0\<rparr>], lastTrailSample = 70\<rparr>
              = Some (st', fr)
       \<and> centers st' = [\<lparr>pt_x = 0, pt_y = 0\<rparr>]
       \<and> lastTrailSample st' = 70)"
proof -
  let ?pr = "\<lparr>spin = 1, travel = 80, wind = 0.9, pathAmp = 0, bands = 5\<rparr>"
  let ?c = "\<lparr>pt_x = - 112, pt_y = 200\<rparr>"
  let ?p0 = "\<lparr>pt_x = 0, pt_y = 0\<rparr>"
  let ?full = "\<lparr>startTime = 0, centers = replicate 400 ?p0, lastTrailSample = 0\<rparr>"
  let ?early = "\<lparr>startTime = 0, centers = [?p0], lastTrailSample = 70\<rparr>"
  have tr: "js_trunc (8 / 1040) = 0"
    by (simp add: js_trunc_def)
  have c: "sampleCenter ?pr 800 400 ((100 - 0) / 1000) = Some ?c"
    using tr by (simp add: sampleCenter_def js_rem_def js_div_def Let_def)
  have a: "\<exists>st' fr. loop ?pr 800 400 100 (typhoon_mount 0) = Some (st', fr)
       \<and> length (centers (typhoon_mount 0)) \<le> 400
       \<and> frame_center fr = ?c \<and> centers st' = [?c] \<and> lastTrailSample st' = 100"
  proof -
    obtain st' fr where l: "loop ?pr 800 400 100 (typhoon_mount 0) = Some (st', fr)"
      using loop_Some by blast
    note t = trail_buffer_capped_fifo_throttled [OF l, of "[]" 0]
    from t c have fc: "frame_center fr = ?c"
      by (simp add: typhoon_mount_def)
    from t fc have "centers st' = [?c]" "lastTrailSample st' = 100"
      by (simp_all add: typhoon_mount_def)
    with l fc show ?thesis by (simp add: typhoon_mount_def)
  qed
  have rep: "replicate 400 ?p0 = ?p0 # replicate 399 ?p0"
    by (simp add: replicate_Suc [symmetric] del: replicate_Suc)
  have b: "\<exists>st' fr. loop ?pr 800 400 100 ?full = Some (st', fr)
       \<and> centers st' = replicate 399 ?p0 @ [?c]
       \<and> length (centers st') = 400 \<and> lastTrailSample st' = 100"
  proof -
    obtain st' fr where l: "loop ?pr 800 400 100 ?full = Some (st', fr)"
      using loop_Some by blast
    note t = trail_buffer_capped_fifo_throttled [OF l, of "[]" 0]
    from t c have fc: "frame_center fr = ?c"
      by simp
    have la: "last (replicate 400 ?p0) = ?p0" by simp
    from t have "centers st' = drop 1 (replicate 400 ?p0 @ [?c])" and "lastTrailSample st' = 100"
      unfolding fc using hypot_far by (simp_all add: la)
    then have "centers st' = replicate 399 ?p0 @ [?c]" "lastTrailSample st' = 100"
      unfolding rep by simp_all
    with l show ?thesis by auto
  qed
  have e: "\<exists>st' fr. loop ?pr 800 400 100 ?early = Some (st', fr)
       \<and> centers st' = [?p0] \<and> lastTrailSample st' = 70"
  proof -
    obtain st' fr where l: "loop ?pr 800 400 100 ?early = Some (st', fr)"
      using loop_Some by blast
    note t = trail_buffer_capped_fifo_throttled [OF l, of "[]" 0]
    from t have "centers st' = [?p0]" "lastTrailSample st' = 70"
      by simp_all
    with l show ?thesis by auto
  qed
  from a b e show ?thesis by (iprover intro: conjI)
qed

section \<open>The shape of a frame\<close>

lemma wave_draw_unmounted: "\<not> mounted st \<Longrightarrow> wave_draw fr st = Some (st, [])"
  by (simp add: wave_draw_def)

lemma wave_draw_unfold:
  "mounted st \<Longrightarrow> wave_draw fr st =
     Option.bind (wave_layers 4 (f_now fr * 0.001) (f_width fr) (f_height fr)
         (st\<lparr>phaseRef := phaseRef st + 0.02 * speedRef st\<rparr>) (ripplesRef st))
       (\<lambda>(pts, rs). Option.bind
          (updateAndDrawParticles (f_width fr) (f_height fr)
             (st\<lparr>phaseRef := phaseRef st + 0.02 * speedRef st, ripplesRef := rs\<rparr>) pts (f_rnd fr))
          (\<lambda>ps. Some (st\<lparr>phaseRef := phaseRef st + 0.02 * speedRef st, ripplesRef := rs,
                            particlesRef := ps\<rparr>, pts)))"
  by (simp add: wave_draw_def Let_def)

lemma wave_draw_SomeE:
  assumes "wave_draw fr st = Some (st', pts)" and "mounted st"
  obtains rs ps where
    "wave_layers 4 (f_now fr * 0.001) (f_width fr) (f_height fr)
         (st\<lparr>phaseRef := phaseRef st + 0.02 * speedRef st\<rparr>) (ripplesRef st) = Some (pts, rs)"
    and "updateAndDrawParticles (f_width fr) (f_height fr)
             (st\<lparr>phaseRef := phaseRef st + 0.02 * speedRef st, ripplesRef := rs\<rparr>) pts (f_rnd fr)
           = Some ps"
    and "st' = st\<lparr>phaseRef := phaseRef st + 0.02 * speedRef st, ripplesRef := rs,
                            particlesRef := ps\<rparr>"
proof -
  from assms(1) [unfolded wave_draw_unfold [OF assms(2)] bind_eq_Some_conv]
  obtain y where y: "wave_layers 4 (f_now fr * 0.001) (f_width fr) (f_height fr)
         (st\<lparr>phaseRef := phaseRef st + 0.02 * speedRef st\<rparr>) (ripplesRef st) = Some y"
    and r: "(case y of (pts, rs) \<Rightarrow> Option.bind
          (updateAndDrawParticles (f_width fr) (f_height fr)
             (st\<lparr>phaseRef := phaseRef st + 0.02 * speedRef st, ripplesRef := rs\<rparr>) pts (f_rnd fr))
          (\<lambda>ps. Some (st\<lparr>phaseRef := phaseRef st + 0.02 * speedRef st, ripplesRef := rs,
                            particlesRef := ps\<rparr>, pts))) = Some (st', pts)"
    by blast
  obtain pts0 rs where yp: "y = (pts0, rs)" by (cases y)
  from r [unfolded yp prod.case bind_eq_Some_conv]
  obtain ps where "updateAndDrawParticles (f_width fr) (f_height fr)
             (st\<lparr>phaseRef := phaseRef st + 0.02 * speedRef st, ripplesRef := rs\<rparr>) pts0 (f_rnd fr) = Some ps"
    and "Some (st\<lparr>phaseRef := phaseRef st + 0.02 * speedRef st, ripplesRef := rs,
                            particlesRef := ps\<rparr>, pts0) = Some (st', pts)"
    by blast
  with y yp that show thesis
    by simp
qed


lemma wave_draw_ampRef:
  assumes "wave_draw fr st = Some (st', pts)"
  shows "ampRef st' = ampRef st"
proof (cases "mounted st")
  case True
  from wave_draw_SomeE [OF assms True] obtain rs ps where
    "st' = st\<lparr>phaseRef := phaseRef st + 0.02 * speedRef st, ripplesRef := rs, particlesRef := ps\<rparr>"
    by blast
  then show ?thesis by simp
next
  case False
  with assms show ?thesis by (simp add: wave_draw_unmounted)
qed

lemma shoal_draw_unmounted:
  "\<not> mounted st \<Longrightarrow> shoal_draw fr st = Some (st, \<lparr>pic_seabed = [], pic_surface = [], pic_seabed_back = []\<rparr>)"
  by (simp add: shoal_draw_def)

lemma shoal_draw_unfold:
  "mounted st \<Longrightarrow> shoal_draw fr st =
     Option.bind (seabed_points (f_width fr) (f_height fr) 0)
       (\<lambda>bedPts. Option.bind
          (surface_points (st\<lparr>timeRef := timeRef st + 0.016 * (0.9 + speedRef st * 0.4)\<rparr>)
             (f_width fr) (f_height fr) (real (f_height fr) * 0.38)
             (- 2.2 * (timeRef st + 0.016 * (0.9 + speedRef st * 0.4))) 0 (ripplesRef st))
          (\<lambda>(smps, rs). Option.bind (seabedY (real (f_width fr)) (real (f_width fr)) (real (f_height fr)))
             (\<lambda>edge. Option.bind (seabed_points_back (f_width fr) (f_height fr) (int (f_width fr)))
                (\<lambda>bk. Option.bind
                   (updateParticles (f_width fr) (f_height fr)
                      (st\<lparr>timeRef := timeRef st + 0.016 * (0.9 + speedRef st * 0.4), ripplesRef := rs\<rparr>)
                      (map sample_point smps) (f_rnd fr))
                   (\<lambda>ps. Some (st\<lparr>timeRef := timeRef st + 0.016 * (0.9 + speedRef st * 0.4),
                                     ripplesRef := rs, particlesRef := ps\<rparr>,
                                  \<lparr>pic_seabed = bedPts, pic_surface = map sample_point smps,
                                   pic_seabed_back = \<lparr>pt_x = real (f_width fr), pt_y = edge\<rparr> # bk\<rparr>))))))"
  by (simp add: shoal_draw_def Let_def)

lemma shoal_draw_SomeE:
  assumes "shoal_draw fr st = Some (st', pic)" and "mounted st"
  obtains bedPts smps rs edge bk ps where
    "seabed_points (f_width fr) (f_height fr) 0 = Some bedPts"
    and "surface_points (st\<lparr>timeRef := timeRef st + 0.016 * (0.9 + speedRef st * 0.4)\<rparr>)
             (f_width fr) (f_height fr) (real (f_height fr) * 0.38)
             (- 2.2 * (timeRef st + 0.016 * (0.9 + speedRef st * 0.4))) 0 (ripplesRef st)
           = Some (smps, rs)"
    and "seabedY (real (f_width fr)) (real (f_width fr)) (real (f_height fr)) = Some edge"
    and "seabed_points_back (f_width fr) (f_height fr) (int (f_width fr)) = Some bk"
    and "updateParticles (f_width fr) (f_height fr)
           (st\<lparr>timeRef := timeRef st + 0.016 * (0.9 + speedRef st * 0.4), ripplesRef := rs\<rparr>)
           (map sample_point smps) (f_rnd fr) = Some ps"
    and "st' = st\<lparr>timeRef := timeRef st + 0.016 * (0.9 + speedRef st * 0.4),
                  ripplesRef := rs, particlesRef := ps\<rparr>"
    and "pic = \<lparr>pic_seabed = bedPts, pic_surface = map sample_point smps,
                pic_seabed_back = \<lparr>pt_x = real (f_width fr), pt_y = edge\<rparr> # bk\<rparr>"
proof -
  from assms(1) [unfolded shoal_draw_unfold [OF assms(2)] bind_eq_Some_conv]
  obtain bedPts y where b: "seabed_points (f_width fr) (f_height fr) 0 = Some bedPts"
    and y: "surface_points (st\<lparr>timeRef := timeRef st + 0.016 * (0.9 + speedRef st * 0.4)\<rparr>)
             (f_width fr) (f_height fr) (real (f_height fr) * 0.38)
             (- 2.2 * (timeRef st + 0.016 * (0.9 + speedRef st * 0.4))) 0 (ripplesRef st) = Some y"
    and r: "(case y of (smps, rs) \<Rightarrow> Option.bind (seabedY (real (f_width fr)) (real (f_width fr)) (real (f_height fr)))
             (\<lambda>edge. Option.bind (seabed_points_back (f_width fr) (f_height fr) (int (f_width fr)))
                (\<lambda>bk. Option.bind
                   (updateParticles (f_width fr) (f_height fr)
                      (st\<lparr>timeRef := timeRef st + 0.016 * (0.9 + speedRef st * 0.4), ripplesRef := rs\<rparr>)
                      (map sample_point smps) (f_rnd fr))
                   (\<lambda>ps. Some (st\<lparr>timeRef := timeRef st + 0.016 * (0.9 + speedRef st * 0.4),
                                     ripplesRef := rs, particlesRef := ps\<rparr>,
                                  \<lparr>pic_seabed = bedPts, pic_surface = map sample_point smps,
                                   pic_seabed_back = \<lparr>pt_x = real (f_width fr), pt_y = edge\<rparr> # bk\<rparr>)))))
            = Some (st', pic)"
    by blast
  obtain smps rs where yp: "y = (smps, rs)" by (cases y)
  from r [unfolded yp prod.case bind_eq_Some_conv]
  obtain edge bk ps where e: "seabedY (real (f_width fr)) (real (f_width fr)) (real (f_height fr)) = Some edge"
    and k: "seabed_points_back (f_width fr) (f_height fr) (int (f_width fr)) = Some bk"
    and u: "updateParticles (f_width fr) (f_height fr)
           (st\<lparr>timeRef := timeRef st + 0.016 * (0.9 + speedRef st * 0.4), ripplesRef := rs\<rparr>)
           (map sample_point smps) (f_rnd fr) = Some ps"
    and f: "Some (st\<lparr>timeRef := timeRef st + 0.016 * (0.9 + speedRef st * 0.4),
                                     ripplesRef := rs, particlesRef := ps\<rparr>,
                                  \<lparr>pic_seabed = bedPts, pic_surface = map sample_point smps,
                                   pic_seabed_back = \<lparr>pt_x = real (f_width fr), pt_y = edge\<rparr> # bk\<rparr>)
              = Some (st', pic)"
    by blast
  from f have st': "st' = st\<lparr>timeRef := timeRef st + 0.016 * (0.9 + speedRef st * 0.4),
                  ripplesRef := rs, particlesRef := ps\<rparr>"
    and pic: "pic = \<lparr>pic_seabed = bedPts, pic_surface = map sample_point smps,
                pic_seabed_back = \<lparr>pt_x = real (f_width fr), pt_y = edge\<rparr> # bk\<rparr>"
    by simp_all
  show thesis
    using that [of bedPts smps rs edge bk ps] b y e k u st' pic unfolding yp
    by simp
qed

lemma shoal_draw_ampRef:
  assumes "shoal_draw fr st = Some (st', pic)"
  shows "ampRef st' = ampRef st"
proof (cases "mounted st")
  case True
  from shoal_draw_SomeE [OF assms True] obtain rs ps where
    "st' = st\<lparr>timeRef := timeRef st + 0.016 * (0.9 + speedRef st * 0.4),
                  ripplesRef := rs, particlesRef := ps\<rparr>"
    by blast
  then show ?thesis by simp
next
  case False
  with assms show ?thesis by (simp add: shoal_draw_unmounted)
qed

section \<open>Amplitude under touch drags\<close>

lemma wave_event_frame:
  "wave_event (WaveFrame fr) st = Some st' \<longleftrightarrow> (\<exists>pts. wave_draw fr st = Some (st', pts))"
  by (cases "wave_draw fr st") auto

lemma shoal_event_frame:
  "shoal_event (ShoalFrame fr) st = Some st' \<longleftrightarrow> (\<exists>pic. shoal_draw fr st = Some (st', pic))"
  by (cases "shoal_draw fr st") auto

lemma wave_event_ampRef:
  assumes "wave_event e st = Some st'"
  shows "ampRef st' = (case e of
            WaveProps amplitude speed wavelength \<Rightarrow> amplitude
          | WaveTouchMove y \<Rightarrow> max 5 (min 120 (ampRef st + (lastY st - y) * 0.2))
          | _ \<Rightarrow> ampRef st)"
proof (cases e)
  case (WaveFrame fr)
  with assms obtain pts where "wave_draw fr st = Some (st', pts)"
    unfolding WaveFrame wave_event_frame by blast
  then have "ampRef st' = ampRef st" by (rule wave_draw_ampRef)
  then show ?thesis using WaveFrame by simp
next
  case (WaveTouchMove y)
  with assms have "st' = wave_onTouchMove y st" by simp
  then show ?thesis using WaveTouchMove by (simp add: wave_onTouchMove_def Let_def)
next
  case (WaveProps a s l)
  with assms have "st' = wave_syncProps a s l st" by simp
  then show ?thesis using WaveProps by (simp add: wave_syncProps_def)
next
  case (WaveTouchStart y)
  with assms show ?thesis by (auto simp: onTouchStart_def)
next
  case (WaveRipple px)
  with assms show ?thesis by (auto simp: wave_spawnRippleAt_def)
next
  case (WaveMouseMove x y)
  with assms show ?thesis by (auto simp: onMouseMove_def)
next
  case WaveMouseLeave
  with assms show ?thesis by (auto simp: onMouseLeave_def)
qed

lemma shoal_event_ampRef:
  assumes "shoal_event e st = Some st'"
  shows "ampRef st' = (case e of
            ShoalAmplitude amplitude \<Rightarrow> amplitude
          | ShoalTouchMove y \<Rightarrow> max 6 (min 120 (ampRef st + (lastY st - y) * 0.22))
          | _ \<Rightarrow> ampRef st)"
proof (cases e)
  case (ShoalFrame fr)
  with assms obtain pic where "shoal_draw fr st = Some (st', pic)"
    unfolding ShoalFrame shoal_event_frame by blast
  then have "ampRef st' = ampRef st" by (rule shoal_draw_ampRef)
  then show ?thesis using ShoalFrame by simp
next
  case (ShoalTouchMove y)
  with assms have "st' = shoal_onTouchMove y st" by simp
  then show ?thesis using ShoalTouchMove by (simp add: shoal_onTouchMove_def Let_def)
next
  case (ShoalAmplitude a)
  with assms have "st' = shoal_syncAmplitude a st" by simp
  then show ?thesis using ShoalAmplitude by (simp add: shoal_syncAmplitude_def)
next
  case (ShoalSpeed s)
  with assms show ?thesis by (auto simp: shoal_syncSpeed_def)
next
  case (ShoalTouchStart y)
  with assms show ?thesis by (auto simp: onTouchStart_def)
next
  case (ShoalRipple px)
  with assms show ?thesis by (auto simp: shoal_spawnRipple_def)
next
  case (ShoalMouseMove x y)
  with assms show ?thesis by (auto simp: onMouseMove_def)
next
  case ShoalMouseLeave
  with assms show ?thesis by (auto simp: onMouseLeave_def)
qed

lemma wave_event_amp_step:
  assumes "wave_event e st = Some st'" "wave_props_in_range e"
  shows "wave_amp_ok st \<or> is_WaveTouchMove e \<or> is_WaveProps e \<longrightarrow> wave_amp_ok st'"
  using wave_event_ampRef [OF assms(1)] assms(2)
  by (cases e) (simp_all add: wave_amp_ok_def)

lemma shoal_event_amp_step:
  assumes "shoal_event e st = Some st'" "shoal_props_in_range e"
  shows "shoal_amp_ok st \<or> is_ShoalTouchMove e \<or> is_ShoalAmplitude e \<longrightarrow> shoal_amp_ok st'"
  using shoal_event_ampRef [OF assms(1)] assms(2)
  by (cases e) (simp_all add: shoal_amp_ok_def)

lemma wave_events_amp_general:
  assumes "wave_events evs st = Some st'" "\<forall>e\<in>set evs. wave_props_in_range e"
    "wave_amp_ok st \<or> (\<exists>e\<in>set evs. is_WaveTouchMove e \<or> is_WaveProps e)"
  shows "wave_amp_ok st'"
  using assms
proof (induction evs arbitrary: st)
  case Nil
  then show ?case by simp
next
  case (Cons e es)
  from Cons.prems(1) obtain st1 where e: "wave_event e st = Some st1"
    and es: "wave_events es st1 = Some st'"
    by (auto simp: bind_eq_Some_conv)
  have np: "wave_props_in_range e" and nps: "\<forall>e\<in>set es. wave_props_in_range e"
    using Cons.prems(2) by auto
  have "wave_amp_ok st1 \<or> (\<exists>e\<in>set es. is_WaveTouchMove e \<or> is_WaveProps e)"
    using Cons.prems(3) wave_event_amp_step [OF e np] by auto
  from Cons.IH [OF es nps this] show ?case .
qed

lemma shoal_events_amp_general:
  assumes "shoal_events evs st = Some st'" "\<forall>e\<in>set evs. shoal_props_in_range e"
    "shoal_amp_ok st \<or> (\<exists>e\<in>set evs. is_ShoalTouchMove e \<or> is_ShoalAmplitude e)"
  shows "shoal_amp_ok st'"
  using assms
proof (induction evs arbitrary: st)
  case Nil
  then show ?case by simp
next
  case (Cons e es)
  from Cons.prems(1) obtain st1 where e: "shoal_event e st = Some st1"
    and es: "shoal_events es st1 = Some st'"
    by (auto simp: bind_eq_Some_conv)
  have np: "shoal_props_in_range e" and nps: "\<forall>e\<in>set es. shoal_props_in_range e"
    using Cons.prems(2) by auto
  have "shoal_amp_ok st1 \<or> (\<exists>e\<in>set es. is_ShoalTouchMove e \<or> is_ShoalAmplitude e)"
    using Cons.prems(3) shoal_event_amp_step [OF e np] by auto
  from Cons.IH [OF es nps this] show ?case .
qed

text \<open>
  The prop-syncing effects store the amplitude prop as it is: an amplitude of 200 stays 200.
  In WaveCanvas the one effect syncs amplitude, speed and wavelength together, so a change of
  the speed alone stores the amplitude prop again: a drag that had brought the amplitude to
  120 is undone and the amplitude is 200 again.
\<close>

theorem amplitude_unclamped_props_counterexample:
  "map_option ampRef (wave_events [WaveProps 200 1 280] (wave_initial 40 1 280)) = Some 200
   \<and> \<not> (200 \<le> (120::real))
   \<and> map_option ampRef (shoal_events [ShoalAmplitude 200] (shoal_initial 40 1)) = Some 200
   \<and> map_option ampRef
        (wave_events [WaveTouchStart 0, WaveTouchMove (- 1000)] (wave_initial 200 1 280)) = Some 120
   \<and> map_option ampRef
        (wave_events [WaveTouchStart 0, WaveTouchMove (- 1000), WaveProps 200 2 280]
           (wave_initial 200 1 280)) = Some 200"
  by (simp add: wave_syncProps_def wave_initial_def shoal_syncAmplitude_def shoal_initial_def
      onTouchStart_def wave_onTouchMove_def Let_def)

text \<open>
  Claim C6, amended. Take any sequence of events: runs of the prop-syncing effects, touch
  starts, touch moves of any size and sign, ripples, mouse events and frames. If every run
  of a prop-syncing effect in it carries an amplitude prop within the range, and the
  amplitude was in range before or the sequence holds at least one touch move or one such
  run, then the amplitude is in range after it: within 5..120 in WaveCanvas and within 6..120
  in ShoalingCanvas. Event by event: a touch move to \<open>y\<close> sets the amplitude to
  \<open>amplitude + (lastY - y) * 0.2\<close> clamped to 5..120 (factor 0.22 and range 6..120 in
  ShoalingCanvas), a run of the prop-syncing effect sets it to the amplitude prop as given, and
  no other event changes it.
\<close>

theorem amplitude_in_range_after_touch_moves:
  "(wave_events wevs wst = Some wst' \<and> (\<forall>e\<in>set wevs. wave_props_in_range e)
      \<and> (wave_amp_ok wst \<or> (\<exists>e\<in>set wevs. is_WaveTouchMove e \<or> is_WaveProps e))
     \<longrightarrow> 5 \<le> ampRef wst' \<and> ampRef wst' \<le> 120)
   \<and> (shoal_events sevs sst = Some sst' \<and> (\<forall>e\<in>set sevs. shoal_props_in_range e)
      \<and> (shoal_amp_ok sst \<or> (\<exists>e\<in>set sevs. is_ShoalTouchMove e \<or> is_ShoalAmplitude e))
     \<longrightarrow> 6 \<le> ampRef sst' \<and> ampRef sst' \<le> 120)
   \<and> (wave_event we wa = Some wb \<longrightarrow>
        ampRef wb = (case we of
            WaveProps amplitude speed wavelength \<Rightarrow> amplitude
          | WaveTouchMove y \<Rightarrow> max 5 (min 120 (ampRef wa + (lastY wa - y) * 0.2))
          | _ \<Rightarrow> ampRef wa))
   \<and> (shoal_event se sa = Some sb \<longrightarrow>
        ampRef sb = (case se of
            ShoalAmplitude amplitude \<Rightarrow> amplitude
          | ShoalTouchMove y \<Rightarrow> max 6 (min 120 (ampRef sa + (lastY sa - y) * 0.22))
          | _ \<Rightarrow> ampRef sa))"
  using wave_events_amp_general [of wevs wst wst'] shoal_events_amp_general [of sevs sst sst']
    wave_event_ampRef [of we wa wb] shoal_event_ampRef [of se sa sb]
  unfolding wave_amp_ok_def shoal_amp_ok_def by blast

theorem amplitude_in_range_after_touch_moves_witness:
  "wave_events [WaveTouchStart 300, WaveTouchMove (- 100000), WaveProps 60 2 280, WaveRipple 150,
         WaveTouchMove 900000] (wave_initial 200 1 280)
     = Some ((wave_initial 200 1 280)
         \<lparr>lastY := 900000, ampRef := 5, speedRef := 2,
          ripplesRef := [\<lparr>r_x = 150, strength = 18, radius = 120, decay = 0.985\<rparr>]\<rparr>)
   \<and> wave_events [WaveTouchStart 300, WaveTouchMove 250, WaveProps 60 2 280] (wave_initial 40 1 280)
     = Some ((wave_initial 40 1 280)\<lparr>lastY := 250, ampRef := 60, speedRef := 2\<rparr>)
   \<and> shoal_events [ShoalTouchStart 300, ShoalTouchMove (- 100000), ShoalAmplitude 60, ShoalSpeed 2,
         ShoalTouchMove 900000] (shoal_initial 200 1)
     = Some ((shoal_initial 200 1)\<lparr>lastY := 900000, ampRef := 6, speedRef := 2\<rparr>)
   \<and> (5 \<le> ampRef ((wave_initial 200 1 280)
         \<lparr>lastY := 900000, ampRef := 5, speedRef := 2,
          ripplesRef := [\<lparr>r_x = 150, strength = 18, radius = 120, decay = 0.985\<rparr>]\<rparr>)
      \<and> ampRef ((wave_initial 200 1 280)
         \<lparr>lastY := 900000, ampRef := 5, speedRef := 2,
          ripplesRef := [\<lparr>r_x = 150, strength = 18, radius = 120, decay = 0.985\<rparr>]\<rparr>) \<le> 120)
   \<and> (5 \<le> ampRef ((wave_initial 40 1 280)\<lparr>lastY := 250, ampRef := 60, speedRef := 2\<rparr>)
      \<and> ampRef ((wave_initial 40 1 280)\<lparr>lastY := 250, ampRef := 60, speedRef := 2\<rparr>) \<le> 120)
   \<and> (6 \<le> ampRef ((shoal_initial 200 1)\<lparr>lastY := 900000, ampRef := 6, speedRef := 2\<rparr>)
      \<and> ampRef ((shoal_initial 200 1)\<lparr>lastY := 900000, ampRef := 6, speedRef := 2\<rparr>) \<le> 120)
   \<and> wave_event (WaveTouchMove 250) ((wave_initial 40 1 280)\<lparr>lastY := 300\<rparr>)
       = Some ((wave_initial 40 1 280)\<lparr>lastY := 250, ampRef := 50\<rparr>)
   \<and> ampRef ((wave_initial 40 1 280)\<lparr>lastY := 250, ampRef := 50\<rparr>)
       = max 5 (min 120 (ampRef ((wave_initial 40 1 280)\<lparr>lastY := 300\<rparr>)
           + (lastY ((wave_initial 40 1 280)\<lparr>lastY := 300\<rparr>) - 250) * 0.2))
   \<and> shoal_event (ShoalTouchMove 250) ((shoal_initial 40 1)\<lparr>lastY := 300\<rparr>)
       = Some ((shoal_initial 40 1)\<lparr>lastY := 250, ampRef := 51\<rparr>)
   \<and> ampRef ((shoal_initial 40 1)\<lparr>lastY := 250, ampRef := 51\<rparr>)
       = max 6 (min 120 (ampRef ((shoal_initial 40 1)\<lparr>lastY := 300\<rparr>)
           + (lastY ((shoal_initial 40 1)\<lparr>lastY := 300\<rparr>) - 250) * 0.22))"
proof -
  let ?wevs = "[WaveTouchStart 300, WaveTouchMove (- 100000), WaveProps 60 2 280, WaveRipple 150,
         WaveTouchMove 900000]"
  let ?wevs2 = "[WaveTouchStart 300, WaveTouchMove 250, WaveProps 60 2 280]"
  let ?sevs = "[ShoalTouchStart 300, ShoalTouchMove (- 100000), ShoalAmplitude 60, ShoalSpeed 2,
         ShoalTouchMove 900000]"
  let ?wst' = "(wave_initial 200 1 280)
         \<lparr>lastY := 900000, ampRef := 5, speedRef := 2,
          ripplesRef := [\<lparr>r_x = 150, strength = 18, radius = 120, decay = 0.985\<rparr>]\<rparr>"
  let ?wst2 = "(wave_initial 40 1 280)\<lparr>lastY := 250, ampRef := 60, speedRef := 2\<rparr>"
  let ?sst' = "(shoal_initial 200 1)\<lparr>lastY := 900000, ampRef := 6, speedRef := 2\<rparr>"
  let ?wa = "(wave_initial 40 1 280)\<lparr>lastY := 300\<rparr>"
  let ?wb = "(wave_initial 40 1 280)\<lparr>lastY := 250, ampRef := 50\<rparr>"
  let ?sa = "(shoal_initial 40 1)\<lparr>lastY := 300\<rparr>"
  let ?sb = "(shoal_initial 40 1)\<lparr>lastY := 250, ampRef := 51\<rparr>"
  have w: "wave_events ?wevs (wave_initial 200 1 280) = Some ?wst'"
    by (simp add: wave_initial_def onTouchStart_def wave_onTouchMove_def wave_spawnRippleAt_def
        wave_syncProps_def Let_def)
  have w2: "wave_events ?wevs2 (wave_initial 40 1 280) = Some ?wst2"
    by (simp add: wave_initial_def onTouchStart_def wave_onTouchMove_def wave_syncProps_def Let_def)
  have s: "shoal_events ?sevs (shoal_initial 200 1) = Some ?sst'"
    by (simp add: shoal_initial_def onTouchStart_def shoal_onTouchMove_def shoal_syncAmplitude_def
        shoal_syncSpeed_def Let_def)
  have e: "wave_event (WaveTouchMove 250) ?wa = Some ?wb"
    by (simp add: wave_initial_def wave_onTouchMove_def Let_def)
  have f: "shoal_event (ShoalTouchMove 250) ?sa = Some ?sb"
    by (simp add: shoal_initial_def shoal_onTouchMove_def Let_def)
  have hw: "wave_events ?wevs (wave_initial 200 1 280) = Some ?wst'
      \<and> (\<forall>e\<in>set ?wevs. wave_props_in_range e)
      \<and> (wave_amp_ok (wave_initial 200 1 280)
          \<or> (\<exists>e\<in>set ?wevs. is_WaveTouchMove e \<or> is_WaveProps e))"
    using w by simp
  have hw2: "wave_events ?wevs2 (wave_initial 40 1 280) = Some ?wst2
      \<and> (\<forall>e\<in>set ?wevs2. wave_props_in_range e)
      \<and> (wave_amp_ok (wave_initial 40 1 280)
          \<or> (\<exists>e\<in>set ?wevs2. is_WaveTouchMove e \<or> is_WaveProps e))"
    using w2 by simp
  have hs: "shoal_events ?sevs (shoal_initial 200 1) = Some ?sst'
      \<and> (\<forall>e\<in>set ?sevs. shoal_props_in_range e)
      \<and> (shoal_amp_ok (shoal_initial 200 1)
          \<or> (\<exists>e\<in>set ?sevs. is_ShoalTouchMove e \<or> is_ShoalAmplitude e))"
    using s by simp
  note both = amplitude_in_range_after_touch_moves
    [of ?wevs "wave_initial 200 1 280" ?wst' ?sevs "shoal_initial 200 1" ?sst'
        "WaveTouchMove 250" ?wa ?wb "ShoalTouchMove 250" ?sa ?sb]
  note second = amplitude_in_range_after_touch_moves
    [of ?wevs2 "wave_initial 40 1 280" ?wst2]
  have cw: "5 \<le> ampRef ?wst' \<and> ampRef ?wst' \<le> 120"
    by (rule both [THEN conjunct1, THEN mp, OF hw])
  have cw2: "5 \<le> ampRef ?wst2 \<and> ampRef ?wst2 \<le> 120"
    by (rule second [THEN conjunct1, THEN mp, OF hw2])
  have cs: "6 \<le> ampRef ?sst' \<and> ampRef ?sst' \<le> 120"
    by (rule both [THEN conjunct2, THEN conjunct1, THEN mp, OF hs])
  have ce: "ampRef ?wb = max 5 (min 120 (ampRef ?wa + (lastY ?wa - 250) * 0.2))"
    using both [THEN conjunct2, THEN conjunct2, THEN conjunct1, THEN mp, OF e] by simp
  have cf: "ampRef ?sb = max 6 (min 120 (ampRef ?sa + (lastY ?sa - 250) * 0.22))"
    using both [THEN conjunct2, THEN conjunct2, THEN conjunct2, THEN mp, OF f] by simp
  from w w2 s cw cw2 cs e ce f cf show ?thesis
    by (iprover intro: conjI)
qed

section \<open>Ripples: what a call of rippleOffset does\<close>

lemma ripples_ok_Cons: "ripples_ok (r # rs) \<longleftrightarrow> radius r \<noteq> 0 \<and> ripples_ok rs"
  by (simp add: ripples_ok_def)

lemma ripples_ok_wave_prune: "ripples_ok rs \<Longrightarrow> ripples_ok (wave_prune rs)"
  by (induction rs) (simp_all add: ripples_ok_def wave_prune_def decayed_def)

lemma ripples_ok_shoal_prune: "ripples_ok rs \<Longrightarrow> ripples_ok (shoal_prune rs)"
  by (induction rs) (simp_all add: ripples_ok_def shoal_prune_def decayed_def)

lemma wave_prune_Cons:
  "wave_prune (r # rs) = (if strength r * decay r < 0.3 then wave_prune rs else decayed r # wave_prune rs)"
  by (simp add: wave_prune_def decayed_def)

lemma shoal_prune_Cons:
  "shoal_prune (r # rs) = (if strength r * decay r < 0.25 then shoal_prune rs else decayed r # shoal_prune rs)"
  by (simp add: shoal_prune_def decayed_def)

lemma wave_rippleOffset_Some:
  "ripples_ok rs \<Longrightarrow> \<exists>dy. wave_rippleOffset spd x t rs = Some (dy, wave_prune rs)"
proof (induction rs)
  case Nil
  then show ?case by (simp add: wave_prune_def)
next
  case (Cons r rs)
  then obtain dy where dy: "wave_rippleOffset spd x t rs = Some (dy, wave_prune rs)"
    by (auto simp: ripples_ok_Cons)
  have r: "radius r \<noteq> 0" using Cons.prems by (simp add: ripples_ok_Cons)
  show ?case
    using dy r by (simp add: js_div_def Let_def wave_prune_Cons decayed_def)
qed

lemma shoal_rippleOffset_Some:
  "ripples_ok rs \<Longrightarrow> \<exists>dy. shoal_rippleOffset x rs = Some (dy, shoal_prune rs)"
proof (induction rs)
  case Nil
  then show ?case by (simp add: shoal_prune_def)
next
  case (Cons r rs)
  then obtain dy where dy: "shoal_rippleOffset x rs = Some (dy, shoal_prune rs)"
    by (auto simp: ripples_ok_Cons)
  have r: "radius r \<noteq> 0" using Cons.prems by (simp add: ripples_ok_Cons)
  show ?case
    using dy r by (simp add: js_div_def Let_def shoal_prune_Cons decayed_def)
qed

lemma ripples_ok_funpow_wave: "ripples_ok rs \<Longrightarrow> ripples_ok ((wave_prune ^^ n) rs)"
  by (induction n) (simp_all add: ripples_ok_wave_prune)

lemma ripples_ok_funpow_shoal: "ripples_ok rs \<Longrightarrow> ripples_ok ((shoal_prune ^^ n) rs)"
  by (induction n) (simp_all add: ripples_ok_shoal_prune)

lemma samples_from_step: "x \<le> w \<Longrightarrow> samples_from x w = Suc (samples_from (x + 2) w)"
  by (auto simp: samples_from_def not_le)

lemma samples_from_beyond: "\<not> x \<le> w \<Longrightarrow> samples_from x w = 0"
  by (simp add: samples_from_def)

lemma wave_points_Some:
  "wl \<noteq> 0 \<Longrightarrow> ripples_ok rs \<Longrightarrow>
    \<exists>pts. wave_points st layerIndex t amp wl yBase w x rs
            = Some (pts, (wave_prune ^^ samples_from x w) rs)
        \<and> length pts = samples_from x w"
proof (induction st layerIndex t amp wl yBase w x rs rule: wave_points.induct)
  case (1 st layerIndex t amp wl yBase w x rs)
  show ?case
  proof (cases "x \<le> w")
    case True
    obtain ro where ro: "wave_rippleOffset (speedRef st) (real x) t rs = Some (ro, wave_prune rs)"
      using wave_rippleOffset_Some [OF "1.prems"(2)] by blast
    have d: "js_div (real x + phaseRef st * 60 * (real layerIndex + 1)) wl
        = Some ((real x + phaseRef st * 60 * (real layerIndex + 1)) / wl)"
      using "1.prems"(1) by (simp add: js_div_def)
    have ok: "ripples_ok (wave_prune rs)"
      using "1.prems"(2) by (rule ripples_ok_wave_prune)
    from "1.IH" [OF True d ro refl refl "1.prems"(1) ok]
    obtain pts where pts: "wave_points st layerIndex t amp wl yBase w (x + 2) (wave_prune rs)
        = Some (pts, (wave_prune ^^ samples_from (x + 2) w) (wave_prune rs))"
      and len: "length pts = samples_from (x + 2) w"
      by auto
    show ?thesis
      apply (subst wave_points.simps)
      using True d ro pts len
      by (simp add: samples_from_step funpow_swap1 Let_def)
  next
    case False
    then show ?thesis
      by (subst wave_points.simps) (simp add: samples_from_beyond)
  qed
qed

section \<open>WaveCanvas: every step of a frame returns\<close>

lemma drawWaveLayer_Some:
  "ripples_ok rs \<Longrightarrow>
    \<exists>pts. drawWaveLayer layerIndex t w h st rs = Some (pts, (wave_prune ^^ samples_from 0 w) rs)
        \<and> length pts = samples_from 0 w"
proof -
  assume ok: "ripples_ok rs"
  have "max 80 (wlRef st - real layerIndex * 44) \<noteq> 0" by linarith
  from wave_points_Some [OF this ok] show ?thesis
    unfolding drawWaveLayer_def Let_def by blast
qed

lemma funpow_apply_add: "(f ^^ a) ((f ^^ b) x) = (f ^^ (a + b)) x"
  by (simp add: funpow_add)

lemma wave_layers_Some:
  "ripples_ok rs \<Longrightarrow>
    \<exists>pts. wave_layers i t w h st rs = Some (pts, (wave_prune ^^ (Suc i * samples_from 0 w)) rs)
        \<and> length pts = samples_from 0 w"
proof (induction i arbitrary: rs)
  case 0
  from drawWaveLayer_Some [OF this] show ?case by simp
next
  case (Suc i)
  obtain pts where l: "drawWaveLayer (Suc i) t w h st rs = Some (pts, (wave_prune ^^ samples_from 0 w) rs)"
    using drawWaveLayer_Some [OF Suc.prems] by blast
  have "ripples_ok ((wave_prune ^^ samples_from 0 w) rs)"
    using Suc.prems by (rule ripples_ok_funpow_wave)
  from Suc.IH [OF this] obtain pts0 where
    "wave_layers i t w h st ((wave_prune ^^ samples_from 0 w) rs)
       = Some (pts0, (wave_prune ^^ (Suc i * samples_from 0 w)) ((wave_prune ^^ samples_from 0 w) rs))"
    and "length pts0 = samples_from 0 w"
    by blast
  moreover have "(wave_prune ^^ (Suc i * samples_from 0 w)) ((wave_prune ^^ samples_from 0 w) rs)
      = (wave_prune ^^ (Suc (Suc i) * samples_from 0 w)) rs"
    by (simp only: funpow_apply_add mult_Suc [of "Suc i"] add.commute [of "samples_from 0 w"])
  ultimately show ?case
    using l by (simp del: funpow.simps mult_Suc)
qed

lemma samples_from_0: "samples_from 0 w = w div 2 + 1"
  by (simp add: samples_from_def)

lemma crestSampler_Some: "pts \<noteq> [] \<Longrightarrow> \<exists>c. crestSampler pts x = Some c"
proof -
  assume "pts \<noteq> []"
  then have "0 < length pts" by simp
  then have "nat (max 0 (min (int (length pts) - 1) (js_round (x / 2)))) < length pts"
    by linarith
  then show ?thesis
    by (simp add: crestSampler_def Let_def)
qed

lemma particles_ok_append:
  "particles_ok (ps @ qs) \<longleftrightarrow> particles_ok ps \<and> particles_ok qs"
  by (simp add: particles_ok_def)

lemma particles_ok_Cons:
  "particles_ok (p # ps) \<longleftrightarrow> maxLife p \<noteq> 0 \<and> particles_ok ps"
  by (simp add: particles_ok_def)

lemma random_maxLife: "random_ok rn \<Longrightarrow> 60 + rn n * c \<noteq> 0" if "0 \<le> c" for c :: real
proof -
  assume "random_ok rn"
  then have "0 \<le> rn n" by (simp add: random_ok_def)
  with that have "0 \<le> rn n * c" by simp
  then show ?thesis by linarith
qed

lemma wave_spawn_Some:
  "pts \<noteq> [] \<Longrightarrow> random_ok rn \<Longrightarrow> particles_ok ps \<Longrightarrow>
    \<exists>ps'. wave_spawn k maxParticles w spd pts rn n ps = Some ps'
       \<and> particles_ok ps'
       \<and> int (length ps') \<le> max (int (length ps)) maxParticles
       \<and> length ps \<le> length ps'"
proof (induction k arbitrary: n ps)
  case 0
  then show ?case by simp
next
  case (Suc k)
  show ?case
  proof (cases "int (length ps) \<ge> maxParticles")
    case True
    with Suc.prems show ?thesis by simp
  next
    case False
    obtain c where c: "crestSampler pts (rn n * real w) = Some c"
      using crestSampler_Some [OF Suc.prems(1)] by blast
    define p where "p = \<lparr>p_x = rn n * real w, p_y = c - 4 + (rn (n + 1) - 0.5) * 6,
                 p_vx = 0.6 + rn (n + 2) * 0.6 + spd * 0.2,
                 p_vy = - 0.15 + (rn (n + 3) - 0.5) * 0.3,
                 life = 0,
                 maxLife = 60 + rn (n + 4) * 60,
                 p_size = 1.2 + rn (n + 5) * 1.6,
                 p_alpha = 0.8\<rparr>"
    have "maxLife p \<noteq> 0"
      unfolding p_def using random_maxLife [OF _ Suc.prems(2), of 60 "n + 4"] by simp
    then have ok: "particles_ok (ps @ [p])"
      using Suc.prems(3) by (simp add: particles_ok_append particles_ok_Cons particles_ok_def)
    from Suc.IH [OF Suc.prems(1,2) ok, of "n + 6"] obtain ps' where
      s: "wave_spawn k maxParticles w spd pts rn (n + 6) (ps @ [p]) = Some ps'"
      and ok': "particles_ok ps'"
      and le: "int (length ps') \<le> max (int (length (ps @ [p]))) maxParticles"
      and ge: "length (ps @ [p]) \<le> length ps'"
      by blast
    have "wave_spawn (Suc k) maxParticles w spd pts rn n ps = Some ps'"
      using False c s by (simp add: Let_def p_def)
    moreover have "int (length ps') \<le> max (int (length ps)) maxParticles"
      using le False by simp
    moreover have "length ps \<le> length ps'"
      using ge by simp
    ultimately show ?thesis using ok' by blast
  qed
qed

lemma wave_advance_Some:
  assumes "maxLife p \<noteq> 0"
  shows "\<exists>q. wave_advance pr p = Some q \<and> life q = life p + 1 \<and> maxLife q = maxLife p
      \<and> p_x q = p_x p + p_vx p \<and> p_y q = p_y p + p_vy p"
proof (cases "inside pr \<and> (p_x p + p_vx p - ptr_x pr) * (p_x p + p_vx p - ptr_x pr)
    + (p_y p + p_vy p - ptr_y pr) * (p_y p + p_vy p - ptr_y pr) < 38 * 38")
  case True
  define d2 where "d2 = (p_x p + p_vx p - ptr_x pr) * (p_x p + p_vx p - ptr_x pr)
    + (p_y p + p_vy p - ptr_y pr) * (p_y p + p_vy p - ptr_y pr)"
  define d where "d = (if sqrt d2 = 0 then 1 else sqrt d2)"
  have d: "d \<noteq> 0" by (simp add: d_def)
  show ?thesis
    using True assms d unfolding wave_advance_def Let_def js_div_def d_def d2_def
    by simp
next
  case False
  then show ?thesis
    using assms unfolding wave_advance_def Let_def js_div_def
    by auto
qed

lemma shoal_advance_Some:
  assumes "maxLife p \<noteq> 0"
  shows "\<exists>q. shoal_advance pr p = Some q \<and> life q = life p + 1 \<and> maxLife q = maxLife p
      \<and> p_x q = p_x p + p_vx p \<and> p_y q = p_y p + p_vy p"
proof (cases "inside pr \<and> (p_x p + p_vx p - ptr_x pr) * (p_x p + p_vx p - ptr_x pr)
    + (p_y p + p_vy p - ptr_y pr) * (p_y p + p_vy p - ptr_y pr) < 40 * 40")
  case True
  define d2 where "d2 = (p_x p + p_vx p - ptr_x pr) * (p_x p + p_vx p - ptr_x pr)
    + (p_y p + p_vy p - ptr_y pr) * (p_y p + p_vy p - ptr_y pr)"
  define d where "d = (if sqrt d2 = 0 then 1 else sqrt d2)"
  have d: "d \<noteq> 0" by (simp add: d_def)
  show ?thesis
    using True assms d unfolding shoal_advance_def Let_def js_div_def d_def d2_def
    by simp
next
  case False
  then show ?thesis
    using assms unfolding shoal_advance_def Let_def js_div_def
    by auto
qed

section \<open>The particle update loops\<close>

lemma wave_update_char:
  "particles_ok ps \<Longrightarrow>
   \<exists>qs. list_all2 (\<lambda>p q. wave_advance pr p = Some q \<and> life q = life p + 1 \<and> maxLife q = maxLife p
             \<and> p_x q = p_x p + p_vx p \<and> p_y q = p_y p + p_vy p) ps qs
      \<and> wave_update w h pr ps = Some (filter (\<lambda>q. \<not> wave_removed w h q) qs)"
proof (induction ps)
  case Nil
  then show ?case by simp
next
  case (Cons p ps)
  from Cons.prems have m: "maxLife p \<noteq> 0" and ok: "particles_ok ps"
    by (simp_all add: particles_ok_Cons)
  from Cons.IH [OF ok] obtain qs where
    qs: "list_all2 (\<lambda>p q. wave_advance pr p = Some q \<and> life q = life p + 1 \<and> maxLife q = maxLife p
             \<and> p_x q = p_x p + p_vx p \<and> p_y q = p_y p + p_vy p) ps qs"
    and u: "wave_update w h pr ps = Some (filter (\<lambda>q. \<not> wave_removed w h q) qs)"
    by blast
  from wave_advance_Some [OF m, of pr] obtain q where
    q: "wave_advance pr p = Some q" "life q = life p + 1" "maxLife q = maxLife p"
      "p_x q = p_x p + p_vx p" "p_y q = p_y p + p_vy p"
    by blast
  have "list_all2 (\<lambda>p q. wave_advance pr p = Some q \<and> life q = life p + 1 \<and> maxLife q = maxLife p
             \<and> p_x q = p_x p + p_vx p \<and> p_y q = p_y p + p_vy p) (p # ps) (q # qs)"
    using q qs by simp
  moreover have "wave_update w h pr (p # ps) = Some (filter (\<lambda>q. \<not> wave_removed w h q) (q # qs))"
    using q(1) u by simp
  ultimately show ?case by blast
qed

lemma shoal_update_char:
  "particles_ok ps \<Longrightarrow>
   \<exists>qs. list_all2 (\<lambda>p q. shoal_advance pr p = Some q \<and> life q = life p + 1 \<and> maxLife q = maxLife p
             \<and> p_x q = p_x p + p_vx p \<and> p_y q = p_y p + p_vy p) ps qs
      \<and> shoal_update w h pr ps = Some (filter (\<lambda>q. \<not> shoal_removed w h q) qs)"
proof (induction ps)
  case Nil
  then show ?case by simp
next
  case (Cons p ps)
  from Cons.prems have m: "maxLife p \<noteq> 0" and ok: "particles_ok ps"
    by (simp_all add: particles_ok_Cons)
  from Cons.IH [OF ok] obtain qs where
    qs: "list_all2 (\<lambda>p q. shoal_advance pr p = Some q \<and> life q = life p + 1 \<and> maxLife q = maxLife p
             \<and> p_x q = p_x p + p_vx p \<and> p_y q = p_y p + p_vy p) ps qs"
    and u: "shoal_update w h pr ps = Some (filter (\<lambda>q. \<not> shoal_removed w h q) qs)"
    by blast
  from shoal_advance_Some [OF m, of pr] obtain q where
    q: "shoal_advance pr p = Some q" "life q = life p + 1" "maxLife q = maxLife p"
      "p_x q = p_x p + p_vx p" "p_y q = p_y p + p_vy p"
    by blast
  have "list_all2 (\<lambda>p q. shoal_advance pr p = Some q \<and> life q = life p + 1 \<and> maxLife q = maxLife p
             \<and> p_x q = p_x p + p_vx p \<and> p_y q = p_y p + p_vy p) (p # ps) (q # qs)"
    using q qs by simp
  moreover have "shoal_update w h pr (p # ps) = Some (filter (\<lambda>q. \<not> shoal_removed w h q) (q # qs))"
    using q(1) u by simp
  ultimately show ?case by blast
qed

lemma update_keeps_ok:
  assumes "list_all2 (\<lambda>p q. adv p = Some q \<and> life q = life p + 1 \<and> maxLife q = maxLife p
             \<and> p_x q = p_x p + p_vx p \<and> p_y q = p_y p + p_vy p) ps qs"
    and "particles_ok ps"
  shows "particles_ok (filter P qs)"
proof -
  have "particles_ok qs"
    using assms unfolding particles_ok_def
    by (induction ps qs rule: list_all2_induct) simp_all
  then show ?thesis
    by (simp add: particles_ok_def list_all_iff)
qed

lemma wave_update_Some:
  assumes "particles_ok ps"
  shows "\<exists>ps'. wave_update w h pr ps = Some ps' \<and> particles_ok ps' \<and> length ps' \<le> length ps"
proof -
  from wave_update_char [OF assms, of pr w h] obtain qs where
    qs: "list_all2 (\<lambda>p q. wave_advance pr p = Some q \<and> life q = life p + 1 \<and> maxLife q = maxLife p
             \<and> p_x q = p_x p + p_vx p \<and> p_y q = p_y p + p_vy p) ps qs"
    and u: "wave_update w h pr ps = Some (filter (\<lambda>q. \<not> wave_removed w h q) qs)"
    by blast
  have "length (filter (\<lambda>q. \<not> wave_removed w h q) qs) \<le> length ps"
    using list_all2_lengthD [OF qs] length_filter_le [of _ qs] by simp
  with u update_keeps_ok [OF qs assms] show ?thesis by blast
qed

lemma shoal_update_Some:
  assumes "particles_ok ps"
  shows "\<exists>ps'. shoal_update w h pr ps = Some ps' \<and> particles_ok ps' \<and> length ps' \<le> length ps"
proof -
  from shoal_update_char [OF assms, of pr w h] obtain qs where
    qs: "list_all2 (\<lambda>p q. shoal_advance pr p = Some q \<and> life q = life p + 1 \<and> maxLife q = maxLife p
             \<and> p_x q = p_x p + p_vx p \<and> p_y q = p_y p + p_vy p) ps qs"
    and u: "shoal_update w h pr ps = Some (filter (\<lambda>q. \<not> shoal_removed w h q) qs)"
    by blast
  have "length (filter (\<lambda>q. \<not> shoal_removed w h q) qs) \<le> length ps"
    using list_all2_lengthD [OF qs] length_filter_le [of _ qs] by simp
  with u update_keeps_ok [OF qs assms] show ?thesis by blast
qed

lemma updateAndDrawParticles_Some:
  assumes "pts \<noteq> []" "random_ok rn" "particles_ok (particlesRef st)"
  shows "\<exists>ps'. updateAndDrawParticles w h st pts rn = Some ps' \<and> particles_ok ps'
     \<and> int (length ps') \<le> max (int (length (particlesRef st))) (wave_maxParticles w)"
proof -
  define k :: nat where "k = (if int (length (particlesRef st)) < wave_maxParticles w then 4 else 1)"
  from wave_spawn_Some [OF assms, of k "wave_maxParticles w" w "speedRef st" 0]
  obtain ps1 where s: "wave_spawn k (wave_maxParticles w) w (speedRef st) pts rn 0 (particlesRef st) = Some ps1"
    and ok1: "particles_ok ps1"
    and le: "int (length ps1) \<le> max (int (length (particlesRef st))) (wave_maxParticles w)"
    by blast
  from wave_update_Some [OF ok1, of w h "pointerRef st"] obtain ps' where
    u: "wave_update w h (pointerRef st) ps1 = Some ps'" and ok': "particles_ok ps'"
    and le': "length ps' \<le> length ps1"
    by blast
  have "updateAndDrawParticles w h st pts rn = Some ps'"
    using s u unfolding updateAndDrawParticles_def Let_def k_def by simp
  with ok' le le' show ?thesis by auto
qed

lemma canvas_okD:
  "canvas_ok st \<Longrightarrow> mounted st"
  "canvas_ok st \<Longrightarrow> ripples_ok (ripplesRef st)"
  "canvas_ok st \<Longrightarrow> particles_ok (particlesRef st)"
  by (simp_all add: canvas_ok_def)

lemma wave_draw_Some:
  assumes "canvas_ok st" "random_ok (f_rnd fr)"
  shows "\<exists>ps pts. wave_draw fr st
        = Some (st\<lparr>phaseRef := phaseRef st + 0.02 * speedRef st,
                   ripplesRef := (wave_prune ^^ (5 * samples_from 0 (f_width fr))) (ripplesRef st),
                   particlesRef := ps\<rparr>, pts)
      \<and> particles_ok ps
      \<and> int (length ps) \<le> max (int (length (particlesRef st))) (wave_maxParticles (f_width fr))
      \<and> length pts = samples_from 0 (f_width fr)"
proof -
  let ?st1 = "st\<lparr>phaseRef := phaseRef st + 0.02 * speedRef st\<rparr>"
  let ?rs = "(wave_prune ^^ (5 * samples_from 0 (f_width fr))) (ripplesRef st)"
  from wave_layers_Some [OF canvas_okD(2) [OF assms(1)], of 4 "f_now fr * 0.001" "f_width fr" "f_height fr" ?st1]
  obtain pts where l: "wave_layers 4 (f_now fr * 0.001) (f_width fr) (f_height fr) ?st1 (ripplesRef st)
        = Some (pts, ?rs)"
    and len: "length pts = samples_from 0 (f_width fr)"
    by auto
  have ne: "pts \<noteq> []" using len by (auto simp: samples_from_0)
  let ?st2 = "st\<lparr>phaseRef := phaseRef st + 0.02 * speedRef st, ripplesRef := ?rs\<rparr>"
  have pok: "particles_ok (particlesRef ?st2)"
    using canvas_okD(3) [OF assms(1)] by simp
  from updateAndDrawParticles_Some [OF ne assms(2) pok, of "f_width fr" "f_height fr"]
  obtain ps where u: "updateAndDrawParticles (f_width fr) (f_height fr) ?st2 pts (f_rnd fr) = Some ps"
    and ok: "particles_ok ps"
    and le: "int (length ps) \<le> max (int (length (particlesRef st))) (wave_maxParticles (f_width fr))"
    by auto
  have "wave_draw fr st = Some (?st2\<lparr>particlesRef := ps\<rparr>, pts)"
    unfolding wave_draw_unfold [OF canvas_okD(1) [OF assms(1)]] using l u by simp
  with ok le len show ?thesis by blast
qed

section \<open>ShoalingCanvas: geometry and the steps of a frame\<close>

lemma smoothstep_range:
  fixes t :: real
  assumes "0 \<le> t" "t \<le> 1"
  shows "0 \<le> t * t * (3 - 2 * t)" and "t * t * (3 - 2 * t) \<le> 1"
proof -
  show "0 \<le> t * t * (3 - 2 * t)"
    using assms by simp
  have "1 - t * t * (3 - 2 * t) = (1 - t) * (1 - t) * (1 + 2 * t)"
    by algebra
  moreover have "0 \<le> (1 - t) * (1 - t) * (1 + 2 * t)"
    using assms by simp
  ultimately show "t * t * (3 - 2 * t) \<le> 1"
    by linarith
qed

lemma shoalProgress_deep: "x \<le> w * 0.18 \<Longrightarrow> shoalProgress x w = Some 0"
  by (simp add: shoalProgress_def)

lemma shoalProgress_shallow: "w * 0.18 < x \<Longrightarrow> w * 0.72 \<le> x \<Longrightarrow> shoalProgress x w = Some 1"
  by (simp add: shoalProgress_def)

lemma shoalProgress_slope:
  assumes "w * 0.18 < x" "x < w * 0.72"
  shows "shoalProgress x w
    = Some (let t = (x - w * 0.18) / (w * 0.72 - w * 0.18) in t * t * (3 - 2 * t))"
proof -
  have "w * 0.72 - w * 0.18 \<noteq> 0" using assms by simp
  with assms show ?thesis
    by (simp add: shoalProgress_def js_div_def Let_def)
qed

lemma shoalProgress_Some: "\<exists>p. shoalProgress x w = Some p \<and> 0 \<le> p \<and> p \<le> 1"
proof -
  consider "x \<le> w * 0.18" | "w * 0.18 < x" "w * 0.72 \<le> x" | "w * 0.18 < x" "x < w * 0.72"
    by linarith
  then show ?thesis
  proof cases
    case 1
    then show ?thesis by (simp add: shoalProgress_deep)
  next
    case 2
    then show ?thesis by (simp add: shoalProgress_shallow)
  next
    case 3
    define t where "t = (x - w * 0.18) / (w * 0.72 - w * 0.18)"
    have pos: "0 < w * 0.72 - w * 0.18" using 3 by simp
    have "0 \<le> t" unfolding t_def using 3 pos by simp
    moreover have "t \<le> 1" unfolding t_def using 3 pos by (simp add: field_simps)
    ultimately have "0 \<le> t * t * (3 - 2 * t)" "t * t * (3 - 2 * t) \<le> 1"
      by (rule smoothstep_range)+
    then show ?thesis
      unfolding shoalProgress_slope [OF 3] Let_def t_def by simp
  qed
qed

lemma seabedY_Some: "\<exists>b. seabedY x w h = Some b"
proof -
  consider "x \<le> w * 0.18" | "w * 0.18 < x" "x \<le> w * 0.72" | "w * 0.18 < x" "w * 0.72 < x"
    by linarith
  then show ?thesis
  proof cases
    case 1
    then have "seabedY x w h = Some (h - max 8 (h * 0.03))"
      by (simp add: seabedY_def Let_def)
    then show ?thesis by blast
  next
    case 2
    then have "w * 0.72 - w * 0.18 \<noteq> 0" by simp
    with 2 have "seabedY x w h = Some (h - max 8 (h * 0.03)
        + (h * 0.46 - (h - max 8 (h * 0.03))) * ((x - w * 0.18) / (w * 0.72 - w * 0.18)))"
      by (simp add: seabedY_def Let_def js_div_def)
    then show ?thesis by blast
  next
    case 3
    then have "seabedY x w h = Some (h * 0.46)"
      by (simp add: seabedY_def Let_def)
    then show ?thesis by blast
  qed
qed

lemma A_lambda_of_progress:
  assumes "shoalProgress x w = Some p"
  shows "A amp0 x w = Some (amp0 * (1 + 1.4 * p))"
    and "lambda x w = Some (260 + (70 - 260) * p)"
  using assms by (simp_all add: A_def lambda_def)

lemma lambda_Some: "\<exists>lam. lambda x w = Some lam \<and> 70 \<le> lam \<and> lam \<le> 260"
proof -
  obtain p where p: "shoalProgress x w = Some p" "0 \<le> p" "p \<le> 1"
    using shoalProgress_Some by blast
  then show ?thesis
    by (simp add: A_lambda_of_progress(2))
qed

lemma A_Some:
  "\<exists>a. A amp0 x w = Some a \<and> (0 \<le> amp0 \<longrightarrow> amp0 \<le> a \<and> a \<le> 2.4 * amp0)"
proof -
  obtain p where p: "shoalProgress x w = Some p" "0 \<le> p" "p \<le> 1"
    using shoalProgress_Some by blast
  have "0 \<le> amp0 \<Longrightarrow> amp0 * p \<le> amp0" "0 \<le> amp0 \<Longrightarrow> 0 \<le> amp0 * p"
    using p by (simp_all add: mult_left_le)
  then show ?thesis
    using p(1) by (simp add: A_lambda_of_progress(1) algebra_simps)
qed

lemma surface_sample_Some:
  assumes "ripples_ok rs"
  shows "\<exists>smp Ay ro. surface_sample st w h baseY theta0 x rs = Some (smp, shoal_prune rs)
      \<and> smp_x smp = x
      \<and> lambda x w = Some (smp_lam smp)
      \<and> smp_theta smp = theta0 + 2 * pi / smp_lam smp * 2
      \<and> A (ampRef st) x w = Some Ay
      \<and> shoal_rippleOffset x rs = Some (ro, shoal_prune rs)
      \<and> smp_yWave smp = baseY + Ay * sin (smp_theta smp) + ro + shoal_lift (pointerRef st) x
      \<and> seabedY x w h = Some (smp_bed smp)
      \<and> smp_y smp = min (smp_yWave smp) (smp_bed smp - 2)"
proof -
  obtain lam where lam: "lambda x w = Some lam" "70 \<le> lam"
    using lambda_Some by blast
  then have k: "js_div (2 * pi) lam = Some (2 * pi / lam)"
    by (simp add: js_div_def)
  obtain Ay where Ay: "A (ampRef st) x w = Some Ay"
    using A_Some by blast
  obtain ro where ro: "shoal_rippleOffset x rs = Some (ro, shoal_prune rs)"
    using shoal_rippleOffset_Some [OF assms] by blast
  obtain bed where bed: "seabedY x w h = Some bed"
    using seabedY_Some by blast
  define smp where "smp = \<lparr>smp_x = x, smp_lam = lam, smp_theta = theta0 + 2 * pi / lam * 2,
       smp_yWave = baseY + Ay * sin (theta0 + 2 * pi / lam * 2) + ro + shoal_lift (pointerRef st) x,
       smp_bed = bed,
       smp_y = min (baseY + Ay * sin (theta0 + 2 * pi / lam * 2) + ro + shoal_lift (pointerRef st) x)
                 (bed - 2)\<rparr>"
  have "surface_sample st w h baseY theta0 x rs = Some (smp, shoal_prune rs)"
    unfolding surface_sample_def smp_def using lam(1) k Ay ro bed by (simp add: Let_def)
  moreover have "smp_x smp = x" "smp_lam smp = lam" "smp_theta smp = theta0 + 2 * pi / smp_lam smp * 2"
    "smp_yWave smp = baseY + Ay * sin (smp_theta smp) + ro + shoal_lift (pointerRef st) x"
    "smp_bed smp = bed" "smp_y smp = min (smp_yWave smp) (smp_bed smp - 2)"
    by (simp_all add: smp_def)
  ultimately show ?thesis
    using lam(1) Ay ro bed by metis
qed

lemma surface_points_Some:
  "ripples_ok rs \<Longrightarrow>
    \<exists>smps. surface_points st w h baseY theta x rs
              = Some (smps, (shoal_prune ^^ samples_from x w) rs)
      \<and> length smps = samples_from x w
      \<and> (\<forall>i<length smps.
            smp_x (smps ! i) = real (x + 2 * i)
          \<and> lambda (real (x + 2 * i)) (real w) = Some (smp_lam (smps ! i))
          \<and> smp_theta (smps ! i) = theta + (\<Sum>j\<le>i. 2 * pi / smp_lam (smps ! j) * 2)
          \<and> seabedY (real (x + 2 * i)) (real w) (real h) = Some (smp_bed (smps ! i))
          \<and> smp_y (smps ! i) \<le> smp_bed (smps ! i) - 2)"
proof (induction st w h baseY theta x rs rule: surface_points.induct)
  case (1 st w h baseY theta x rs)
  show ?case
  proof (cases "x \<le> w")
    case True
    from surface_sample_Some [OF "1.prems", of st "real w" "real h" baseY theta "real x"]
    obtain smp where s: "surface_sample st (real w) (real h) baseY theta (real x) rs
          = Some (smp, shoal_prune rs)"
      and sx: "smp_x smp = real x"
      and sl: "lambda (real x) (real w) = Some (smp_lam smp)"
      and st: "smp_theta smp = theta + 2 * pi / smp_lam smp * 2"
      and sb: "seabedY (real x) (real w) (real h) = Some (smp_bed smp)"
      and sy: "smp_y smp = min (smp_yWave smp) (smp_bed smp - 2)"
      by blast
    have ok: "ripples_ok (shoal_prune rs)"
      using "1.prems" by (rule ripples_ok_shoal_prune)
    from "1.IH" [OF True s refl ok]
    obtain smps where r: "surface_points st w h baseY (smp_theta smp) (x + 2) (shoal_prune rs)
          = Some (smps, (shoal_prune ^^ samples_from (x + 2) w) (shoal_prune rs))"
      and len: "length smps = samples_from (x + 2) w"
      and each: "\<And>i. i < length smps \<Longrightarrow>
            smp_x (smps ! i) = real (x + 2 + 2 * i)
          \<and> lambda (real (x + 2 + 2 * i)) (real w) = Some (smp_lam (smps ! i))
          \<and> smp_theta (smps ! i) = smp_theta smp + (\<Sum>j\<le>i. 2 * pi / smp_lam (smps ! j) * 2)
          \<and> seabedY (real (x + 2 + 2 * i)) (real w) (real h) = Some (smp_bed (smps ! i))
          \<and> smp_y (smps ! i) \<le> smp_bed (smps ! i) - 2"
      by blast
    have run: "surface_points st w h baseY theta x rs
        = Some (smp # smps, (shoal_prune ^^ samples_from x w) rs)"
      apply (subst surface_points.simps)
      using True s r by (simp add: samples_from_step funpow_swap1)
    have n: "length (smp # smps) = samples_from x w"
      using len True by (simp add: samples_from_step)
    have all: "smp_x ((smp # smps) ! i) = real (x + 2 * i)
          \<and> lambda (real (x + 2 * i)) (real w) = Some (smp_lam ((smp # smps) ! i))
          \<and> smp_theta ((smp # smps) ! i) = theta + (\<Sum>j\<le>i. 2 * pi / smp_lam ((smp # smps) ! j) * 2)
          \<and> seabedY (real (x + 2 * i)) (real w) (real h) = Some (smp_bed ((smp # smps) ! i))
          \<and> smp_y ((smp # smps) ! i) \<le> smp_bed ((smp # smps) ! i) - 2"
      if "i < length (smp # smps)" for i
    proof (cases i)
      case 0
      then show ?thesis using sx sl st sb sy by simp
    next
      case (Suc k)
      with that have k: "k < length smps" by simp
      have sum: "(\<Sum>j\<le>Suc k. 2 * pi / smp_lam ((smp # smps) ! j) * 2)
          = 2 * pi / smp_lam smp * 2 + (\<Sum>j\<le>k. 2 * pi / smp_lam (smps ! j) * 2)"
        by (simp add: sum.atMost_Suc_shift del: sum.atMost_Suc)
      have idx: "x + 2 + 2 * k = x + 2 * Suc k" by simp
      show ?thesis
        using each [OF k] unfolding Suc sum idx st by simp
    qed
    from run n all show ?thesis by blast
  next
    case False
    then show ?thesis
      by (subst surface_points.simps) (simp add: samples_from_beyond)
  qed
qed

lemma seabed_points_Some: "\<exists>pts. seabed_points w h x = Some pts"
proof (induction w h x rule: seabed_points.induct)
  case (1 w h x)
  show ?case
  proof (cases "x \<le> w")
    case True
    obtain y where y: "seabedY (real x) (real w) (real h) = Some y"
      using seabedY_Some by blast
    from "1.IH" [OF True y] obtain pts where "seabed_points w h (x + 3) = Some pts"
      by blast
    with True y show ?thesis
      by (subst seabed_points.simps) simp
  next
    case False
    then show ?thesis
      by (subst seabed_points.simps) simp
  qed
qed

lemma seabed_points_back_Some: "\<exists>pts. seabed_points_back w h x = Some pts"
proof (induction w h x rule: seabed_points_back.induct)
  case (1 w h x)
  show ?case
  proof (cases "x \<ge> 0")
    case True
    obtain y where y: "seabedY (real_of_int x) (real w) (real h) = Some y"
      using seabedY_Some by blast
    from "1.IH" [OF True y] obtain pts where "seabed_points_back w h (x - 3) = Some pts"
      by blast
    with True y show ?thesis
      by (subst seabed_points_back.simps) simp
  next
    case False
    then show ?thesis
      by (subst seabed_points_back.simps) simp
  qed
qed

lemma shoal_spawn_Some:
  "pts \<noteq> [] \<Longrightarrow> random_ok rn \<Longrightarrow> particles_ok ps \<Longrightarrow>
    \<exists>new. shoal_spawn k w spd pts rn n ps = Some (ps @ new)
       \<and> particles_ok (ps @ new) \<and> length new = k
       \<and> (\<forall>p\<in>set new. life p = 0 \<and> 60 \<le> maxLife p)"
proof (induction k arbitrary: n ps)
  case 0
  then show ?case by simp
next
  case (Suc k)
  obtain c where c: "crestSampler pts (real w * (0.45 + rn n * 0.5)) = Some c"
    using crestSampler_Some [OF Suc.prems(1)] by blast
  define p where "p = \<lparr>p_x = real w * (0.45 + rn n * 0.5), p_y = c - 3 + (rn (n + 1) - 0.5) * 4,
              p_vx = 0.8 + rn (n + 2) * 0.8 + spd * 0.4,
              p_vy = - 0.12 + (rn (n + 3) - 0.5) * 0.24,
              life = 0,
              maxLife = 60 + rn (n + 4) * 70,
              p_size = 1 + rn (n + 5) * 1.8,
              p_alpha = 0.85\<rparr>"
  have "0 \<le> rn (n + 4)" using Suc.prems(2) by (simp add: random_ok_def)
  then have m: "60 \<le> maxLife p" "life p = 0"
    unfolding p_def by simp_all
  then have ok: "particles_ok (ps @ [p])"
    using Suc.prems(3) by (simp add: particles_ok_def)
  from Suc.IH [OF Suc.prems(1,2) ok, of "n + 6"] obtain new where
    s: "shoal_spawn k w spd pts rn (n + 6) (ps @ [p]) = Some ((ps @ [p]) @ new)"
    and ok': "particles_ok ((ps @ [p]) @ new)"
    and len: "length new = k"
    and young: "\<forall>p\<in>set new. life p = 0 \<and> 60 \<le> maxLife p"
    by blast
  have "shoal_spawn (Suc k) w spd pts rn n ps = Some (ps @ (p # new))"
    using c s by (simp add: Let_def p_def)
  moreover have "particles_ok (ps @ (p # new))" using ok' by simp
  moreover have "length (p # new) = Suc k" using len by simp
  moreover have "\<forall>q\<in>set (p # new). life q = 0 \<and> 60 \<le> maxLife q"
    using young m by simp
  ultimately show ?case by blast
qed

lemma updateParticles_Some:
  assumes "pts \<noteq> []" "random_ok rn" "particles_ok (particlesRef st)"
  shows "\<exists>ps'. updateParticles w h st pts rn = Some ps' \<and> particles_ok ps'"
proof -
  define k :: nat where "k = (if int (length (particlesRef st)) < shoal_max w then 3 else 1)"
  from shoal_spawn_Some [OF assms, of k w "speedRef st" 0]
  obtain new where s: "shoal_spawn k w (speedRef st) pts rn 0 (particlesRef st) = Some (particlesRef st @ new)"
    and ok1: "particles_ok (particlesRef st @ new)"
    by blast
  from shoal_update_Some [OF ok1, of w h "pointerRef st"] obtain ps' where
    u: "shoal_update w h (pointerRef st) (particlesRef st @ new) = Some ps'" and ok': "particles_ok ps'"
    by blast
  have "updateParticles w h st pts rn = Some ps'"
    using s u unfolding updateParticles_def Let_def k_def by simp
  with ok' show ?thesis by auto
qed

lemma shoal_draw_Some:
  assumes "canvas_ok st" "random_ok (f_rnd fr)"
  shows "\<exists>ps smps pic. shoal_draw fr st
        = Some (st\<lparr>timeRef := timeRef st + 0.016 * (0.9 + speedRef st * 0.4),
                   ripplesRef := (shoal_prune ^^ samples_from 0 (f_width fr)) (ripplesRef st),
                   particlesRef := ps\<rparr>, pic)
      \<and> particles_ok ps
      \<and> pic_surface pic = map sample_point smps
      \<and> length smps = samples_from 0 (f_width fr)
      \<and> (\<forall>i<length smps.
            smp_x (smps ! i) = real (2 * i)
          \<and> seabedY (real (2 * i)) (real (f_width fr)) (real (f_height fr)) = Some (smp_bed (smps ! i))
          \<and> smp_y (smps ! i) \<le> smp_bed (smps ! i) - 2)"
proof -
  let ?t = "timeRef st + 0.016 * (0.9 + speedRef st * 0.4)"
  let ?st1 = "st\<lparr>timeRef := ?t\<rparr>"
  let ?rs = "(shoal_prune ^^ samples_from 0 (f_width fr)) (ripplesRef st)"
  obtain bedPts where b: "seabed_points (f_width fr) (f_height fr) 0 = Some bedPts"
    using seabed_points_Some by blast
  from surface_points_Some [OF canvas_okD(2) [OF assms(1)], of ?st1 "f_width fr" "f_height fr"
      "real (f_height fr) * 0.38" "- 2.2 * ?t" 0]
  obtain smps where l: "surface_points ?st1 (f_width fr) (f_height fr) (real (f_height fr) * 0.38)
        (- 2.2 * ?t) 0 (ripplesRef st) = Some (smps, ?rs)"
    and len: "length smps = samples_from 0 (f_width fr)"
    and each: "\<forall>i<length smps.
            smp_x (smps ! i) = real (0 + 2 * i)
          \<and> lambda (real (0 + 2 * i)) (real (f_width fr)) = Some (smp_lam (smps ! i))
          \<and> smp_theta (smps ! i) = - 2.2 * ?t + (\<Sum>j\<le>i. 2 * pi / smp_lam (smps ! j) * 2)
          \<and> seabedY (real (0 + 2 * i)) (real (f_width fr)) (real (f_height fr)) = Some (smp_bed (smps ! i))
          \<and> smp_y (smps ! i) \<le> smp_bed (smps ! i) - 2"
    by blast
  have each': "\<forall>i<length smps.
            smp_x (smps ! i) = real (2 * i)
          \<and> seabedY (real (2 * i)) (real (f_width fr)) (real (f_height fr)) = Some (smp_bed (smps ! i))
          \<and> smp_y (smps ! i) \<le> smp_bed (smps ! i) - 2"
    using each unfolding add_0 by blast
  have ne: "map sample_point smps \<noteq> []" using len by (auto simp: samples_from_0)
  obtain edge where e: "seabedY (real (f_width fr)) (real (f_width fr)) (real (f_height fr)) = Some edge"
    using seabedY_Some by blast
  obtain bk where k: "seabed_points_back (f_width fr) (f_height fr) (int (f_width fr)) = Some bk"
    using seabed_points_back_Some by blast
  let ?st2 = "st\<lparr>timeRef := ?t, ripplesRef := ?rs\<rparr>"
  have pok: "particles_ok (particlesRef ?st2)"
    using canvas_okD(3) [OF assms(1)] by simp
  from updateParticles_Some [OF ne assms(2) pok, of "f_width fr" "f_height fr"]
  obtain ps where u: "updateParticles (f_width fr) (f_height fr) ?st2 (map sample_point smps) (f_rnd fr) = Some ps"
    and ok: "particles_ok ps"
    by auto
  let ?pic = "\<lparr>pic_seabed = bedPts, pic_surface = map sample_point smps,
       pic_seabed_back = \<lparr>pt_x = real (f_width fr), pt_y = edge\<rparr> # bk\<rparr>"
  have "shoal_draw fr st = Some (?st2\<lparr>particlesRef := ps\<rparr>, ?pic)"
    unfolding shoal_draw_unfold [OF canvas_okD(1) [OF assms(1)]] using b l e k u by simp
  moreover have "pic_surface ?pic = map sample_point smps"
    by simp
  ultimately show ?thesis using ok len each' by blast
qed

section \<open>ShoalingCanvas: local amplitude, wavelength and accumulated phase\<close>






section \<open>ShoalingCanvas: the surface stays above the seabed\<close>

text \<open>
  Claim C4. Numbers are modelled as reals, so a value is non-finite only where a division
  has a zero divisor. With the ripples the click handler creates (radius 120), every surface
  sample is computed without such a division, for every \<open>x\<close>, canvas size and phase, and its
  \<open>y\<close> is \<open>min yWave (bed - 2)\<close>: at least 2 px above the seabed at that \<open>x\<close> (the canvas \<open>y\<close>
  axis points down). So every frame of a mounted ShoalingCanvas returns, and every point of
  the surface polyline it draws is at least 2 px above \<open>seabedY\<close> at its \<open>x\<close>. The layers of
  WaveCanvas, which has no seabed, are computed without such a division as well.
\<close>

theorem shoaling_surface_defined_and_above_seabed:
  "(ripples_ok rs \<longrightarrow>
      (\<exists>smp. surface_sample st w h baseY theta0 x rs = Some (smp, shoal_prune rs)
         \<and> seabedY x w h = Some (smp_bed smp)
         \<and> smp_y smp = min (smp_yWave smp) (smp_bed smp - 2)
         \<and> smp_y smp \<le> smp_bed smp - 2))
   \<and> (canvas_ok cst \<and> random_ok (f_rnd fr) \<longrightarrow>
      (\<exists>st' pic. shoal_draw fr cst = Some (st', pic)
         \<and> length (pic_surface pic) = f_width fr div 2 + 1
         \<and> (\<forall>i<length (pic_surface pic). \<exists>bed.
               pt_x (pic_surface pic ! i) = real (2 * i)
             \<and> seabedY (real (2 * i)) (real (f_width fr)) (real (f_height fr)) = Some bed
             \<and> pt_y (pic_surface pic ! i) \<le> bed - 2)))
   \<and> (ripples_ok rs \<longrightarrow>
      (\<exists>pts rs'. drawWaveLayer layerIndex t lw lh wst rs = Some (pts, rs')
         \<and> length pts = lw div 2 + 1))"
proof -
  have sample: "ripples_ok rs \<longrightarrow>
      (\<exists>smp. surface_sample st w h baseY theta0 x rs = Some (smp, shoal_prune rs)
         \<and> seabedY x w h = Some (smp_bed smp)
         \<and> smp_y smp = min (smp_yWave smp) (smp_bed smp - 2)
         \<and> smp_y smp \<le> smp_bed smp - 2)"
  proof
    assume "ripples_ok rs"
    from surface_sample_Some [OF this, of st w h baseY theta0 x]
    obtain smp where "surface_sample st w h baseY theta0 x rs = Some (smp, shoal_prune rs)"
      and "seabedY x w h = Some (smp_bed smp)"
      and y: "smp_y smp = min (smp_yWave smp) (smp_bed smp - 2)"
      by blast
    moreover from y have "smp_y smp \<le> smp_bed smp - 2" by simp
    ultimately show "\<exists>smp. surface_sample st w h baseY theta0 x rs = Some (smp, shoal_prune rs)
         \<and> seabedY x w h = Some (smp_bed smp)
         \<and> smp_y smp = min (smp_yWave smp) (smp_bed smp - 2)
         \<and> smp_y smp \<le> smp_bed smp - 2"
      by blast
  qed
  have frame: "canvas_ok cst \<and> random_ok (f_rnd fr) \<longrightarrow>
      (\<exists>st' pic. shoal_draw fr cst = Some (st', pic)
         \<and> length (pic_surface pic) = f_width fr div 2 + 1
         \<and> (\<forall>i<length (pic_surface pic). \<exists>bed.
               pt_x (pic_surface pic ! i) = real (2 * i)
             \<and> seabedY (real (2 * i)) (real (f_width fr)) (real (f_height fr)) = Some bed
             \<and> pt_y (pic_surface pic ! i) \<le> bed - 2))"
  proof
    assume a: "canvas_ok cst \<and> random_ok (f_rnd fr)"
    from shoal_draw_Some [OF conjunct1 [OF a] conjunct2 [OF a]]
    obtain st' smps pic where d: "shoal_draw fr cst = Some (st', pic)"
      and p: "pic_surface pic = map sample_point smps"
      and len: "length smps = samples_from 0 (f_width fr)"
      and each: "\<forall>i<length smps.
            smp_x (smps ! i) = real (2 * i)
          \<and> seabedY (real (2 * i)) (real (f_width fr)) (real (f_height fr)) = Some (smp_bed (smps ! i))
          \<and> smp_y (smps ! i) \<le> smp_bed (smps ! i) - 2"
      by blast
    have "length (pic_surface pic) = f_width fr div 2 + 1"
      using p len by (simp add: samples_from_0)
    moreover have "\<forall>i<length (pic_surface pic). \<exists>bed.
               pt_x (pic_surface pic ! i) = real (2 * i)
             \<and> seabedY (real (2 * i)) (real (f_width fr)) (real (f_height fr)) = Some bed
             \<and> pt_y (pic_surface pic ! i) \<le> bed - 2"
      using each unfolding p by (simp add: sample_point_def)
    ultimately show "\<exists>st' pic. shoal_draw fr cst = Some (st', pic)
         \<and> length (pic_surface pic) = f_width fr div 2 + 1
         \<and> (\<forall>i<length (pic_surface pic). \<exists>bed.
               pt_x (pic_surface pic ! i) = real (2 * i)
             \<and> seabedY (real (2 * i)) (real (f_width fr)) (real (f_height fr)) = Some bed
             \<and> pt_y (pic_surface pic ! i) \<le> bed - 2)"
      using d by blast
  qed
  have layer: "ripples_ok rs \<longrightarrow>
      (\<exists>pts rs'. drawWaveLayer layerIndex t lw lh wst rs = Some (pts, rs')
         \<and> length pts = lw div 2 + 1)"
    using drawWaveLayer_Some [of rs layerIndex t lw lh wst] unfolding samples_from_0 by blast
  from sample frame layer show ?thesis by (iprover intro: conjI)
qed

theorem shoaling_surface_defined_and_above_seabed_witness:
  "ripples_ok [\<lparr>r_x = 150, strength = 10, radius = 120, decay = 0.985\<rparr>]
   \<and> (\<exists>smp. surface_sample (shoal_initial 40 1) 800 360 (360 * 0.38) 0 700
               [\<lparr>r_x = 150, strength = 10, radius = 120, decay = 0.985\<rparr>]
             = Some (smp, shoal_prune [\<lparr>r_x = 150, strength = 10, radius = 120, decay = 0.985\<rparr>])
         \<and> seabedY 700 800 360 = Some (smp_bed smp)
         \<and> smp_y smp \<le> smp_bed smp - 2)
   \<and> canvas_ok (shoal_spawnRipple 150 (shoal_initial 40 1))
   \<and> random_ok (\<lambda>n. 1 / 2)
   \<and> (\<exists>st' pic. shoal_draw \<lparr>f_now = 16, f_width = 800, f_height = 360, f_rnd = \<lambda>n. 1 / 2\<rparr>
                    (shoal_spawnRipple 150 (shoal_initial 40 1)) = Some (st', pic)
         \<and> length (pic_surface pic) = 401)"
proof -
  let ?r = "\<lparr>r_x = 150, strength = 10, radius = 120, decay = 0.985\<rparr>"
  let ?fr = "\<lparr>f_now = 16, f_width = 800, f_height = 360, f_rnd = \<lambda>n. 1 / 2\<rparr>"
  have ok: "ripples_ok [?r]"
    by (simp add: ripples_ok_def)
  have cok: "canvas_ok (shoal_spawnRipple 150 (shoal_initial 40 1)) \<and> random_ok (f_rnd ?fr)"
    by (simp add: canvas_ok_def shoal_spawnRipple_def shoal_initial_def ripples_ok_def
        particles_ok_def random_ok_def)
  from shoaling_surface_defined_and_above_seabed
      [where rs = "[?r]" and st = "shoal_initial 40 1" and w = 800 and h = 360
         and baseY = "360 * 0.38" and ?theta0.0 = 0 and x = 700,
       THEN conjunct1, THEN mp, OF ok]
  have smp: "\<exists>smp. surface_sample (shoal_initial 40 1) 800 360 (360 * 0.38) 0 700 [?r]
             = Some (smp, shoal_prune [?r])
         \<and> seabedY 700 800 360 = Some (smp_bed smp)
         \<and> smp_y smp \<le> smp_bed smp - 2"
    by blast
  from shoaling_surface_defined_and_above_seabed
      [where cst = "shoal_spawnRipple 150 (shoal_initial 40 1)" and fr = ?fr,
       THEN conjunct2, THEN conjunct1, THEN mp, OF cok]
  have fr: "\<exists>st' pic. shoal_draw ?fr (shoal_spawnRipple 150 (shoal_initial 40 1)) = Some (st', pic)
         \<and> length (pic_surface pic) = 401"
    by auto
  from cok have c1: "canvas_ok (shoal_spawnRipple 150 (shoal_initial 40 1))"
    and c2: "random_ok (\<lambda>n. 1 / 2)"
    by simp_all
  from ok smp c1 c2 fr show ?thesis
    by (iprover intro: conjI)
qed

section \<open>Ripples decay with every sample\<close>

lemma decay_pow_10: "(0.985::real) ^ 10 < 0.86"
  by (simp add: power_divide)

lemma decay_pow_100: "(0.985::real) ^ 100 < 1 / 4"
proof -
  have "(0.985::real) ^ 100 = (0.985 ^ 10) ^ 10"
    by (simp only: power_mult [symmetric]) simp
  also have "\<dots> < 0.86 ^ 10"
    by (rule power_strict_mono [OF decay_pow_10]) simp_all
  also have "\<dots> < 1 / 4"
    by (simp add: power_divide)
  finally show ?thesis .
qed

lemma decay_pow_300: "(0.985::real) ^ 300 < 1 / 64"
proof -
  have "(0.985::real) ^ 300 = (0.985 ^ 100) ^ 3"
    by (simp only: power_mult [symmetric]) simp
  also have "\<dots> < (1 / 4) ^ 3"
    by (rule power_strict_mono [OF decay_pow_100]) simp_all
  also have "\<dots> = 1 / 64"
    by (simp add: power_divide)
  finally show ?thesis .
qed


lemma prune_single_step:
  fixes thr :: real
  assumes "0 \<le> strength r" "0 \<le> decay r" "decay r \<le> 1"
  shows "strength r * decay r ^ n < thr \<Longrightarrow> strength r * decay r ^ Suc n < thr"
proof -
  assume lt: "strength r * decay r ^ n < thr"
  have "0 \<le> strength r * decay r ^ n" using assms by simp
  then have "strength r * decay r ^ n * decay r \<le> strength r * decay r ^ n"
    using assms(3) by (simp add: mult_left_le)
  with lt show ?thesis by (simp add: mult.assoc mult.commute [of "decay r"])
qed

lemma wave_prune_funpow_single:
  assumes "0.3 \<le> strength r" "0 \<le> decay r" "decay r \<le> 1"
  shows "(wave_prune ^^ n) [r]
    = (if strength r * decay r ^ n < 0.3 then [] else [r\<lparr>strength := strength r * decay r ^ n\<rparr>])"
proof (induction n)
  case 0
  with assms(1) show ?case by simp
next
  case (Suc n)
  have s0: "0 \<le> strength r" using assms(1) by simp
  have step: "(wave_prune ^^ Suc n) [r] = wave_prune ((wave_prune ^^ n) [r])"
    by simp
  show ?case
  proof (cases "strength r * decay r ^ n < 0.3")
    case True
    from prune_single_step [OF s0 assms(2,3) True]
    have "strength r * decay r ^ Suc n < 0.3" .
    moreover have "(wave_prune ^^ n) [r] = []"
      using Suc True by simp
    then have "(wave_prune ^^ Suc n) [r] = []"
      unfolding step by (simp add: wave_prune_def)
    ultimately show ?thesis by (simp del: power_Suc funpow.simps)
  next
    case False
    have pw: "strength r * decay r ^ n * decay r = strength r * decay r ^ Suc n"
      by simp
    have "(wave_prune ^^ n) [r] = [r\<lparr>strength := strength r * decay r ^ n\<rparr>]"
      using Suc False by simp
    then have "(wave_prune ^^ Suc n) [r]
        = (if strength r * decay r ^ n * decay r < 0.3 then []
           else [r\<lparr>strength := strength r * decay r ^ n * decay r\<rparr>])"
      unfolding step by (simp add: wave_prune_def decayed_def)
    then show ?thesis
      unfolding pw .
  qed
qed

lemma shoal_prune_funpow_single:
  assumes "0.25 \<le> strength r" "0 \<le> decay r" "decay r \<le> 1"
  shows "(shoal_prune ^^ n) [r]
    = (if strength r * decay r ^ n < 0.25 then [] else [r\<lparr>strength := strength r * decay r ^ n\<rparr>])"
proof (induction n)
  case 0
  with assms(1) show ?case by simp
next
  case (Suc n)
  have s0: "0 \<le> strength r" using assms(1) by simp
  have step: "(shoal_prune ^^ Suc n) [r] = shoal_prune ((shoal_prune ^^ n) [r])"
    by simp
  show ?case
  proof (cases "strength r * decay r ^ n < 0.25")
    case True
    from prune_single_step [OF s0 assms(2,3) True]
    have "strength r * decay r ^ Suc n < 0.25" .
    moreover have "(shoal_prune ^^ n) [r] = []"
      using Suc True by simp
    then have "(shoal_prune ^^ Suc n) [r] = []"
      unfolding step by (simp add: shoal_prune_def)
    ultimately show ?thesis by (simp del: power_Suc funpow.simps)
  next
    case False
    have pw: "strength r * decay r ^ n * decay r = strength r * decay r ^ Suc n"
      by simp
    have "(shoal_prune ^^ n) [r] = [r\<lparr>strength := strength r * decay r ^ n\<rparr>]"
      using Suc False by simp
    then have "(shoal_prune ^^ Suc n) [r]
        = (if strength r * decay r ^ n * decay r < 0.25 then []
           else [r\<lparr>strength := strength r * decay r ^ n * decay r\<rparr>])"
      unfolding step by (simp add: shoal_prune_def decayed_def)
    then show ?thesis
      unfolding pw .
  qed
qed

lemma decay_pow_ge_300: "300 \<le> n \<Longrightarrow> (0.985::real) ^ n < 1 / 64"
proof -
  assume "300 \<le> n"
  then have "(0.985::real) ^ n \<le> 0.985 ^ 300"
    by (intro power_decreasing) simp_all
  with decay_pow_300 show ?thesis by linarith
qed

lemma wave_events_single: "wave_events [e] st = wave_event e st"
  by (cases "wave_event e st") simp_all

lemma shoal_events_single: "shoal_events [e] st = shoal_event e st"
  by (cases "shoal_event e st") simp_all

lemma wave_frame_ripples:
  assumes "canvas_ok st" "random_ok (f_rnd fr)"
  shows "map_option ripplesRef (wave_event (WaveFrame fr) st)
    = Some ((wave_prune ^^ (5 * samples_from 0 (f_width fr))) (ripplesRef st))"
proof -
  from wave_draw_Some [OF assms] obtain ps pts where
    "wave_draw fr st = Some (st\<lparr>phaseRef := phaseRef st + 0.02 * speedRef st,
        ripplesRef := (wave_prune ^^ (5 * samples_from 0 (f_width fr))) (ripplesRef st),
        particlesRef := ps\<rparr>, pts)"
    by blast
  then show ?thesis by simp
qed

lemma shoal_frame_ripples:
  assumes "canvas_ok st" "random_ok (f_rnd fr)"
  shows "map_option ripplesRef (shoal_event (ShoalFrame fr) st)
    = Some ((shoal_prune ^^ samples_from 0 (f_width fr)) (ripplesRef st))"
proof -
  from shoal_draw_Some [OF assms] obtain ps pic where
    "shoal_draw fr st = Some (st\<lparr>timeRef := timeRef st + 0.016 * (0.9 + speedRef st * 0.4),
        ripplesRef := (shoal_prune ^^ samples_from 0 (f_width fr)) (ripplesRef st),
        particlesRef := ps\<rparr>, pic)"
    by blast
  then show ?thesis by simp
qed

text \<open>
  Claim C2 at a failing input. A click at \<open>x = 150\<close> creates a ripple of strength 18 with decay
  0.985. One frame of a WaveCanvas 2 px wide samples two abscissae on each of the five
  layers and so calls \<open>rippleOffset\<close> ten times: the strength after this one frame is
  \<open>18 * 0.985 ^ 10\<close>, not \<open>18 * 0.985\<close>. On a canvas 800 px wide one frame makes 2005 calls and
  the ripple is gone when the frame ends; the same holds for ShoalingCanvas (strength 10,
  threshold 0.25, 401 calls a frame).
\<close>

theorem ripple_decays_once_per_sample:
  "map_option ripplesRef
      (wave_events [WaveRipple 150, WaveFrame \<lparr>f_now = 16, f_width = 2, f_height = 360, f_rnd = \<lambda>n. 1 / 2\<rparr>]
         (wave_initial 40 1 280))
     = Some [\<lparr>r_x = 150, strength = 18 * 0.985 ^ 10, radius = 120, decay = 0.985\<rparr>]
   \<and> map_option ripplesRef
      (wave_events [WaveRipple 150, WaveFrame \<lparr>f_now = 16, f_width = 800, f_height = 360, f_rnd = \<lambda>n. 1 / 2\<rparr>]
         (wave_initial 40 1 280))
     = Some []
   \<and> map_option ripplesRef
      (shoal_events [ShoalRipple 150, ShoalFrame \<lparr>f_now = 16, f_width = 800, f_height = 360, f_rnd = \<lambda>n. 1 / 2\<rparr>]
         (shoal_initial 40 1))
     = Some []"
proof -
  let ?r = "\<lparr>r_x = 150, strength = 18, radius = 120, decay = 0.985\<rparr>"
  let ?st = "wave_spawnRippleAt 150 (wave_initial 40 1 280)"
  have ok: "canvas_ok ?st"
    by (simp add: canvas_ok_def wave_spawnRippleAt_def wave_initial_def ripples_ok_def particles_ok_def)
  have rnd: "random_ok (\<lambda>n. 1 / 2)"
    by (simp add: random_ok_def)
  have rs: "ripplesRef ?st = [?r]"
    by (simp add: wave_spawnRippleAt_def wave_initial_def)
  have single: "(wave_prune ^^ n) [?r]
      = (if 18 * 0.985 ^ n < (0.3::real) then [] else [?r\<lparr>strength := 18 * 0.985 ^ n\<rparr>])" for n
    using wave_prune_funpow_single [of ?r n] by simp
  have narrow: "(wave_prune ^^ (5 * samples_from 0 2)) [?r]
      = [\<lparr>r_x = 150, strength = 18 * 0.985 ^ 10, radius = 120, decay = 0.985\<rparr>]"
  proof -
    have "\<not> 18 * 0.985 ^ 10 < (0.3::real)"
      by (simp add: power_divide)
    then show ?thesis
      unfolding single by (simp add: samples_from_def)
  qed
  have wide: "(wave_prune ^^ (5 * samples_from 0 800)) [?r] = []"
  proof -
    have "(0.985::real) ^ (5 * samples_from 0 800) < 1 / 64"
      by (rule decay_pow_ge_300) (simp add: samples_from_def)
    then have "18 * 0.985 ^ (5 * samples_from 0 800) < (0.3::real)"
      by simp
    then show ?thesis
      unfolding single by simp
  qed
  let ?sr = "\<lparr>r_x = 150, strength = 10, radius = 120, decay = 0.985\<rparr>"
  let ?sst = "shoal_spawnRipple 150 (shoal_initial 40 1)"
  have sok: "canvas_ok ?sst"
    by (simp add: canvas_ok_def shoal_spawnRipple_def shoal_initial_def ripples_ok_def particles_ok_def)
  have srs: "ripplesRef ?sst = [?sr]"
    by (simp add: shoal_spawnRipple_def shoal_initial_def)
  have swide: "(shoal_prune ^^ samples_from 0 800) [?sr] = []"
  proof -
    have "(0.985::real) ^ samples_from 0 800 < 1 / 64"
      by (rule decay_pow_ge_300) (simp add: samples_from_def)
    then have "10 * 0.985 ^ samples_from 0 800 < (0.25::real)"
      by simp
    then show ?thesis
      using shoal_prune_funpow_single [of ?sr "samples_from 0 800"] by simp
  qed
  have wev: "wave_events [WaveRipple 150, WaveFrame fr] (wave_initial 40 1 280)
      = wave_event (WaveFrame fr) ?st" for fr
    using wave_events_single [of "WaveFrame fr" ?st]
    by (simp del: wave_event.simps add: wave_event.simps(4))
  have sev: "shoal_events [ShoalRipple 150, ShoalFrame fr] (shoal_initial 40 1)
      = shoal_event (ShoalFrame fr) ?sst" for fr
    using shoal_events_single [of "ShoalFrame fr" ?sst]
    by (simp del: shoal_event.simps add: shoal_event.simps(5))
  have a: "map_option ripplesRef
      (wave_events [WaveRipple 150, WaveFrame \<lparr>f_now = 16, f_width = 2, f_height = 360, f_rnd = \<lambda>n. 1 / 2\<rparr>]
         (wave_initial 40 1 280))
     = Some [\<lparr>r_x = 150, strength = 18 * 0.985 ^ 10, radius = 120, decay = 0.985\<rparr>]"
    unfolding wev
    using wave_frame_ripples [OF ok, of "\<lparr>f_now = 16, f_width = 2, f_height = 360, f_rnd = \<lambda>n. 1 / 2\<rparr>"]
      rnd narrow unfolding rs
    by (simp del: wave_event.simps)
  have b: "map_option ripplesRef
      (wave_events [WaveRipple 150, WaveFrame \<lparr>f_now = 16, f_width = 800, f_height = 360, f_rnd = \<lambda>n. 1 / 2\<rparr>]
         (wave_initial 40 1 280))
     = Some []"
    unfolding wev
    using wave_frame_ripples [OF ok, of "\<lparr>f_now = 16, f_width = 800, f_height = 360, f_rnd = \<lambda>n. 1 / 2\<rparr>"]
      rnd wide unfolding rs
    by (simp del: wave_event.simps)
  have c: "map_option ripplesRef
      (shoal_events [ShoalRipple 150, ShoalFrame \<lparr>f_now = 16, f_width = 800, f_height = 360, f_rnd = \<lambda>n. 1 / 2\<rparr>]
         (shoal_initial 40 1))
     = Some []"
    unfolding sev
    using shoal_frame_ripples [OF sok, of "\<lparr>f_now = 16, f_width = 800, f_height = 360, f_rnd = \<lambda>n. 1 / 2\<rparr>"]
      rnd swide unfolding srs
    by (simp del: shoal_event.simps)
  from a b c show ?thesis by (iprover intro: conjI)
qed

section \<open>Particle capacity\<close>

lemma capacity_bounds:
  "40 \<le> wave_maxParticles w \<and> wave_maxParticles w \<le> 110
   \<and> 36 \<le> shoal_max w \<and> shoal_max w \<le> 120"
  by (simp add: wave_maxParticles_def shoal_max_def)

lemma wave_particles_capped:
  assumes "canvas_ok st" "random_ok (f_rnd fr)"
    and "int (length (particlesRef st)) \<le> wave_maxParticles (f_width fr)"
  shows "\<exists>st' pts. wave_draw fr st = Some (st', pts)
     \<and> int (length (particlesRef st')) \<le> wave_maxParticles (f_width fr)"
proof -
  from wave_draw_Some [OF assms(1,2)] obtain ps pts where
    d: "wave_draw fr st = Some (st\<lparr>phaseRef := phaseRef st + 0.02 * speedRef st,
        ripplesRef := (wave_prune ^^ (5 * samples_from 0 (f_width fr))) (ripplesRef st),
        particlesRef := ps\<rparr>, pts)"
    and le: "int (length ps) \<le> max (int (length (particlesRef st))) (wave_maxParticles (f_width fr))"
    by blast
  from le assms(3) have "int (length ps) \<le> wave_maxParticles (f_width fr)" by simp
  with d show ?thesis by simp
qed

lemma shoal_update_survivors:
  assumes "particles_ok ps"
    and "\<forall>p\<in>set ps. \<not> (life p + 1 \<ge> maxLife p \<or> p_x p + p_vx p > real w + 6 \<or> p_y p + p_vy p > real h + 6)"
  shows "\<exists>qs. shoal_update w h pr ps = Some qs \<and> length qs = length ps"
proof -
  from shoal_update_char [OF assms(1), of pr w h] obtain qs where
    qs: "list_all2 (\<lambda>p q. shoal_advance pr p = Some q \<and> life q = life p + 1 \<and> maxLife q = maxLife p
             \<and> p_x q = p_x p + p_vx p \<and> p_y q = p_y p + p_vy p) ps qs"
    and u: "shoal_update w h pr ps = Some (filter (\<lambda>q. \<not> shoal_removed w h q) qs)"
    by blast
  have "\<forall>q\<in>set qs. \<not> shoal_removed w h q"
    using qs assms(2)
    by (induction ps qs rule: list_all2_induct) (simp_all add: shoal_removed_def)
  then have "filter (\<lambda>q. \<not> shoal_removed w h q) qs = qs"
    by simp
  with u list_all2_lengthD [OF qs] show ?thesis by simp
qed

text \<open>
  Claim C5 at a failing input. A ShoalingCanvas 288 px wide has the capacity
  \<open>max(36, min(120, floor(288 / 8))) = 36\<close>. With 36 young particles alive (each as one frame leaves a particle spawned with
  \<open>Math.random() = 0.5\<close> under a crest at \<open>y = 100\<close>), one call of
  \<open>updateParticles\<close> still spawns one particle (\<open>spawnN = 1\<close>, and nothing in the loop tests the
  capacity), and 37 particles are alive when it returns.
\<close>

theorem shoaling_particles_exceed_capacity:
  "shoal_max 288 = 36
   \<and> length (particlesRef ((shoal_initial 40 1)
        \<lparr>particlesRef := replicate 36
           \<lparr>p_x = 203.2, p_y = 96.88, p_vx = 1.6, p_vy = - 0.116, life = 1, maxLife = 95,
             p_size = 1.9, p_alpha = 0.9 * (1 - 1 / 95)\<rparr>\<rparr>)) = 36
   \<and> map_option length
       (updateParticles 288 260
          ((shoal_initial 40 1)
             \<lparr>particlesRef := replicate 36
                \<lparr>p_x = 203.2, p_y = 96.88, p_vx = 1.6, p_vy = - 0.116, life = 1, maxLife = 95,
             p_size = 1.9, p_alpha = 0.9 * (1 - 1 / 95)\<rparr>\<rparr>)
          [\<lparr>pt_x = 0, pt_y = 100\<rparr>] (\<lambda>n. 1 / 2))
     = Some 37"
proof -
  let ?p = "\<lparr>p_x = 203.2, p_y = 96.88, p_vx = 1.6, p_vy = - 0.116, life = 1, maxLife = 95,
             p_size = 1.9, p_alpha = 0.9 * (1 - 1 / 95)\<rparr>"
  let ?st = "(shoal_initial 40 1)\<lparr>particlesRef := replicate 36 ?p\<rparr>"
  let ?new = "\<lparr>p_x = 288 * (0.45 + (1 / 2) * 0.5), p_y = 100 - 3 + (1 / 2 - 0.5) * 4,
              p_vx = 0.8 + (1 / 2) * 0.8 + 1 * 0.4,
              p_vy = - 0.12 + (1 / 2 - 0.5) * 0.24,
              life = 0,
              maxLife = 60 + (1 / 2) * 70,
              p_size = 1 + (1 / 2) * 1.8,
              p_alpha = 0.85\<rparr>"
  have cap: "shoal_max 288 = 36"
    by (simp add: shoal_max_def)
  have crest: "crestSampler [\<lparr>pt_x = 0, pt_y = 100\<rparr>] x = Some 100" for x
    by (simp add: crestSampler_def Let_def)
  have spawn: "shoal_spawn (Suc 0) 288 1 [\<lparr>pt_x = 0, pt_y = 100\<rparr>] (\<lambda>n. 1 / 2) 0 (replicate 36 ?p)
      = Some (replicate 36 ?p @ [?new])"
    by (simp add: crest Let_def)
  have ok: "particles_ok (replicate 36 ?p @ [?new])"
    by (simp add: particles_ok_def list_all_iff)
  have alive: "\<forall>p\<in>set (replicate 36 ?p @ [?new]).
      \<not> (life p + 1 \<ge> maxLife p \<or> p_x p + p_vx p > real 288 + 6 \<or> p_y p + p_vy p > real 260 + 6)"
    by simp
  from shoal_update_survivors [OF ok alive, of "pointerRef ?st"]
  obtain qs where u: "shoal_update 288 260 (pointerRef ?st) (replicate 36 ?p @ [?new]) = Some qs"
    and len: "length qs = 37"
    by auto
  have "updateParticles 288 260 ?st [\<lparr>pt_x = 0, pt_y = 100\<rparr>] (\<lambda>n. 1 / 2) = Some qs"
    unfolding updateParticles_def Let_def
    using spawn u by (simp add: cap shoal_initial_def)
  with len cap show ?thesis by simp
qed

section \<open>When a particle is removed\<close>

text \<open>
  A particle 6 px to the left of the canvas, beyond the margin of 5 (WaveCanvas) or 6
  (ShoalingCanvas, where it is 7 px out), and one 50 px above it, are kept by the update.
\<close>

theorem particle_left_or_above_canvas_is_kept_counterexample:
  "wave_update 800 360 \<lparr>ptr_x = 0, ptr_y = 0, inside = False\<rparr>
      [\<lparr>p_x = - 6, p_y = 180, p_vx = - 1, p_vy = 0, life = 10, maxLife = 100,
         p_size = 2, p_alpha = 0.72\<rparr>,
       \<lparr>p_x = 400, p_y = - 50, p_vx = 1, p_vy = - 1, life = 10, maxLife = 100,
         p_size = 2, p_alpha = 0.72\<rparr>]
     = Some [\<lparr>p_x = - 7, p_y = 180, p_vx = - 1, p_vy = 0.003, life = 11, maxLife = 100,
               p_size = 2, p_alpha = 0.8 * (1 - 11 / 100)\<rparr>,
             \<lparr>p_x = 401, p_y = - 51, p_vx = 1, p_vy = - 1 + 0.003, life = 11, maxLife = 100,
               p_size = 2, p_alpha = 0.8 * (1 - 11 / 100)\<rparr>]
   \<and> shoal_update 800 360 \<lparr>ptr_x = 0, ptr_y = 0, inside = False\<rparr>
      [\<lparr>p_x = - 7, p_y = 180, p_vx = - 1, p_vy = 0, life = 10, maxLife = 100,
         p_size = 2, p_alpha = 0.81\<rparr>,
       \<lparr>p_x = 400, p_y = - 50, p_vx = 1, p_vy = - 1, life = 10, maxLife = 100,
         p_size = 2, p_alpha = 0.81\<rparr>]
     = Some [\<lparr>p_x = - 8, p_y = 180, p_vx = - 1, p_vy = 0.004, life = 11, maxLife = 100,
               p_size = 2, p_alpha = 0.9 * (1 - 11 / 100)\<rparr>,
             \<lparr>p_x = 401, p_y = - 51, p_vx = 1, p_vy = - 1 + 0.004, life = 11, maxLife = 100,
               p_size = 2, p_alpha = 0.9 * (1 - 11 / 100)\<rparr>]"
  by (simp add: wave_advance_def shoal_advance_def js_div_def wave_removed_def shoal_removed_def Let_def)

text \<open>
  Claim C8, amended. In one pass of the update loop every particle is advanced (its age
  grows by one, its position by its velocity) and is then removed exactly when its age has
  reached \<open>maxLife\<close>, or it is more than the margin beyond the right edge (\<open>x > w + 5\<close> in
  WaveCanvas, \<open>x > w + 6\<close> in ShoalingCanvas), or more than the margin below the bottom edge
  (\<open>y > h + 5\<close>, \<open>y > h + 6\<close>). All other particles stay, in their order.
\<close>

theorem particle_removed_iff_expired_or_past_right_or_bottom:
  "particles_ok ps \<longrightarrow>
     (\<exists>qs. list_all2 (\<lambda>p q. wave_advance pr p = Some q \<and> life q = life p + 1
                 \<and> maxLife q = maxLife p \<and> p_x q = p_x p + p_vx p \<and> p_y q = p_y p + p_vy p) ps qs
        \<and> wave_update w h pr ps
            = Some (filter (\<lambda>q. \<not> (life q \<ge> maxLife q \<or> p_x q > real w + 5 \<or> p_y q > real h + 5)) qs))
   \<and> (\<exists>qs. list_all2 (\<lambda>p q. shoal_advance pr p = Some q \<and> life q = life p + 1
                 \<and> maxLife q = maxLife p \<and> p_x q = p_x p + p_vx p \<and> p_y q = p_y p + p_vy p) ps qs
        \<and> shoal_update w h pr ps
            = Some (filter (\<lambda>q. \<not> (life q \<ge> maxLife q \<or> p_x q > real w + 6 \<or> p_y q > real h + 6)) qs))"
proof
  assume ok: "particles_ok ps"
  from wave_update_char [OF ok, of pr w h] shoal_update_char [OF ok, of pr w h]
  show "(\<exists>qs. list_all2 (\<lambda>p q. wave_advance pr p = Some q \<and> life q = life p + 1
                 \<and> maxLife q = maxLife p \<and> p_x q = p_x p + p_vx p \<and> p_y q = p_y p + p_vy p) ps qs
        \<and> wave_update w h pr ps
            = Some (filter (\<lambda>q. \<not> (life q \<ge> maxLife q \<or> p_x q > real w + 5 \<or> p_y q > real h + 5)) qs))
   \<and> (\<exists>qs. list_all2 (\<lambda>p q. shoal_advance pr p = Some q \<and> life q = life p + 1
                 \<and> maxLife q = maxLife p \<and> p_x q = p_x p + p_vx p \<and> p_y q = p_y p + p_vy p) ps qs
        \<and> shoal_update w h pr ps
            = Some (filter (\<lambda>q. \<not> (life q \<ge> maxLife q \<or> p_x q > real w + 6 \<or> p_y q > real h + 6)) qs))"
    unfolding wave_removed_def shoal_removed_def by blast
qed

theorem particle_removed_iff_expired_or_past_right_or_bottom_witness:
  "particles_ok
      [\<lparr>p_x = 100, p_y = 180, p_vx = 1, p_vy = 0, life = 99, maxLife = 100, p_size = 2, p_alpha = 0\<rparr>,
       \<lparr>p_x = 805, p_y = 180, p_vx = 1, p_vy = 0, life = 10, maxLife = 100, p_size = 2, p_alpha = 0\<rparr>,
       \<lparr>p_x = 100, p_y = 180, p_vx = 1, p_vy = 0, life = 10, maxLife = 100, p_size = 2, p_alpha = 0\<rparr>]
   \<and> (\<exists>q. wave_update 800 360 \<lparr>ptr_x = 0, ptr_y = 0, inside = False\<rparr>
      [\<lparr>p_x = 100, p_y = 180, p_vx = 1, p_vy = 0, life = 99, maxLife = 100, p_size = 2, p_alpha = 0\<rparr>,
       \<lparr>p_x = 805, p_y = 180, p_vx = 1, p_vy = 0, life = 10, maxLife = 100, p_size = 2, p_alpha = 0\<rparr>,
       \<lparr>p_x = 100, p_y = 180, p_vx = 1, p_vy = 0, life = 10, maxLife = 100, p_size = 2, p_alpha = 0\<rparr>]
     = Some [q] \<and> life q = 11 \<and> p_x q = 101 \<and> p_y q = 180)"
proof -
  let ?ps = "[\<lparr>p_x = 100, p_y = 180, p_vx = 1, p_vy = 0, life = 99, maxLife = 100, p_size = 2, p_alpha = 0\<rparr>,
       \<lparr>p_x = 805, p_y = 180, p_vx = 1, p_vy = 0, life = 10, maxLife = 100, p_size = 2, p_alpha = 0\<rparr>,
       \<lparr>p_x = 100, p_y = 180, p_vx = 1, p_vy = 0, life = 10, maxLife = 100, p_size = 2, p_alpha = (0::real)\<rparr>]"
  have ok: "particles_ok ?ps"
    by (simp add: particles_ok_def)
  from particle_removed_iff_expired_or_past_right_or_bottom
      [where ps = ?ps and pr = "\<lparr>ptr_x = 0, ptr_y = 0, inside = False\<rparr>" and w = 800 and h = 360,
       THEN mp, OF ok, THEN conjunct1]
  obtain qs where all2: "list_all2 (\<lambda>p q. wave_advance \<lparr>ptr_x = 0, ptr_y = 0, inside = False\<rparr> p = Some q
        \<and> life q = life p + 1 \<and> maxLife q = maxLife p \<and> p_x q = p_x p + p_vx p
        \<and> p_y q = p_y p + p_vy p) ?ps qs"
    and u: "wave_update 800 360 \<lparr>ptr_x = 0, ptr_y = 0, inside = False\<rparr> ?ps
        = Some (filter (\<lambda>q. \<not> (life q \<ge> maxLife q \<or> p_x q > real 800 + 5 \<or> p_y q > real 360 + 5)) qs)"
    by blast
  from all2 obtain q1 q2 q3 where qs: "qs = [q1, q2, q3]"
    and q1: "life q1 = 100" "maxLife q1 = 100"
    and q2: "life q2 = 11" "maxLife q2 = 100" "p_x q2 = 806"
    and q3: "life q3 = 11" "maxLife q3 = 100" "p_x q3 = 101" "p_y q3 = 180"
    by (auto simp: list_all2_Cons1)
  have "filter (\<lambda>q. \<not> (life q \<ge> maxLife q \<or> p_x q > real 800 + 5 \<or> p_y q > real 360 + 5)) qs = [q3]"
    unfolding qs using q1 q2 q3 by simp
  with u q3 have "\<exists>q. wave_update 800 360 \<lparr>ptr_x = 0, ptr_y = 0, inside = False\<rparr> ?ps = Some [q]
      \<and> life q = 11 \<and> p_x q = 101 \<and> p_y q = 180"
    by simp
  with ok show ?thesis by (rule conjI)
qed

section \<open>What a frame does to the state\<close>

lemma wave_frame_effect:
  assumes "canvas_ok st" "random_ok (f_rnd fr)"
  shows "\<exists>st' pts. wave_draw fr st = Some (st', pts)
      \<and> canvas_ok st'
      \<and> phaseRef st' = phaseRef st + 0.02 * speedRef st
      \<and> speedRef st' = speedRef st
      \<and> ripplesRef st' = (wave_prune ^^ (5 * (f_width fr div 2 + 1))) (ripplesRef st)
      \<and> length pts = f_width fr div 2 + 1"
proof -
  from wave_draw_Some [OF assms] obtain ps pts where
    d: "wave_draw fr st = Some (st\<lparr>phaseRef := phaseRef st + 0.02 * speedRef st,
        ripplesRef := (wave_prune ^^ (5 * samples_from 0 (f_width fr))) (ripplesRef st),
        particlesRef := ps\<rparr>, pts)"
    and ok: "particles_ok ps"
    and len: "length pts = samples_from 0 (f_width fr)"
    by blast
  let ?st' = "st\<lparr>phaseRef := phaseRef st + 0.02 * speedRef st,
        ripplesRef := (wave_prune ^^ (5 * samples_from 0 (f_width fr))) (ripplesRef st),
        particlesRef := ps\<rparr>"
  have "canvas_ok ?st'"
    using canvas_okD(1,2) [OF assms(1)] ok
    by (simp add: canvas_ok_def ripples_ok_funpow_wave)
  moreover have "phaseRef ?st' = phaseRef st + 0.02 * speedRef st" "speedRef ?st' = speedRef st"
    "ripplesRef ?st' = (wave_prune ^^ (5 * (f_width fr div 2 + 1))) (ripplesRef st)"
    by (simp_all add: samples_from_0)
  moreover have "length pts = f_width fr div 2 + 1"
    using len by (simp add: samples_from_0)
  ultimately show ?thesis using d by blast
qed

lemma shoal_frame_effect:
  assumes "canvas_ok st" "random_ok (f_rnd fr)"
  shows "\<exists>st' pic. shoal_draw fr st = Some (st', pic)
      \<and> canvas_ok st'
      \<and> timeRef st' = timeRef st + 0.016 * (0.9 + speedRef st * 0.4)
      \<and> speedRef st' = speedRef st
      \<and> ripplesRef st' = (shoal_prune ^^ (f_width fr div 2 + 1)) (ripplesRef st)
      \<and> length (pic_surface pic) = f_width fr div 2 + 1"
proof -
  from shoal_draw_Some [OF assms] obtain ps smps pic where
    d: "shoal_draw fr st = Some (st\<lparr>timeRef := timeRef st + 0.016 * (0.9 + speedRef st * 0.4),
        ripplesRef := (shoal_prune ^^ samples_from 0 (f_width fr)) (ripplesRef st),
        particlesRef := ps\<rparr>, pic)"
    and ok: "particles_ok ps"
    and p: "pic_surface pic = map sample_point smps"
    and len: "length smps = samples_from 0 (f_width fr)"
    by blast
  let ?st' = "st\<lparr>timeRef := timeRef st + 0.016 * (0.9 + speedRef st * 0.4),
        ripplesRef := (shoal_prune ^^ samples_from 0 (f_width fr)) (ripplesRef st),
        particlesRef := ps\<rparr>"
  have "canvas_ok ?st'"
    using canvas_okD(1,2) [OF assms(1)] ok
    by (simp add: canvas_ok_def ripples_ok_funpow_shoal)
  moreover have "timeRef ?st' = timeRef st + 0.016 * (0.9 + speedRef st * 0.4)" "speedRef ?st' = speedRef st"
    "ripplesRef ?st' = (shoal_prune ^^ (f_width fr div 2 + 1)) (ripplesRef st)"
    by (simp_all add: samples_from_0)
  moreover have "length (pic_surface pic) = f_width fr div 2 + 1"
    using len p by (simp add: samples_from_0)
  ultimately show ?thesis using d by blast
qed

section \<open>Frames on a canvas of zero size\<close>

text \<open>
  What a frame does to the particles, and one frame on a canvas of size 0 x 0 computed in
  full.
\<close>

lemma updateAndDrawParticles_unfold:
  "updateAndDrawParticles w h st pts rn
     = Option.bind
         (wave_spawn (if int (length (particlesRef st)) < wave_maxParticles w then 4 else 1)
            (wave_maxParticles w) w (speedRef st) pts rn 0 (particlesRef st))
         (wave_update w h (pointerRef st))"
  by (simp add: updateAndDrawParticles_def Let_def)

lemma updateParticles_unfold:
  "updateParticles w h st pts rn
     = Option.bind
         (shoal_spawn (if int (length (particlesRef st)) < shoal_max w then 3 else 1)
            w (speedRef st) pts rn 0 (particlesRef st))
         (shoal_update w h (pointerRef st))"
  by (simp add: updateParticles_def Let_def)

lemma wave_frame_particles:
  assumes "wave_draw fr st = Some (st', pts)" "mounted st"
  shows "\<exists>spawned.
      wave_spawn (if int (length (particlesRef st)) < wave_maxParticles (f_width fr) then 4 else 1)
          (wave_maxParticles (f_width fr)) (f_width fr) (speedRef st) pts (f_rnd fr) 0 (particlesRef st)
        = Some spawned
      \<and> wave_update (f_width fr) (f_height fr) (pointerRef st) spawned = Some (particlesRef st')"
proof -
  from wave_draw_SomeE [OF assms] obtain rs ps where
    u: "updateAndDrawParticles (f_width fr) (f_height fr)
             (st\<lparr>phaseRef := phaseRef st + 0.02 * speedRef st, ripplesRef := rs\<rparr>) pts (f_rnd fr)
           = Some ps"
    and st': "st' = st\<lparr>phaseRef := phaseRef st + 0.02 * speedRef st, ripplesRef := rs,
                            particlesRef := ps\<rparr>"
    by blast
  let ?st2 = "st\<lparr>phaseRef := phaseRef st + 0.02 * speedRef st, ripplesRef := rs\<rparr>"
  have f: "particlesRef ?st2 = particlesRef st" "speedRef ?st2 = speedRef st"
    "pointerRef ?st2 = pointerRef st"
    by simp_all
  have p: "particlesRef st' = ps" by (simp add: st')
  from u [unfolded updateAndDrawParticles_unfold bind_eq_Some_conv f]
  show ?thesis unfolding p .
qed

lemma shoal_frame_particles:
  assumes "shoal_draw fr st = Some (st', pic)" "mounted st"
  shows "\<exists>spawned.
      shoal_spawn (if int (length (particlesRef st)) < shoal_max (f_width fr) then 3 else 1)
          (f_width fr) (speedRef st) (pic_surface pic) (f_rnd fr) 0 (particlesRef st)
        = Some spawned
      \<and> shoal_update (f_width fr) (f_height fr) (pointerRef st) spawned = Some (particlesRef st')"
proof (rule shoal_draw_SomeE [OF assms])
  fix bedPts smps rs edge bk ps
  let ?st2 = "st\<lparr>timeRef := timeRef st + 0.016 * (0.9 + speedRef st * 0.4), ripplesRef := rs\<rparr>"
  assume u: "updateParticles (f_width fr) (f_height fr) ?st2 (map sample_point smps) (f_rnd fr) = Some ps"
    and st': "st' = st\<lparr>timeRef := timeRef st + 0.016 * (0.9 + speedRef st * 0.4),
                  ripplesRef := rs, particlesRef := ps\<rparr>"
    and pic: "pic = \<lparr>pic_seabed = bedPts, pic_surface = map sample_point smps,
                pic_seabed_back = \<lparr>pt_x = real (f_width fr), pt_y = edge\<rparr> # bk\<rparr>"
  have f: "particlesRef ?st2 = particlesRef st" "speedRef ?st2 = speedRef st"
    "pointerRef ?st2 = pointerRef st"
    by simp_all
  have p: "particlesRef st' = ps"
    by (simp add: st')
  have q: "pic_surface pic = map sample_point smps"
    by (simp add: pic)
  from u [unfolded updateParticles_unfold bind_eq_Some_conv f]
  show ?thesis unfolding p q .
qed

lemma wave_points_zero_width:
  "wl \<noteq> 0 \<Longrightarrow> \<not> inside (pointerRef st) \<Longrightarrow>
     wave_points st layerIndex t amp wl yBase 0 0 []
       = Some ([\<lparr>pt_x = 0, pt_y = yBase + sin (phaseRef st * 60 * (real layerIndex + 1) / wl) * amp\<rparr>], [])"
  apply (subst wave_points.simps)
  apply (subst wave_points.simps)
  apply (simp add: js_div_def pointerHint_def)
  done

lemma wave_layers_zero_width:
  "wave_layers 4 t 0 0 ((wave_initial 5 1 280)\<lparr>phaseRef := 0.02\<rparr>) []
      = Some ([\<lparr>pt_x = 0, pt_y = sin (3 / 700) * 5\<rparr>], [])"
proof -
  let ?st = "(wave_initial 5 1 280)\<lparr>phaseRef := 0.02\<rparr>"
  have ni: "\<not> inside (pointerRef ?st)" by (simp add: wave_initial_def)
  have d: "drawWaveLayer i t 0 0 ?st [] = Some ([\<lparr>pt_x = 0, pt_y = real i * 6
      + sin (phaseRef ?st * 60 * (real i + 1) / max 80 (wlRef ?st - real i * 44))
        * (ampRef ?st * (1 - real i * 0.22))\<rparr>], [])" for i
    unfolding drawWaveLayer_def Let_def
    by (subst wave_points_zero_width [OF _ ni]) simp_all
  have four: "(4::nat) = Suc (Suc (Suc (Suc 0)))" by simp
  have d0: "drawWaveLayer 0 t 0 0 ?st [] = Some ([\<lparr>pt_x = 0, pt_y = sin (3 / 700) * 5\<rparr>], [])"
    unfolding d by (simp add: wave_initial_def)
  have "wave_layers 4 t 0 0 ?st [] = drawWaveLayer 0 t 0 0 ?st []"
    by (simp only: four wave_layers.simps d bind.bind_lunit prod.case)
  then show ?thesis by (simp only: d0)
qed


lemma replicate_4: "replicate 4 x = [x, x, x, x]"
  by (simp add: eval_nat_numeral)

lemma replicate_3: "replicate 3 x = [x, x, x]"
  by (simp add: eval_nat_numeral)

lemma wave_spawn_zero_width:
  "wave_spawn 4 40 0 1 [\<lparr>pt_x = 0, pt_y = c\<rparr>] (\<lambda>n. 1 / 2) 0 []
     = Some (replicate 4 \<lparr>p_x = 0, p_y = c - 4, p_vx = 1.1, p_vy = - 0.15, life = 0,
          maxLife = 90, p_size = 2, p_alpha = 0.8\<rparr>)"
proof -
  have four: "(4::nat) = Suc (Suc (Suc (Suc 0)))" by simp
  show ?thesis
    unfolding replicate_4
    by (subst four) (simp add: crestSampler_def js_round_def Let_def)
qed

lemma wave_advance_fresh:
  "wave_advance \<lparr>ptr_x = 0, ptr_y = 0, inside = False\<rparr>
      \<lparr>p_x = 0, p_y = c - 4, p_vx = 1.1, p_vy = - 0.15, life = 0,
          maxLife = 90, p_size = 2, p_alpha = 0.8\<rparr>
     = Some \<lparr>p_x = 1.1, p_y = c - 4.15, p_vx = 1.1, p_vy = - 0.147,
              life = 1, maxLife = 90, p_size = 2, p_alpha = 0.8 * (1 - 1 / 90)\<rparr>"
  by (simp add: wave_advance_def js_div_def Let_def)

lemma wave_update_zero_size:
  assumes "c \<le> 5"
  shows "wave_update 0 0 \<lparr>ptr_x = 0, ptr_y = 0, inside = False\<rparr>
      (replicate 4 \<lparr>p_x = 0, p_y = c - 4, p_vx = 1.1, p_vy = - 0.15, life = 0,
          maxLife = 90, p_size = 2, p_alpha = 0.8\<rparr>)
     = Some (replicate 4 \<lparr>p_x = 1.1, p_y = c - 4.15, p_vx = 1.1, p_vy = - 0.147,
              life = 1, maxLife = 90, p_size = 2, p_alpha = 0.8 * (1 - 1 / 90)\<rparr>)"
proof -
  have k: "\<not> wave_removed 0 0 \<lparr>p_x = 1.1, p_y = c - 4.15, p_vx = 1.1, p_vy = - 0.147,
              life = 1, maxLife = 90, p_size = 2, p_alpha = 0.8 * (1 - 1 / 90)\<rparr>"
    using assms by (simp add: wave_removed_def)
  show ?thesis
    unfolding replicate_4
    by (simp only: wave_update.simps wave_advance_fresh bind.bind_lunit k if_False)
qed

lemma wave_zero_frame:
  "wave_draw \<lparr>f_now = 16, f_width = 0, f_height = 0, f_rnd = \<lambda>n. 1 / 2\<rparr> (wave_initial 5 1 280)
     = Some ((wave_initial 5 1 280)
          \<lparr>phaseRef := 0.02,
           particlesRef := replicate 4
             \<lparr>p_x = 1.1, p_y = sin (3 / 700) * 5 - 4.15, p_vx = 1.1, p_vy = - 0.147,
              life = 1, maxLife = 90, p_size = 2, p_alpha = 0.8 * (1 - 1 / 90)\<rparr>\<rparr>,
        [\<lparr>pt_x = 0, pt_y = sin (3 / 700) * 5\<rparr>])"
proof -
  let ?fr = "\<lparr>f_now = 16, f_width = 0, f_height = 0, f_rnd = \<lambda>n. 1 / 2\<rparr>"
  let ?st = "wave_initial 5 1 280"
  let ?ps = "replicate 4
             \<lparr>p_x = 1.1, p_y = sin (3 / 700) * 5 - 4.15, p_vx = 1.1, p_vy = - 0.147,
              life = 1, maxLife = 90, p_size = 2, p_alpha = 0.8 * (1 - 1 / 90)\<rparr>"
  have m: "mounted ?st" by (simp add: wave_initial_def)
  have s: "sin (3 / 700 :: real) * 5 \<le> 5" using sin_le_one [of "3 / 700"] by simp
  have st1: "?st\<lparr>phaseRef := phaseRef ?st + 0.02 * speedRef ?st\<rparr> = ?st\<lparr>phaseRef := 0.02\<rparr>"
    by (simp add: wave_initial_def)
  have l: "wave_layers 4 (f_now ?fr * 0.001) (f_width ?fr) (f_height ?fr)
      (?st\<lparr>phaseRef := phaseRef ?st + 0.02 * speedRef ?st\<rparr>) (ripplesRef ?st)
      = Some ([\<lparr>pt_x = 0, pt_y = sin (3 / 700) * 5\<rparr>], [])"
    unfolding st1 using wave_layers_zero_width [of "16 * 0.001"] by (simp add: wave_initial_def)
  have mx: "wave_maxParticles 0 = 40" by (simp add: wave_maxParticles_def)
  have u: "updateAndDrawParticles (f_width ?fr) (f_height ?fr)
      (?st\<lparr>phaseRef := phaseRef ?st + 0.02 * speedRef ?st, ripplesRef := []\<rparr>)
      [\<lparr>pt_x = 0, pt_y = sin (3 / 700) * 5\<rparr>] (f_rnd ?fr) = Some ?ps"
    unfolding updateAndDrawParticles_unfold
    using wave_spawn_zero_width [of "sin (3 / 700) * 5"] wave_update_zero_size [OF s]
    by (simp add: wave_initial_def mx)
  have "wave_draw ?fr ?st
      = Some (?st\<lparr>phaseRef := phaseRef ?st + 0.02 * speedRef ?st, ripplesRef := [],
                particlesRef := ?ps\<rparr>, [\<lparr>pt_x = 0, pt_y = sin (3 / 700) * 5\<rparr>])"
    by (simp only: wave_draw_unfold [OF m] l bind.bind_lunit prod.case u)
  then show ?thesis
    by (simp add: wave_initial_def)
qed

lemma seabedY_zero: "seabedY 0 0 0 = Some (- 8)"
  by (simp add: seabedY_def)

lemma surface_sample_zero_size:
  assumes "\<not> inside (pointerRef st)" "\<bar>ampRef st\<bar> \<le> 10"
  shows "\<exists>smp. surface_sample st 0 0 0 theta 0 [] = Some (smp, []) \<and> sample_point smp = \<lparr>pt_x = 0, pt_y = - 10\<rparr>"
proof -
  let ?th = "theta + 2 * pi / 260 * 2"
  have "\<bar>ampRef st * sin ?th\<bar> \<le> 10 * 1"
    unfolding abs_mult using assms(2) abs_sin_le_one [of ?th]
    by (intro mult_mono) simp_all
  then have m: "min (ampRef st * sin ?th) (- 10) = - 10"
    by simp
  have "surface_sample st 0 0 0 theta 0 []
      = Some (\<lparr>smp_x = 0, smp_lam = 260, smp_theta = ?th, smp_yWave = ampRef st * sin ?th,
            smp_bed = - 8, smp_y = min (ampRef st * sin ?th) (- 8 - 2)\<rparr>, [])"
    using assms(1)
    by (simp add: surface_sample_def lambda_def A_def shoalProgress_def js_div_def shoal_lift_def
        seabedY_zero Let_def)
  then show ?thesis using m by (simp add: sample_point_def)
qed

lemma surface_points_zero_size:
  assumes "\<not> inside (pointerRef st)" "\<bar>ampRef st\<bar> \<le> 10"
  shows "\<exists>smps. surface_points st 0 0 0 theta 0 [] = Some (smps, [])
      \<and> map sample_point smps = [\<lparr>pt_x = 0, pt_y = - 10\<rparr>]"
proof -
  from surface_sample_zero_size [OF assms, of theta] obtain smp where
    s: "surface_sample st 0 0 0 theta 0 [] = Some (smp, [])"
    and p: "sample_point smp = \<lparr>pt_x = 0, pt_y = - 10\<rparr>"
    by blast
  have "surface_points st 0 0 0 theta 0 [] = Some ([smp], [])"
    apply (subst surface_points.simps)
    apply (subst surface_points.simps)
    apply (simp add: s)
    done
  then show ?thesis using p by simp
qed

lemma seabed_points_zero: "seabed_points 0 0 0 = Some [\<lparr>pt_x = 0, pt_y = - 8\<rparr>]"
  apply (subst seabed_points.simps)
  apply (subst seabed_points.simps)
  apply (simp add: seabedY_zero)
  done

lemma seabed_points_back_zero: "seabed_points_back 0 0 0 = Some [\<lparr>pt_x = 0, pt_y = - 8\<rparr>]"
  apply (subst seabed_points_back.simps)
  apply (subst seabed_points_back.simps)
  apply (simp add: seabedY_zero)
  done

lemma shoal_spawn_zero_width:
  "shoal_spawn 3 0 1 [\<lparr>pt_x = 0, pt_y = c\<rparr>] (\<lambda>n. 1 / 2) 0 []
     = Some (replicate 3 \<lparr>p_x = 0, p_y = c - 3, p_vx = 1.6, p_vy = - 0.12, life = 0,
          maxLife = 95, p_size = 1.9, p_alpha = 0.85\<rparr>)"
proof -
  have three: "(3::nat) = Suc (Suc (Suc 0))" by simp
  show ?thesis
    unfolding replicate_3
    by (subst three) (simp add: crestSampler_def js_round_def Let_def)
qed

lemma shoal_advance_fresh:
  "shoal_advance \<lparr>ptr_x = 0, ptr_y = 0, inside = False\<rparr>
      \<lparr>p_x = 0, p_y = c - 3, p_vx = 1.6, p_vy = - 0.12, life = 0,
          maxLife = 95, p_size = 1.9, p_alpha = 0.85\<rparr>
     = Some \<lparr>p_x = 1.6, p_y = c - 3.12, p_vx = 1.6, p_vy = - 0.116,
              life = 1, maxLife = 95, p_size = 1.9, p_alpha = 0.9 * (1 - 1 / 95)\<rparr>"
  by (simp add: shoal_advance_def js_div_def Let_def)

lemma shoal_update_zero_size:
  assumes "c \<le> 5"
  shows "shoal_update 0 0 \<lparr>ptr_x = 0, ptr_y = 0, inside = False\<rparr>
      (replicate 3 \<lparr>p_x = 0, p_y = c - 3, p_vx = 1.6, p_vy = - 0.12, life = 0,
          maxLife = 95, p_size = 1.9, p_alpha = 0.85\<rparr>)
     = Some (replicate 3 \<lparr>p_x = 1.6, p_y = c - 3.12, p_vx = 1.6, p_vy = - 0.116,
              life = 1, maxLife = 95, p_size = 1.9, p_alpha = 0.9 * (1 - 1 / 95)\<rparr>)"
proof -
  have k: "\<not> shoal_removed 0 0 \<lparr>p_x = 1.6, p_y = c - 3.12, p_vx = 1.6, p_vy = - 0.116,
              life = 1, maxLife = 95, p_size = 1.9, p_alpha = 0.9 * (1 - 1 / 95)\<rparr>"
    using assms by (simp add: shoal_removed_def)
  show ?thesis
    unfolding replicate_3
    by (simp only: shoal_update.simps shoal_advance_fresh bind.bind_lunit k if_False)
qed

lemma shoal_zero_frame:
  "shoal_draw \<lparr>f_now = 16, f_width = 0, f_height = 0, f_rnd = \<lambda>n. 1 / 2\<rparr> (shoal_initial 6 1)
     = Some ((shoal_initial 6 1)
          \<lparr>timeRef := 0.0208,
           particlesRef := replicate 3
             \<lparr>p_x = 1.6, p_y = - 13.12, p_vx = 1.6, p_vy = - 0.116,
              life = 1, maxLife = 95, p_size = 1.9, p_alpha = 0.9 * (1 - 1 / 95)\<rparr>\<rparr>,
        \<lparr>pic_seabed = [\<lparr>pt_x = 0, pt_y = - 8\<rparr>], pic_surface = [\<lparr>pt_x = 0, pt_y = - 10\<rparr>],
         pic_seabed_back = [\<lparr>pt_x = 0, pt_y = - 8\<rparr>, \<lparr>pt_x = 0, pt_y = - 8\<rparr>]\<rparr>)"
proof -
  let ?fr = "\<lparr>f_now = 16, f_width = 0, f_height = 0, f_rnd = \<lambda>n. 1 / 2\<rparr>"
  let ?st = "shoal_initial 6 1"
  let ?t = "timeRef ?st + 0.016 * (0.9 + speedRef ?st * 0.4)"
  let ?ps = "replicate 3
             \<lparr>p_x = 1.6, p_y = - 10 - 3.12, p_vx = 1.6, p_vy = - 0.116,
              life = 1, maxLife = 95, p_size = 1.9, p_alpha = 0.9 * (1 - 1 / 95)\<rparr>"
  have m: "mounted ?st" by (simp add: shoal_initial_def)
  have ni: "\<not> inside (pointerRef (?st\<lparr>timeRef := ?t\<rparr>))" "\<bar>ampRef (?st\<lparr>timeRef := ?t\<rparr>)\<bar> \<le> 10"
    by (simp_all add: shoal_initial_def)
  from surface_points_zero_size [OF ni, of "- 2.2 * ?t"] obtain smps where
    sp: "surface_points (?st\<lparr>timeRef := ?t\<rparr>) 0 0 0 (- 2.2 * ?t) 0 [] = Some (smps, [])"
    and mp: "map sample_point smps = [\<lparr>pt_x = 0, pt_y = - 10\<rparr>]"
    by (elim exE conjE)
  have l: "surface_points (?st\<lparr>timeRef := ?t\<rparr>) (f_width ?fr) (f_height ?fr)
      (real (f_height ?fr) * 0.38) (- 2.2 * ?t) 0 (ripplesRef ?st) = Some (smps, [])"
    using sp by (simp add: shoal_initial_def)
  have b: "seabed_points (f_width ?fr) (f_height ?fr) 0 = Some [\<lparr>pt_x = 0, pt_y = - 8\<rparr>]"
    by (simp add: seabed_points_zero seabedY_zero)
  have e: "seabedY (real (f_width ?fr)) (real (f_width ?fr)) (real (f_height ?fr)) = Some (- 8)"
    by (simp add: seabedY_zero)
  have k: "seabed_points_back (f_width ?fr) (f_height ?fr) (int (f_width ?fr))
      = Some [\<lparr>pt_x = 0, pt_y = - 8\<rparr>]"
    by (simp add: seabed_points_back_zero seabedY_zero)
  have mx: "shoal_max 0 = 36" by (simp add: shoal_max_def)
  have u: "updateParticles (f_width ?fr) (f_height ?fr) (?st\<lparr>timeRef := ?t, ripplesRef := []\<rparr>)
      (map sample_point smps) (f_rnd ?fr) = Some ?ps"
    unfolding updateParticles_unfold mp
    using shoal_spawn_zero_width [of "- 10"] shoal_update_zero_size [of "- 10"]
    by (simp add: shoal_initial_def mx)
  have "shoal_draw ?fr ?st
      = Some (?st\<lparr>timeRef := ?t, ripplesRef := [], particlesRef := ?ps\<rparr>,
          \<lparr>pic_seabed = [\<lparr>pt_x = 0, pt_y = - 8\<rparr>], pic_surface = map sample_point smps,
           pic_seabed_back = \<lparr>pt_x = real (f_width ?fr), pt_y = - 8\<rparr> # [\<lparr>pt_x = 0, pt_y = - 8\<rparr>]\<rparr>)"
    by (simp only: shoal_draw_unfold [OF m] b l e k bind.bind_lunit prod.case u)
  then show ?thesis
    unfolding mp by (simp add: shoal_initial_def)
qed

lemma wave_zero_size_frame:
  assumes "canvas_ok st" "random_ok (f_rnd fr)"
  shows "\<exists>st' pts spawned. wave_draw fr st = Some (st', pts)
      \<and> canvas_ok st'
      \<and> phaseRef st' = phaseRef st + 0.02 * speedRef st
      \<and> ripplesRef st' = (wave_prune ^^ (5 * (f_width fr div 2 + 1))) (ripplesRef st)
      \<and> length pts = f_width fr div 2 + 1
      \<and> wave_spawn (if int (length (particlesRef st)) < wave_maxParticles (f_width fr) then 4 else 1)
            (wave_maxParticles (f_width fr)) (f_width fr) (speedRef st) pts (f_rnd fr) 0
            (particlesRef st) = Some spawned
      \<and> wave_update (f_width fr) (f_height fr) (pointerRef st) spawned = Some (particlesRef st')"
proof -
  from wave_frame_effect [OF assms] obtain st' pts where
    d: "wave_draw fr st = Some (st', pts)" and ok: "canvas_ok st'"
    and ph: "phaseRef st' = phaseRef st + 0.02 * speedRef st"
    and rp: "ripplesRef st' = (wave_prune ^^ (5 * (f_width fr div 2 + 1))) (ripplesRef st)"
    and len: "length pts = f_width fr div 2 + 1"
    by (elim exE conjE)
  from wave_frame_particles [OF d canvas_okD(1) [OF assms(1)]] obtain spawned where
    "wave_spawn (if int (length (particlesRef st)) < wave_maxParticles (f_width fr) then 4 else 1)
            (wave_maxParticles (f_width fr)) (f_width fr) (speedRef st) pts (f_rnd fr) 0
            (particlesRef st) = Some spawned"
    "wave_update (f_width fr) (f_height fr) (pointerRef st) spawned = Some (particlesRef st')"
    by (elim exE conjE)
  with d ok ph rp len show ?thesis
    by (iprover intro: exI conjI)
qed

lemma shoal_zero_size_frame:
  assumes "canvas_ok st" "random_ok (f_rnd fr)"
  shows "\<exists>st' pic spawned. shoal_draw fr st = Some (st', pic)
      \<and> canvas_ok st'
      \<and> timeRef st' = timeRef st + 0.016 * (0.9 + speedRef st * 0.4)
      \<and> ripplesRef st' = (shoal_prune ^^ (f_width fr div 2 + 1)) (ripplesRef st)
      \<and> length (pic_surface pic) = f_width fr div 2 + 1
      \<and> shoal_spawn (if int (length (particlesRef st)) < shoal_max (f_width fr) then 3 else 1)
            (f_width fr) (speedRef st) (pic_surface pic) (f_rnd fr) 0 (particlesRef st)
          = Some spawned
      \<and> shoal_update (f_width fr) (f_height fr) (pointerRef st) spawned = Some (particlesRef st')"
proof -
  from shoal_frame_effect [OF assms] obtain st' pic where
    d: "shoal_draw fr st = Some (st', pic)" and ok: "canvas_ok st'"
    and ph: "timeRef st' = timeRef st + 0.016 * (0.9 + speedRef st * 0.4)"
    and rp: "ripplesRef st' = (shoal_prune ^^ (f_width fr div 2 + 1)) (ripplesRef st)"
    and len: "length (pic_surface pic) = f_width fr div 2 + 1"
    by (elim exE conjE)
  from shoal_frame_particles [OF d canvas_okD(1) [OF assms(1)]] obtain spawned where
    "shoal_spawn (if int (length (particlesRef st)) < shoal_max (f_width fr) then 3 else 1)
            (f_width fr) (speedRef st) (pic_surface pic) (f_rnd fr) 0 (particlesRef st)
          = Some spawned"
    "shoal_update (f_width fr) (f_height fr) (pointerRef st) spawned = Some (particlesRef st')"
    by (elim exE conjE)
  with d ok ph rp len show ?thesis
    by (iprover intro: exI conjI)
qed

text \<open>
  A frame on a canvas of size 0 x 0 is not a no-op: WaveCanvas advances its phase by
  \<open>0.02 * speed\<close>, ShoalingCanvas its time by \<open>0.016 * (0.9 + 0.4 * speed)\<close>, and a ripple is
  decayed once for the sample at \<open>x = 0\<close> of each of the five layers.
\<close>

theorem zero_size_frame_runs_counterexample:
  "map_option (phaseRef \<circ> fst)
      (wave_draw \<lparr>f_now = 16, f_width = 0, f_height = 0, f_rnd = \<lambda>n. 1 / 2\<rparr> (wave_initial 40 1 280))
     = Some (0.02 * 1)
   \<and> map_option (ripplesRef \<circ> fst)
      (wave_draw \<lparr>f_now = 16, f_width = 0, f_height = 0, f_rnd = \<lambda>n. 1 / 2\<rparr>
         (wave_spawnRippleAt 0 (wave_initial 40 1 280)))
     = Some [\<lparr>r_x = 0, strength = 18 * 0.985 ^ 5, radius = 120, decay = 0.985\<rparr>]
   \<and> map_option (timeRef \<circ> fst)
      (shoal_draw \<lparr>f_now = 16, f_width = 0, f_height = 0, f_rnd = \<lambda>n. 1 / 2\<rparr> (shoal_initial 40 1))
     = Some (0.016 * (0.9 + 1 * 0.4))"
proof -
  let ?fr = "\<lparr>f_now = 16, f_width = 0, f_height = 0, f_rnd = \<lambda>n. 1 / 2\<rparr>"
  let ?r = "\<lparr>r_x = 0, strength = 18, radius = 120, decay = 0.985\<rparr>"
  have rnd: "random_ok (f_rnd ?fr)"
    by (simp add: random_ok_def)
  have ok: "canvas_ok (wave_initial 40 1 280)"
    by (simp add: canvas_ok_def wave_initial_def ripples_ok_def particles_ok_def)
  have okr: "canvas_ok (wave_spawnRippleAt 0 (wave_initial 40 1 280))"
    by (simp add: canvas_ok_def wave_spawnRippleAt_def wave_initial_def ripples_ok_def particles_ok_def)
  have sok: "canvas_ok (shoal_initial 40 1)"
    by (simp add: canvas_ok_def shoal_initial_def ripples_ok_def particles_ok_def)
  from wave_frame_effect [OF ok rnd] obtain st' pts where
    "wave_draw ?fr (wave_initial 40 1 280) = Some (st', pts)"
    and "phaseRef st' = phaseRef (wave_initial 40 1 280) + 0.02 * speedRef (wave_initial 40 1 280)"
    by blast
  then have a: "map_option (phaseRef \<circ> fst) (wave_draw ?fr (wave_initial 40 1 280)) = Some (0.02 * 1)"
    by (simp add: wave_initial_def)
  have "\<not> 18 * 0.985 ^ 5 < (0.3::real)"
    by (simp add: power_divide)
  then have five: "(wave_prune ^^ 5) [?r]
      = [\<lparr>r_x = 0, strength = 18 * 0.985 ^ 5, radius = 120, decay = 0.985\<rparr>]"
    using wave_prune_funpow_single [of ?r 5] by simp
  from wave_frame_effect [OF okr rnd] obtain st'' pts' where
    "wave_draw ?fr (wave_spawnRippleAt 0 (wave_initial 40 1 280)) = Some (st'', pts')"
    and "ripplesRef st'' = (wave_prune ^^ (5 * (f_width ?fr div 2 + 1)))
        (ripplesRef (wave_spawnRippleAt 0 (wave_initial 40 1 280)))"
    by blast
  then have b: "map_option (ripplesRef \<circ> fst)
      (wave_draw ?fr (wave_spawnRippleAt 0 (wave_initial 40 1 280)))
     = Some [\<lparr>r_x = 0, strength = 18 * 0.985 ^ 5, radius = 120, decay = 0.985\<rparr>]"
    using five by (simp add: wave_spawnRippleAt_def wave_initial_def)
  from shoal_frame_effect [OF sok rnd] obtain sst' pic where
    "shoal_draw ?fr (shoal_initial 40 1) = Some (sst', pic)"
    and "timeRef sst' = timeRef (shoal_initial 40 1) + 0.016 * (0.9 + speedRef (shoal_initial 40 1) * 0.4)"
    by blast
  then have c: "map_option (timeRef \<circ> fst) (shoal_draw ?fr (shoal_initial 40 1))
      = Some (0.016 * (0.9 + 1 * 0.4))"
    by (simp add: shoal_initial_def)
  from a b c show ?thesis by (iprover intro: conjI)
qed

text \<open>
  Claim C10, amended. The only short-circuit of a frame is the \<open>mounted\<close> flag: on an unmounted
  canvas a frame of either component returns at once and changes nothing. On a mounted canvas
  of zero width or zero height the frame runs like any other: it returns (no division has a
  zero divisor and nothing throws), the phase (WaveCanvas) or the time (ShoalingCanvas)
  advances, every ripple is decayed once per sample (at zero width there is the one sample
  at \<open>x = 0\<close>, taken once per layer in WaveCanvas), the surface is sampled, and the particle
  list after the frame is the list before it put through the spawn loop on the sampled
  surface (spawn count 4 in WaveCanvas and 3 in ShoalingCanvas while under capacity, else 1)
  and then through the update loop. One frame on a canvas of size 0 x 0, with \<open>Math.random()\<close> returning 0.5, takes a
  fresh WaveCanvas of amplitude 5 to four particles of life 1 at \<open>x = 1.1\<close>, and a fresh
  ShoalingCanvas of amplitude 6 to three particles of life 1 at \<open>x = 1.6\<close>, 3.12 px above the
  surface, which is held at 2 px above the seabed.
\<close>

theorem zero_size_frame_runs_and_returns:
  "(\<not> mounted wst \<longrightarrow> wave_draw fr wst = Some (wst, []))
   \<and> (\<not> mounted sst \<longrightarrow>
        shoal_draw fr sst = Some (sst, \<lparr>pic_seabed = [], pic_surface = [], pic_seabed_back = []\<rparr>))
   \<and> ((f_width fr = 0 \<or> f_height fr = 0) \<and> canvas_ok wst \<and> random_ok (f_rnd fr) \<longrightarrow>
        (\<exists>st' pts spawned. wave_draw fr wst = Some (st', pts)
           \<and> canvas_ok st'
           \<and> phaseRef st' = phaseRef wst + 0.02 * speedRef wst
           \<and> ripplesRef st' = (wave_prune ^^ (5 * (f_width fr div 2 + 1))) (ripplesRef wst)
           \<and> length pts = f_width fr div 2 + 1
           \<and> wave_spawn (if int (length (particlesRef wst)) < wave_maxParticles (f_width fr) then 4 else 1)
                 (wave_maxParticles (f_width fr)) (f_width fr) (speedRef wst) pts (f_rnd fr) 0
                 (particlesRef wst) = Some spawned
           \<and> wave_update (f_width fr) (f_height fr) (pointerRef wst) spawned
               = Some (particlesRef st')))
   \<and> ((f_width fr = 0 \<or> f_height fr = 0) \<and> canvas_ok sst \<and> random_ok (f_rnd fr) \<longrightarrow>
        (\<exists>st' pic spawned. shoal_draw fr sst = Some (st', pic)
           \<and> canvas_ok st'
           \<and> timeRef st' = timeRef sst + 0.016 * (0.9 + speedRef sst * 0.4)
           \<and> ripplesRef st' = (shoal_prune ^^ (f_width fr div 2 + 1)) (ripplesRef sst)
           \<and> length (pic_surface pic) = f_width fr div 2 + 1
           \<and> shoal_spawn (if int (length (particlesRef sst)) < shoal_max (f_width fr) then 3 else 1)
                 (f_width fr) (speedRef sst) (pic_surface pic) (f_rnd fr) 0 (particlesRef sst)
               = Some spawned
           \<and> shoal_update (f_width fr) (f_height fr) (pointerRef sst) spawned
               = Some (particlesRef st')))
   \<and> wave_draw \<lparr>f_now = 16, f_width = 0, f_height = 0, f_rnd = \<lambda>n. 1 / 2\<rparr> (wave_initial 5 1 280)
       = Some ((wave_initial 5 1 280)
            \<lparr>phaseRef := 0.02,
             particlesRef := replicate 4
               \<lparr>p_x = 1.1, p_y = sin (3 / 700) * 5 - 4.15, p_vx = 1.1, p_vy = - 0.147,
                life = 1, maxLife = 90, p_size = 2, p_alpha = 0.8 * (1 - 1 / 90)\<rparr>\<rparr>,
          [\<lparr>pt_x = 0, pt_y = sin (3 / 700) * 5\<rparr>])
   \<and> shoal_draw \<lparr>f_now = 16, f_width = 0, f_height = 0, f_rnd = \<lambda>n. 1 / 2\<rparr> (shoal_initial 6 1)
       = Some ((shoal_initial 6 1)
            \<lparr>timeRef := 0.0208,
             particlesRef := replicate 3
               \<lparr>p_x = 1.6, p_y = - 13.12, p_vx = 1.6, p_vy = - 0.116,
                life = 1, maxLife = 95, p_size = 1.9, p_alpha = 0.9 * (1 - 1 / 95)\<rparr>\<rparr>,
          \<lparr>pic_seabed = [\<lparr>pt_x = 0, pt_y = - 8\<rparr>], pic_surface = [\<lparr>pt_x = 0, pt_y = - 10\<rparr>],
           pic_seabed_back = [\<lparr>pt_x = 0, pt_y = - 8\<rparr>, \<lparr>pt_x = 0, pt_y = - 8\<rparr>]\<rparr>)"
proof -
  have a: "\<not> mounted wst \<longrightarrow> wave_draw fr wst = Some (wst, [])"
    using wave_draw_unmounted [of wst fr] by blast
  have b: "\<not> mounted sst \<longrightarrow>
        shoal_draw fr sst = Some (sst, \<lparr>pic_seabed = [], pic_surface = [], pic_seabed_back = []\<rparr>)"
    using shoal_draw_unmounted [of sst fr] by blast
  note c = wave_zero_size_frame [of wst fr]
  note d = shoal_zero_size_frame [of sst fr]
  from a b c d wave_zero_frame shoal_zero_frame show ?thesis
    by (iprover intro: conjI impI elim: conjE)
qed

theorem zero_size_frame_runs_and_returns_witness:
  "f_width \<lparr>f_now = 16, f_width = 0, f_height = 0, f_rnd = \<lambda>n. 1 / 2\<rparr> = 0
   \<and> canvas_ok (wave_initial 5 1 280)
   \<and> canvas_ok (shoal_initial 6 1)
   \<and> random_ok (\<lambda>n. 1 / 2)
   \<and> mounted ((wave_initial 5 1 280)\<lparr>mounted := False\<rparr>) = False
   \<and> mounted ((shoal_initial 6 1)\<lparr>mounted := False\<rparr>) = False
   \<and> wave_draw \<lparr>f_now = 16, f_width = 0, f_height = 0, f_rnd = \<lambda>n. 1 / 2\<rparr>
        ((wave_initial 5 1 280)\<lparr>mounted := False\<rparr>)
       = Some ((wave_initial 5 1 280)\<lparr>mounted := False\<rparr>, [])
   \<and> shoal_draw \<lparr>f_now = 16, f_width = 0, f_height = 0, f_rnd = \<lambda>n. 1 / 2\<rparr>
        ((shoal_initial 6 1)\<lparr>mounted := False\<rparr>)
       = Some ((shoal_initial 6 1)\<lparr>mounted := False\<rparr>,
           \<lparr>pic_seabed = [], pic_surface = [], pic_seabed_back = []\<rparr>)
   \<and> (\<exists>st' pts. wave_draw \<lparr>f_now = 16, f_width = 0, f_height = 0, f_rnd = \<lambda>n. 1 / 2\<rparr>
                    (wave_initial 5 1 280) = Some (st', pts)
         \<and> phaseRef st' = 0.02 \<and> length pts = 1
         \<and> wave_update 0 0 \<lparr>ptr_x = 0, ptr_y = 0, inside = False\<rparr>
              (replicate 4 \<lparr>p_x = 0, p_y = sin (3 / 700) * 5 - 4, p_vx = 1.1, p_vy = - 0.15,
                 life = 0, maxLife = 90, p_size = 2, p_alpha = 0.8\<rparr>)
             = Some (particlesRef st')
         \<and> particlesRef st' = replicate 4
               \<lparr>p_x = 1.1, p_y = sin (3 / 700) * 5 - 4.15, p_vx = 1.1, p_vy = - 0.147,
                life = 1, maxLife = 90, p_size = 2, p_alpha = 0.8 * (1 - 1 / 90)\<rparr>)
   \<and> (\<exists>st' pic. shoal_draw \<lparr>f_now = 16, f_width = 0, f_height = 0, f_rnd = \<lambda>n. 1 / 2\<rparr>
                    (shoal_initial 6 1) = Some (st', pic)
         \<and> timeRef st' = 0.0208 \<and> length (pic_surface pic) = 1
         \<and> shoal_update 0 0 \<lparr>ptr_x = 0, ptr_y = 0, inside = False\<rparr>
              (replicate 3 \<lparr>p_x = 0, p_y = - 13, p_vx = 1.6, p_vy = - 0.12,
                 life = 0, maxLife = 95, p_size = 1.9, p_alpha = 0.85\<rparr>)
             = Some (particlesRef st')
         \<and> particlesRef st' = replicate 3
               \<lparr>p_x = 1.6, p_y = - 13.12, p_vx = 1.6, p_vy = - 0.116,
                life = 1, maxLife = 95, p_size = 1.9, p_alpha = 0.9 * (1 - 1 / 95)\<rparr>)"
proof -
  let ?fr = "\<lparr>f_now = 16, f_width = 0, f_height = 0, f_rnd = \<lambda>n. 1 / 2\<rparr>"
  let ?wu = "(wave_initial 5 1 280)\<lparr>mounted := False\<rparr>"
  let ?su = "(shoal_initial 6 1)\<lparr>mounted := False\<rparr>"
  let ?wp = "\<lparr>p_x = 1.1, p_y = sin (3 / 700) * 5 - 4.15, p_vx = 1.1, p_vy = - 0.147,
                life = 1, maxLife = 90, p_size = 2, p_alpha = 0.8 * (1 - 1 / 90)\<rparr>"
  let ?sp = "\<lparr>p_x = 1.6, p_y = - 13.12, p_vx = 1.6, p_vy = - 0.116,
                life = 1, maxLife = 95, p_size = 1.9, p_alpha = 0.9 * (1 - 1 / 95)\<rparr>"
  have z: "f_width ?fr = 0" by simp
  have rnd: "random_ok (\<lambda>n. 1 / 2)"
    by (simp add: random_ok_def)
  have ok: "canvas_ok (wave_initial 5 1 280)"
    by (simp add: canvas_ok_def wave_initial_def ripples_ok_def particles_ok_def)
  have sok: "canvas_ok (shoal_initial 6 1)"
    by (simp add: canvas_ok_def shoal_initial_def ripples_ok_def particles_ok_def)
  have wu: "mounted ?wu = False" and su: "mounted ?su = False"
    by simp_all
  have nwu: "\<not> mounted ?wu" and nsu: "\<not> mounted ?su"
    by simp_all
  have hw: "(f_width ?fr = 0 \<or> f_height ?fr = 0) \<and> canvas_ok (wave_initial 5 1 280)
      \<and> random_ok (f_rnd ?fr)"
    using ok rnd by simp
  have hs: "(f_width ?fr = 0 \<or> f_height ?fr = 0) \<and> canvas_ok (shoal_initial 6 1)
      \<and> random_ok (f_rnd ?fr)"
    using sok rnd by simp
  note mnt = zero_size_frame_runs_and_returns
    [where fr = ?fr and wst = "wave_initial 5 1 280" and sst = "shoal_initial 6 1"]
  note unm = zero_size_frame_runs_and_returns [where fr = ?fr and wst = ?wu and sst = ?su]
  have uw: "wave_draw ?fr ?wu = Some (?wu, [])"
    by (rule unm [THEN conjunct1, THEN mp, OF nwu])
  have us: "shoal_draw ?fr ?su = Some (?su, \<lparr>pic_seabed = [], pic_surface = [], pic_seabed_back = []\<rparr>)"
    by (rule unm [THEN conjunct2, THEN conjunct1, THEN mp, OF nsu])
  have wv: "wave_draw ?fr (wave_initial 5 1 280)
      = Some ((wave_initial 5 1 280)\<lparr>phaseRef := 0.02, particlesRef := replicate 4 ?wp\<rparr>,
          [\<lparr>pt_x = 0, pt_y = sin (3 / 700) * 5\<rparr>])"
    by (rule mnt [THEN conjunct2, THEN conjunct2, THEN conjunct2, THEN conjunct2, THEN conjunct1])
  have sv: "shoal_draw ?fr (shoal_initial 6 1)
      = Some ((shoal_initial 6 1)\<lparr>timeRef := 0.0208, particlesRef := replicate 3 ?sp\<rparr>,
          \<lparr>pic_seabed = [\<lparr>pt_x = 0, pt_y = - 8\<rparr>], pic_surface = [\<lparr>pt_x = 0, pt_y = - 10\<rparr>],
           pic_seabed_back = [\<lparr>pt_x = 0, pt_y = - 8\<rparr>, \<lparr>pt_x = 0, pt_y = - 8\<rparr>]\<rparr>)"
    by (rule mnt [THEN conjunct2, THEN conjunct2, THEN conjunct2, THEN conjunct2, THEN conjunct2])
  from mnt [THEN conjunct2, THEN conjunct2, THEN conjunct1, THEN mp, OF hw]
  obtain st' pts spawned where
    d: "wave_draw ?fr (wave_initial 5 1 280) = Some (st', pts)"
    and ph: "phaseRef st' = phaseRef (wave_initial 5 1 280) + 0.02 * speedRef (wave_initial 5 1 280)"
    and len: "length pts = f_width ?fr div 2 + 1"
    and sp: "wave_spawn (if int (length (particlesRef (wave_initial 5 1 280)))
                 < wave_maxParticles (f_width ?fr) then 4 else 1)
          (wave_maxParticles (f_width ?fr)) (f_width ?fr) (speedRef (wave_initial 5 1 280)) pts
          (f_rnd ?fr) 0 (particlesRef (wave_initial 5 1 280)) = Some spawned"
    and up: "wave_update (f_width ?fr) (f_height ?fr) (pointerRef (wave_initial 5 1 280)) spawned
          = Some (particlesRef st')"
    by (elim exE conjE)
  have pts: "pts = [\<lparr>pt_x = 0, pt_y = sin (3 / 700) * 5\<rparr>]"
    and st': "st' = (wave_initial 5 1 280)\<lparr>phaseRef := 0.02, particlesRef := replicate 4 ?wp\<rparr>"
    using d wv by simp_all
  have spw: "spawned = replicate 4 \<lparr>p_x = 0, p_y = sin (3 / 700) * 5 - 4, p_vx = 1.1, p_vy = - 0.15,
                 life = 0, maxLife = 90, p_size = 2, p_alpha = 0.8\<rparr>"
    using sp wave_spawn_zero_width [of "sin (3 / 700) * 5"]
    unfolding pts by (simp add: wave_initial_def wave_maxParticles_def)
  have w: "\<exists>st' pts. wave_draw ?fr (wave_initial 5 1 280) = Some (st', pts)
         \<and> phaseRef st' = 0.02 \<and> length pts = 1
         \<and> wave_update 0 0 \<lparr>ptr_x = 0, ptr_y = 0, inside = False\<rparr>
              (replicate 4 \<lparr>p_x = 0, p_y = sin (3 / 700) * 5 - 4, p_vx = 1.1, p_vy = - 0.15,
                 life = 0, maxLife = 90, p_size = 2, p_alpha = 0.8\<rparr>)
             = Some (particlesRef st')
         \<and> particlesRef st' = replicate 4 ?wp"
    using d ph len up unfolding spw by (auto simp: wave_initial_def st')
  from mnt [THEN conjunct2, THEN conjunct2, THEN conjunct2, THEN conjunct1, THEN mp, OF hs]
  obtain sst' pic sspawned where
    sd: "shoal_draw ?fr (shoal_initial 6 1) = Some (sst', pic)"
    and sph: "timeRef sst' = timeRef (shoal_initial 6 1) + 0.016 * (0.9 + speedRef (shoal_initial 6 1) * 0.4)"
    and slen: "length (pic_surface pic) = f_width ?fr div 2 + 1"
    and ssp: "shoal_spawn (if int (length (particlesRef (shoal_initial 6 1)))
                 < shoal_max (f_width ?fr) then 3 else 1)
          (f_width ?fr) (speedRef (shoal_initial 6 1)) (pic_surface pic)
          (f_rnd ?fr) 0 (particlesRef (shoal_initial 6 1)) = Some sspawned"
    and sup: "shoal_update (f_width ?fr) (f_height ?fr) (pointerRef (shoal_initial 6 1)) sspawned
          = Some (particlesRef sst')"
    by (elim exE conjE)
  have pic: "pic_surface pic = [\<lparr>pt_x = 0, pt_y = - 10\<rparr>]"
    and sst': "sst' = (shoal_initial 6 1)\<lparr>timeRef := 0.0208, particlesRef := replicate 3 ?sp\<rparr>"
    using sd sv by auto
  have sspw: "sspawned = replicate 3 \<lparr>p_x = 0, p_y = - 13, p_vx = 1.6, p_vy = - 0.12,
                 life = 0, maxLife = 95, p_size = 1.9, p_alpha = 0.85\<rparr>"
    using ssp shoal_spawn_zero_width [of "- 10"]
    unfolding pic by (simp add: shoal_initial_def shoal_max_def)
  have s: "\<exists>st' pic. shoal_draw ?fr (shoal_initial 6 1) = Some (st', pic)
         \<and> timeRef st' = 0.0208 \<and> length (pic_surface pic) = 1
         \<and> shoal_update 0 0 \<lparr>ptr_x = 0, ptr_y = 0, inside = False\<rparr>
              (replicate 3 \<lparr>p_x = 0, p_y = - 13, p_vx = 1.6, p_vy = - 0.12,
                 life = 0, maxLife = 95, p_size = 1.9, p_alpha = 0.85\<rparr>)
             = Some (particlesRef st')
         \<and> particlesRef st' = replicate 3 ?sp"
    using sd sph slen sup unfolding sspw by (auto simp: shoal_initial_def sst')
  from z ok sok rnd wu su uw us w s show ?thesis
    by (iprover intro: conjI)
qed

section \<open>Elapsed time and frame count\<close>

lemma wave_frames_phase:
  "canvas_ok st \<Longrightarrow> \<forall>fr\<in>set frs. random_ok (f_rnd fr) \<Longrightarrow>
    \<exists>st'. wave_events (map WaveFrame frs) st = Some st'
       \<and> phaseRef st' = phaseRef st + real (length frs) * (0.02 * speedRef st)"
proof (induction frs arbitrary: st)
  case Nil
  then show ?case by simp
next
  case (Cons fr frs)
  from Cons.prems(2) have rnd: "random_ok (f_rnd fr)" and rest: "\<forall>fr\<in>set frs. random_ok (f_rnd fr)"
    by simp_all
  from wave_frame_effect [OF Cons.prems(1) rnd] obtain st1 pts where
    d: "wave_draw fr st = Some (st1, pts)" and ok: "canvas_ok st1"
    and ph: "phaseRef st1 = phaseRef st + 0.02 * speedRef st"
    and sp: "speedRef st1 = speedRef st"
    by blast
  from Cons.IH [OF ok rest] obtain st' where
    r: "wave_events (map WaveFrame frs) st1 = Some st'"
    and ph': "phaseRef st' = phaseRef st1 + real (length frs) * (0.02 * speedRef st1)"
    by blast
  have "wave_events (map WaveFrame (fr # frs)) st = Some st'"
    using d r by simp
  moreover have "phaseRef st' = phaseRef st + real (length (fr # frs)) * (0.02 * speedRef st)"
  proof -
    define k where "k = 0.02 * speedRef st"
    have "phaseRef st' = phaseRef st + k + real (length frs) * k"
      using ph ph' sp by (simp add: k_def)
    then have "phaseRef st' = phaseRef st + real (length (fr # frs)) * k"
      by (simp add: distrib_right)
    then show ?thesis by (simp only: k_def)
  qed
  ultimately show ?case by blast
qed

lemma shoal_frames_time:
  "canvas_ok st \<Longrightarrow> \<forall>fr\<in>set frs. random_ok (f_rnd fr) \<Longrightarrow>
    \<exists>st'. shoal_events (map ShoalFrame frs) st = Some st'
       \<and> timeRef st' = timeRef st + real (length frs) * (0.016 * (0.9 + speedRef st * 0.4))"
proof (induction frs arbitrary: st)
  case Nil
  then show ?case by simp
next
  case (Cons fr frs)
  from Cons.prems(2) have rnd: "random_ok (f_rnd fr)" and rest: "\<forall>fr\<in>set frs. random_ok (f_rnd fr)"
    by simp_all
  from shoal_frame_effect [OF Cons.prems(1) rnd] obtain st1 pic where
    d: "shoal_draw fr st = Some (st1, pic)" and ok: "canvas_ok st1"
    and ph: "timeRef st1 = timeRef st + 0.016 * (0.9 + speedRef st * 0.4)"
    and sp: "speedRef st1 = speedRef st"
    by blast
  from Cons.IH [OF ok rest] obtain st' where
    r: "shoal_events (map ShoalFrame frs) st1 = Some st'"
    and ph': "timeRef st' = timeRef st1 + real (length frs) * (0.016 * (0.9 + speedRef st1 * 0.4))"
    by blast
  have "shoal_events (map ShoalFrame (fr # frs)) st = Some st'"
    using d r by simp
  moreover have "timeRef st' = timeRef st + real (length (fr # frs)) * (0.016 * (0.9 + speedRef st * 0.4))"
  proof -
    define k where "k = 0.016 * (0.9 + speedRef st * 0.4)"
    have "timeRef st' = timeRef st + k + real (length frs) * k"
      using ph ph' sp by (simp add: k_def)
    then have "timeRef st' = timeRef st + real (length (fr # frs)) * k"
      by (simp add: distrib_right)
    then show ?thesis by (simp only: k_def)
  qed
  ultimately show ?case by blast
qed

lemma loop_geometry:
  "\<exists>st' c cyc. loop pr w h now st
        = Some (st', \<lparr>frame_center = c, frame_trail = centers st', frame_cyclone = cyc\<rparr>)
     \<and> sampleCenter pr w h ((now - startTime st) / 1000) = Some c
     \<and> drawCyclone pr (pt_x c) (pt_y c) ((now - startTime st) / 1000) = Some cyc"
proof -
  obtain c where c: "sampleCenter pr w h ((now - startTime st) / 1000) = Some c"
    using sampleCenter_Some by blast
  obtain cyc where d: "drawCyclone pr (pt_x c) (pt_y c) ((now - startTime st) / 1000) = Some cyc"
    using drawCyclone_Some by blast
  have "loop pr w h now st = Some (record_trail now c st,
      \<lparr>frame_center = c, frame_trail = centers (record_trail now c st), frame_cyclone = cyc\<rparr>)"
    using c d by (simp add: loop_def Let_def)
  with c d show ?thesis by blast
qed

text \<open>
  Two WaveCanvas runs with the same props that both end at \<open>performance.now() = 1000\<close>, one
  of one frame and one of two frames, end with the phases 0.02 and 0.04; two such
  ShoalingCanvas runs end with the times 0.0208 and 0.0416.
\<close>

theorem phase_depends_on_frame_count_counterexample:
  "map_option phaseRef
      (wave_events [WaveFrame \<lparr>f_now = 1000, f_width = 800, f_height = 360, f_rnd = \<lambda>n. 1 / 2\<rparr>]
         (wave_initial 40 1 280)) = Some 0.02
   \<and> map_option phaseRef
      (wave_events [WaveFrame \<lparr>f_now = 500, f_width = 800, f_height = 360, f_rnd = \<lambda>n. 1 / 2\<rparr>,
                    WaveFrame \<lparr>f_now = 1000, f_width = 800, f_height = 360, f_rnd = \<lambda>n. 1 / 2\<rparr>]
         (wave_initial 40 1 280)) = Some 0.04
   \<and> map_option timeRef
      (shoal_events [ShoalFrame \<lparr>f_now = 1000, f_width = 800, f_height = 360, f_rnd = \<lambda>n. 1 / 2\<rparr>]
         (shoal_initial 40 1)) = Some 0.0208
   \<and> map_option timeRef
      (shoal_events [ShoalFrame \<lparr>f_now = 500, f_width = 800, f_height = 360, f_rnd = \<lambda>n. 1 / 2\<rparr>,
                     ShoalFrame \<lparr>f_now = 1000, f_width = 800, f_height = 360, f_rnd = \<lambda>n. 1 / 2\<rparr>]
         (shoal_initial 40 1)) = Some 0.0416"
proof -
  let ?a = "\<lparr>f_now = 500, f_width = 800, f_height = 360, f_rnd = \<lambda>n. 1 / 2\<rparr>"
  let ?b = "\<lparr>f_now = 1000, f_width = 800, f_height = 360, f_rnd = \<lambda>n. 1 / 2\<rparr>"
  have ok: "canvas_ok (wave_initial 40 1 280)"
    by (simp add: canvas_ok_def wave_initial_def ripples_ok_def particles_ok_def)
  have sok: "canvas_ok (shoal_initial 40 1)"
    by (simp add: canvas_ok_def shoal_initial_def ripples_ok_def particles_ok_def)
  have r1: "\<forall>fr\<in>set [?b]. random_ok (f_rnd fr)" and r2: "\<forall>fr\<in>set [?a, ?b]. random_ok (f_rnd fr)"
    by (simp_all add: random_ok_def)
  from wave_frames_phase [OF ok r1] have w1: "map_option phaseRef
      (wave_events [WaveFrame ?b] (wave_initial 40 1 280)) = Some 0.02"
    by (auto simp del: wave_events.simps simp add: wave_initial_def)
  from wave_frames_phase [OF ok r2] have w2: "map_option phaseRef
      (wave_events [WaveFrame ?a, WaveFrame ?b] (wave_initial 40 1 280)) = Some 0.04"
    by (auto simp del: wave_events.simps simp add: wave_initial_def)
  from shoal_frames_time [OF sok r1] have s1: "map_option timeRef
      (shoal_events [ShoalFrame ?b] (shoal_initial 40 1)) = Some 0.0208"
    by (auto simp del: shoal_events.simps simp add: shoal_initial_def)
  from shoal_frames_time [OF sok r2] have s2: "map_option timeRef
      (shoal_events [ShoalFrame ?a, ShoalFrame ?b] (shoal_initial 40 1)) = Some 0.0416"
    by (auto simp del: shoal_events.simps simp add: shoal_initial_def)
  from w1 w2 s1 s2 show ?thesis by (iprover intro: conjI)
qed

text \<open>
  Claim C1, amended. In TyphoonCanvas the geometry of a frame (the centre and the spiral
  bands, eye and eyewall) is a function of the elapsed time \<open>(now - startTime) / 1000\<close>, the
  props and the canvas size alone: two runs with the same start time draw the same geometry
  at the same \<open>now\<close>, whatever frames came before. In WaveCanvas and ShoalingCanvas the wave
  phase is advanced by a fixed step per frame: after \<open>n\<close> frames with unchanged speed the
  phase is the initial one plus \<open>n * 0.02 * speed\<close>, and the shoaling time is the initial one
  plus \<open>n * 0.016 * (0.9 + 0.4 * speed)\<close>, whatever the clock says.
\<close>

theorem geometry_time_or_frame_driven:
  "(startTime st1 = startTime st2 \<longrightarrow>
      (\<exists>st1' st2' c cyc.
          loop pr w h now st1
            = Some (st1', \<lparr>frame_center = c, frame_trail = centers st1', frame_cyclone = cyc\<rparr>)
        \<and> loop pr w h now st2
            = Some (st2', \<lparr>frame_center = c, frame_trail = centers st2', frame_cyclone = cyc\<rparr>)
        \<and> sampleCenter pr w h ((now - startTime st1) / 1000) = Some c
        \<and> drawCyclone pr (pt_x c) (pt_y c) ((now - startTime st1) / 1000) = Some cyc))
   \<and> (canvas_ok wst \<and> (\<forall>fr\<in>set frs. random_ok (f_rnd fr)) \<longrightarrow>
      (\<exists>st'. wave_events (map WaveFrame frs) wst = Some st'
         \<and> phaseRef st' = phaseRef wst + real (length frs) * (0.02 * speedRef wst)))
   \<and> (canvas_ok sst \<and> (\<forall>fr\<in>set frs. random_ok (f_rnd fr)) \<longrightarrow>
      (\<exists>st'. shoal_events (map ShoalFrame frs) sst = Some st'
         \<and> timeRef st' = timeRef sst + real (length frs) * (0.016 * (0.9 + speedRef sst * 0.4))))"
proof -
  have typhoon: "startTime st1 = startTime st2 \<longrightarrow>
      (\<exists>st1' st2' c cyc.
          loop pr w h now st1
            = Some (st1', \<lparr>frame_center = c, frame_trail = centers st1', frame_cyclone = cyc\<rparr>)
        \<and> loop pr w h now st2
            = Some (st2', \<lparr>frame_center = c, frame_trail = centers st2', frame_cyclone = cyc\<rparr>)
        \<and> sampleCenter pr w h ((now - startTime st1) / 1000) = Some c
        \<and> drawCyclone pr (pt_x c) (pt_y c) ((now - startTime st1) / 1000) = Some cyc)"
  proof
    assume eq: "startTime st1 = startTime st2"
    from loop_geometry [of pr w h now st1] obtain st1' c cyc where
      l1: "loop pr w h now st1
            = Some (st1', \<lparr>frame_center = c, frame_trail = centers st1', frame_cyclone = cyc\<rparr>)"
      and c: "sampleCenter pr w h ((now - startTime st1) / 1000) = Some c"
      and d: "drawCyclone pr (pt_x c) (pt_y c) ((now - startTime st1) / 1000) = Some cyc"
      by blast
    from loop_geometry [of pr w h now st2] obtain st2' c' cyc' where
      l2: "loop pr w h now st2
            = Some (st2', \<lparr>frame_center = c', frame_trail = centers st2', frame_cyclone = cyc'\<rparr>)"
      and c': "sampleCenter pr w h ((now - startTime st2) / 1000) = Some c'"
      and d': "drawCyclone pr (pt_x c') (pt_y c') ((now - startTime st2) / 1000) = Some cyc'"
      by blast
    from c c' eq have cc: "c' = c" by simp
    with d d' eq have "cyc' = cyc" by simp
    with l1 l2 c d cc show "\<exists>st1' st2' c cyc.
          loop pr w h now st1
            = Some (st1', \<lparr>frame_center = c, frame_trail = centers st1', frame_cyclone = cyc\<rparr>)
        \<and> loop pr w h now st2
            = Some (st2', \<lparr>frame_center = c, frame_trail = centers st2', frame_cyclone = cyc\<rparr>)
        \<and> sampleCenter pr w h ((now - startTime st1) / 1000) = Some c
        \<and> drawCyclone pr (pt_x c) (pt_y c) ((now - startTime st1) / 1000) = Some cyc"
      by blast
  qed
  from typhoon wave_frames_phase [of wst frs] shoal_frames_time [of sst frs]
  show ?thesis by blast
qed

theorem geometry_time_or_frame_driven_witness:
  "startTime \<lparr>startTime = 0, centers = [], lastTrailSample = 0\<rparr>
     = startTime \<lparr>startTime = 0, centers = [\<lparr>pt_x = 10, pt_y = 200\<rparr>], lastTrailSample = 960\<rparr>
   \<and> (\<exists>st1' st2' fr.
          loop \<lparr>spin = 1, travel = 80, wind = 0.9, pathAmp = 30, bands = 5\<rparr> 800 400 1000
              \<lparr>startTime = 0, centers = [], lastTrailSample = 0\<rparr>
            = Some (st1', fr\<lparr>frame_trail := centers st1'\<rparr>)
        \<and> loop \<lparr>spin = 1, travel = 80, wind = 0.9, pathAmp = 30, bands = 5\<rparr> 800 400 1000
              \<lparr>startTime = 0, centers = [\<lparr>pt_x = 10, pt_y = 200\<rparr>], lastTrailSample = 960\<rparr>
            = Some (st2', fr\<lparr>frame_trail := centers st2'\<rparr>))
   \<and> canvas_ok (wave_initial 40 1 280)
   \<and> canvas_ok (shoal_initial 40 1)
   \<and> random_ok (\<lambda>n. 1 / 2)
   \<and> (\<exists>st'. wave_events (map WaveFrame
          [\<lparr>f_now = 16, f_width = 800, f_height = 360, f_rnd = \<lambda>n. 1 / 2\<rparr>,
           \<lparr>f_now = 33, f_width = 800, f_height = 360, f_rnd = \<lambda>n. 1 / 2\<rparr>,
           \<lparr>f_now = 50, f_width = 800, f_height = 360, f_rnd = \<lambda>n. 1 / 2\<rparr>])
          (wave_initial 40 1 280) = Some st'
        \<and> phaseRef st' = 0.06)
   \<and> (\<exists>st'. shoal_events (map ShoalFrame
          [\<lparr>f_now = 16, f_width = 800, f_height = 360, f_rnd = \<lambda>n. 1 / 2\<rparr>,
           \<lparr>f_now = 33, f_width = 800, f_height = 360, f_rnd = \<lambda>n. 1 / 2\<rparr>,
           \<lparr>f_now = 50, f_width = 800, f_height = 360, f_rnd = \<lambda>n. 1 / 2\<rparr>])
          (shoal_initial 40 1) = Some st'
        \<and> timeRef st' = 0.0624)"
proof -
  let ?frs = "[\<lparr>f_now = 16, f_width = 800, f_height = 360, f_rnd = \<lambda>n. 1 / 2\<rparr>,
           \<lparr>f_now = 33, f_width = 800, f_height = 360, f_rnd = \<lambda>n. 1 / 2\<rparr>,
           \<lparr>f_now = 50, f_width = 800, f_height = 360, f_rnd = \<lambda>n::nat. 1 / 2 :: real\<rparr>]"
  let ?pr = "\<lparr>spin = 1, travel = 80, wind = 0.9, pathAmp = 30, bands = 5\<rparr>"
  let ?s1 = "\<lparr>startTime = 0, centers = [], lastTrailSample = 0\<rparr>"
  let ?s2 = "\<lparr>startTime = 0, centers = [\<lparr>pt_x = 10, pt_y = 200\<rparr>], lastTrailSample = 960\<rparr>"
  note all = geometry_time_or_frame_driven
    [where ?st1.0 = ?s1 and ?st2.0 = ?s2 and pr = ?pr and w = 800 and h = 400 and now = 1000
       and wst = "wave_initial 40 1 280" and sst = "shoal_initial 40 1" and frs = ?frs]
  have e: "startTime ?s1 = startTime ?s2" by simp
  have ok: "canvas_ok (wave_initial 40 1 280)"
    by (simp add: canvas_ok_def wave_initial_def ripples_ok_def particles_ok_def)
  have sok: "canvas_ok (shoal_initial 40 1)"
    by (simp add: canvas_ok_def shoal_initial_def ripples_ok_def particles_ok_def)
  have rnd: "random_ok (\<lambda>n. 1 / 2)"
    by (simp add: random_ok_def)
  have hw: "canvas_ok (wave_initial 40 1 280) \<and> (\<forall>fr\<in>set ?frs. random_ok (f_rnd fr))"
    using ok rnd by simp
  have hs: "canvas_ok (shoal_initial 40 1) \<and> (\<forall>fr\<in>set ?frs. random_ok (f_rnd fr))"
    using sok rnd by simp
  from all [THEN conjunct1, THEN mp, OF e]
  obtain st1' st2' c cyc where
    "loop ?pr 800 400 1000 ?s1
        = Some (st1', \<lparr>frame_center = c, frame_trail = centers st1', frame_cyclone = cyc\<rparr>)"
    and "loop ?pr 800 400 1000 ?s2
        = Some (st2', \<lparr>frame_center = c, frame_trail = centers st2', frame_cyclone = cyc\<rparr>)"
    by blast
  then have "loop ?pr 800 400 1000 ?s1
        = Some (st1', \<lparr>frame_center = c, frame_trail = [], frame_cyclone = cyc\<rparr>\<lparr>frame_trail := centers st1'\<rparr>)
      \<and> loop ?pr 800 400 1000 ?s2
        = Some (st2', \<lparr>frame_center = c, frame_trail = [], frame_cyclone = cyc\<rparr>\<lparr>frame_trail := centers st2'\<rparr>)"
    by simp
  then have t: "\<exists>st1' st2' fr.
          loop ?pr 800 400 1000 ?s1 = Some (st1', fr\<lparr>frame_trail := centers st1'\<rparr>)
        \<and> loop ?pr 800 400 1000 ?s2 = Some (st2', fr\<lparr>frame_trail := centers st2'\<rparr>)"
    by blast
  from all [THEN conjunct2, THEN conjunct1, THEN mp, OF hw]
  have w: "\<exists>st'. wave_events (map WaveFrame ?frs) (wave_initial 40 1 280) = Some st'
        \<and> phaseRef st' = 0.06"
    by (auto simp del: wave_events.simps simp add: wave_initial_def)
  from all [THEN conjunct2, THEN conjunct2, THEN mp, OF hs]
  have s: "\<exists>st'. shoal_events (map ShoalFrame ?frs) (shoal_initial 40 1) = Some st'
        \<and> timeRef st' = 0.0624"
    by (auto simp del: shoal_events.simps simp add: shoal_initial_def)
  from e t ok sok rnd w s show ?thesis
    by (iprover intro: conjI)
qed

end
